theory Spec2Isabelle
  imports Main "HOL-Library.Char_ord" "HOL-Library.List_Lexorder"
begin

section \<open>JavaScript strings\<close>

text \<open>
  Paths, keys and queries are JavaScript strings; they are modelled as \<^typ>\<open>string\<close>
  and the string methods the sources call are written out below with the results
  JavaScript gives, also at the boundaries (negative start index, no occurrence).
\<close>

definition startsWith :: "string \<Rightarrow> string \<Rightarrow> bool" where
  "startsWith s p = (take (length p) s = p)"

definition endsWith :: "string \<Rightarrow> string \<Rightarrow> bool" where
  "endsWith s p = (length p \<le> length s \<and> drop (length s - length p) s = p)"

definition includesStr :: "string \<Rightarrow> string \<Rightarrow> bool" where
  "includesStr s p = (\<exists>i \<in> set (upt 0 (Suc (length s))). startsWith (drop i s) p)"

text \<open>\<open>s.substring(a)\<close> and \<open>s.substring(a, b)\<close>: negative indices count as 0, indices
  past the end as the length, and the two are swapped when \<open>a > b\<close>.\<close>

definition substringFrom :: "string \<Rightarrow> int \<Rightarrow> string" where
  "substringFrom s a = drop (nat a) s"

definition substring :: "string \<Rightarrow> int \<Rightarrow> int \<Rightarrow> string" where
  "substring s a b =
     (let lo = nat (min a b); hi = nat (max a b) in take (hi - lo) (drop lo s))"

text \<open>\<open>s.lastIndexOf(c)\<close> for a one-character pattern: the last position of \<open>c\<close>, or -1.\<close>

fun lastIndexOfChar :: "string \<Rightarrow> char \<Rightarrow> int" where
  "lastIndexOfChar [] c = - 1"
| "lastIndexOfChar (x # xs) c =
     (let r = lastIndexOfChar xs c
      in if 0 \<le> r then r + 1 else if x = c then 0 else - 1)"

text \<open>\<open>s.lastIndexOf(c, from)\<close>: the last position of \<open>c\<close> that is at most \<open>from\<close>; a
  negative \<open>from\<close> counts as 0.\<close>

definition lastIndexOfFrom :: "string \<Rightarrow> char \<Rightarrow> int \<Rightarrow> int" where
  "lastIndexOfFrom s c from = lastIndexOfChar (take (Suc (nat from)) s) c"

text \<open>\<open>s.split("/").filter(Boolean)\<close>: the non-empty segments between slashes.\<close>

fun splitOn :: "char \<Rightarrow> string \<Rightarrow> string \<Rightarrow> string list" where
  "splitOn c acc [] = [rev acc]"
| "splitOn c acc (x # xs) =
     (if x = c then rev acc # splitOn c [] xs else splitOn c (x # acc) xs)"

definition split :: "string \<Rightarrow> char \<Rightarrow> string list" where
  "split s c = splitOn c [] s"

definition segments :: "string \<Rightarrow> string list" where
  "segments s = filter (\<lambda>x. x \<noteq> []) (split s CHR ''/'')"

text \<open>\<open>xs.pop() || d\<close>: the last element, or \<open>d\<close> when there is none (or it is empty).\<close>

definition popOr :: "string list \<Rightarrow> string \<Rightarrow> string" where
  "popOr xs d = (if xs = [] \<or> last xs = [] then d else last xs)"

text \<open>\<open>s.trim()\<close> removes white space and line terminators at both ends. Of the code
  units JavaScript counts as such, those that fit a \<^typ>\<open>char\<close> are tab, line feed,
  vertical tab, form feed, carriage return, space and the no-break space.\<close>

definition isWhiteSpace :: "char \<Rightarrow> bool" where
  "isWhiteSpace c = (of_char c \<in> {9, 10, 11, 12, 13, 32, 160 :: nat})"

definition trim :: "string \<Rightarrow> string" where
  "trim s = rev (dropWhile isWhiteSpace (rev (dropWhile isWhiteSpace s)))"

section \<open>Errors\<close>

text \<open>
  The constants module (\<open>constants/index.js\<close>) is not among the sources.
  Modelled from the spec: \<open>ApiStatus\<close> holds the HTTP status codes of section 6
  (400 bad request, 401 unauthenticated, 403 forbidden, 404 not found, 409 conflict,
  500 internal, 501 unimplemented capability).
\<close>

definition BAD_REQUEST :: nat where "BAD_REQUEST = 400"
definition UNAUTHORIZED :: nat where "UNAUTHORIZED = 401"
definition FORBIDDEN :: nat where "FORBIDDEN = 403"
definition NOT_FOUND :: nat where "NOT_FOUND = 404"
definition CONFLICT :: nat where "CONFLICT = 409"
definition INTERNAL_ERROR :: nat where "INTERNAL_ERROR = 500"
definition NOT_IMPLEMENTED :: nat where "NOT_IMPLEMENTED = 501"

text \<open>
  The messages of the sources are Chinese text; each one the model needs is a
  constructor here, named after what the text says. \<open>Failed op\<close> is the default
  message of the operation \<open>op\<close>, and \<open>Text\<close> is a message that comes from elsewhere
  (a collaborator, the provider SDK).
\<close>

datatype message =
    UnsupportedRead string
  | UnsupportedWrite string
  | UnsupportedAtomic string
  | UnsupportedPresigned string
  | UnsupportedMultipart string
  | UnsupportedStream string
  | QueryTooShort
  | InvalidScope
  | LimitOutOfRange
  | NegativeOffset
  | UnauthorizedAccess
  | MountForbidden
  | StorageConfigMissing
  | ParentMissing
  | DirectoryExists
  | TargetParentMissing
  | TargetExists
  | FileMissing
  | DirectoryMissingOrEmpty
  | SourceDirectoryMissingOrEmpty
  | PathKindMismatch
  | CrossMountRename
  | FileOrDirectoryMissing
  | AccessDenied
  | ContentTooLarge
  | ExecutableNotAllowed
  | UnsupportedContent
  | UpdateDenied
  | GetInfoFailed string string
  | DeleteDirectoryFailed string
  | RenameDirectoryFailed string
  | CannotPresignDirectory
  | PresignUnsupported
  | ProviderContentTooLarge
  | UnknownFailure
  | Failed string
  | Text string

text \<open>What an error thrown by \<open>s3Client.send\<close> carries: \<open>$metadata\<close> (absent, or
  present with or without an \<open>httpStatusCode\<close>), \<open>name\<close> and \<open>message\<close>.\<close>

record s3_error =
  metadata :: "nat option option"
  errName :: string
  errMessage :: string

text \<open>\<open>error.$metadata?.httpStatusCode\<close>.\<close>

definition httpStatusCode :: "s3_error \<Rightarrow> nat option" where
  "httpStatusCode e = (case metadata e of None \<Rightarrow> None | Some c \<Rightarrow> c)"

text \<open>A thrown value: an \<open>HTTPException\<close> with its status and message, an error of the
  S3 SDK, or any other error of which only the message is read.\<close>

datatype exn =
    HTTPException nat message
  | S3ServiceException s3_error
  | OtherError string

section \<open>Mounts\<close>

record mount =
  mount_id :: string
  mount_name :: string
  mount_path :: string
  storage_type :: string
  storage_config_id :: string
  cache_ttl :: int
  created_at :: string
  updated_at :: string

section \<open>The FileSystem facade\<close>

text \<open>
  The capability table (\<open>interfaces/capabilities/index.js\<close>) and the drivers are not
  among the sources. Modelled from the spec: the capabilities are the closed set of
  section 3, and a driver declares a subset of them, which \<open>hasCapability\<close> reads.
\<close>

datatype capability = READER | WRITER | ATOMIC | PRESIGNED | MULTIPART

text \<open>The values that drivers return and the facade passes on are JavaScript objects.\<close>

datatype json =
    JNull
  | JBool bool
  | JNum int
  | JStr string
  | JArr "json list"
  | JObj "(string \<times> json) list"

datatype driver_method =
    M_listDirectory | M_getFileInfo | M_downloadFile | M_uploadFile | M_uploadStream
  | M_createDirectory | M_renameItem | M_copyItem | M_batchRemoveItems
  | M_generatePresignedUrl
  | M_initializeFrontendMultipartUpload | M_completeFrontendMultipartUpload
  | M_abortFrontendMultipartUpload | M_listMultipartUploads | M_listMultipartParts
  | M_refreshMultipartUrls | M_abortBackendMultipartUpload
  | M_exists | M_updateFile

text \<open>
  A call of a driver method as the facade makes it: the method, its first positional
  argument (the full path for some methods, the sub-path for others, the array of
  paths for the batch removal), the \<open>mount\<close> and \<open>subPath\<close> options, and the remaining
  arguments, which the facade forwards as they came (\<open>'a\<close>). \<open>SearchCall\<close> is
  \<open>driver.search(query, {mount, searchPath, maxResults, db})\<close>.
\<close>

datatype 'a driver_call =
    DriverCall driver_method json mount string 'a
  | SearchCall string mount "string option" nat

text \<open>What the facade records of its collaborators' work, in order.\<close>

datatype 'a fs_event =
    Invoked "'a driver_call"
  | SearchCacheGet
  | SearchCacheSet
  | MountsFindAll
  | GetDriver string

record ('w, 'a) fs_state =
  world :: 'w
  events :: "'a fs_event list"

record ('w, 'a) driver =
  capabilities :: "capability set"
  getType :: string
  uploadStreamDefined :: bool
  run :: "'a driver_call \<Rightarrow> 'w \<Rightarrow> (exn + json) \<times> 'w"

definition hasCapability :: "('w, 'a) driver \<Rightarrow> capability \<Rightarrow> bool" where
  "hasCapability d c = (c \<in> capabilities d)"

text \<open>Calling a driver method: the driver works on the world, and the call is recorded.\<close>

definition invoke ::
  "('w, 'a) driver \<Rightarrow> 'a driver_call \<Rightarrow> ('w, 'a) fs_state
     \<Rightarrow> (exn + json) \<times> ('w, 'a) fs_state" where
  "invoke d c st =
     (case run d c (world st) of
        (r, w') \<Rightarrow> (r, st\<lparr>world := w', events := events st @ [Invoked c]\<rparr>))"

text \<open>
  The mount manager is not among the sources: \<open>getDriverByPath(path, userIdOrInfo,
  userType)\<close> and \<open>getDriver(mount)\<close> are taken as they are, working on the world and
  free to throw.
\<close>

record ('w, 'a) mountManager =
  getDriverByPath ::
    "string \<Rightarrow> string \<Rightarrow> string \<Rightarrow> 'w \<Rightarrow> (exn + ('w, 'a) driver \<times> mount \<times> string) \<times> 'w"
  getDriver :: "mount \<Rightarrow> 'w \<Rightarrow> (exn + ('w, 'a) driver) \<times> 'w"

text \<open>\<open>await this.mountManager.getDriverByPath(...)\<close>, then the rest of the method.\<close>

definition withDriver ::
  "('w, 'a) mountManager \<Rightarrow> string \<Rightarrow> string \<Rightarrow> string \<Rightarrow> ('w, 'a) fs_state
     \<Rightarrow> (('w, 'a) driver \<Rightarrow> mount \<Rightarrow> string \<Rightarrow> ('w, 'a) fs_state
           \<Rightarrow> (exn + json) \<times> ('w, 'a) fs_state)
     \<Rightarrow> (exn + json) \<times> ('w, 'a) fs_state" where
  "withDriver mm path userIdOrInfo userType st k =
     (case getDriverByPath mm path userIdOrInfo userType (world st) of
        (Inl e, w') \<Rightarrow> (Inl e, st\<lparr>world := w'\<rparr>)
      | (Inr (d, m, subPath), w') \<Rightarrow> k d m subPath (st\<lparr>world := w'\<rparr>))"









text \<open>\<open>batchRemoveItems\<close> answers an empty list itself and otherwise hands the whole
  list to the driver of the first path.\<close>

definition FileSystem_batchRemoveItems where
  "FileSystem_batchRemoveItems mm paths userIdOrInfo userType args st =
     (if paths = []
      then (Inr (JObj [(''success'', JNum 0), (''failed'', JArr [])]), st)
      else withDriver mm (hd paths) userIdOrInfo userType st (\<lambda>d m subPath st'.
        if \<not> hasCapability d WRITER
        then (Inl (HTTPException NOT_IMPLEMENTED (UnsupportedWrite (getType d))), st')
        else invoke d (DriverCall M_batchRemoveItems (JArr (map JStr paths)) m subPath args) st'))"












subsection \<open>searchFiles\<close>

record searchParams =
  sp_scope :: "string option"
  sp_mountId :: "string option"
  sp_path :: "string option"
  sp_limit :: "int option"
  sp_offset :: "int option"

record search_result =
  results :: "json list"
  total :: nat
  hasMore :: bool
  searchParams :: searchParams
  mountsSearched :: "nat option"

text \<open>
  The search cache, the mount repository and \<open>S3SearchOperations.sortSearchResults\<close>
  are not among the sources; they are taken as they are. \<open>findAll\<close> is
  \<open>mountRepository.findAll(false)\<close>, which may throw.
\<close>

record 'w search_deps =
  searchCache_get :: "string \<Rightarrow> searchParams \<Rightarrow> string \<Rightarrow> string \<Rightarrow> 'w \<Rightarrow> search_result option"
  searchCache_set ::
    "string \<Rightarrow> searchParams \<Rightarrow> string \<Rightarrow> string \<Rightarrow> search_result \<Rightarrow> nat \<Rightarrow> 'w \<Rightarrow> 'w"
  findAll :: "bool \<Rightarrow> 'w \<Rightarrow> exn + mount list"
  sortSearchResults :: "json list \<Rightarrow> string \<Rightarrow> json list"

definition logEvent :: "'a fs_event \<Rightarrow> ('w, 'a) fs_state \<Rightarrow> ('w, 'a) fs_state" where
  "logEvent e st = st\<lparr>events := events st @ [e]\<rparr>"

fun truthy :: "json \<Rightarrow> bool" where
  "truthy JNull = False"
| "truthy (JBool b) = b"
| "truthy (JNum n) = (n \<noteq> 0)"
| "truthy (JStr s) = (s \<noteq> [])"
| "truthy (JArr xs) = True"
| "truthy (JObj kvs) = True"

text \<open>\<open>allResults.push(...value)\<close>: an array gives its elements, a string its
  characters, and anything else is not iterable, which throws.\<close>

fun spread :: "json \<Rightarrow> exn + json list" where
  "spread (JArr xs) = Inr xs"
| "spread (JStr s) = Inr (map (\<lambda>c. JStr [c]) s)"
| "spread v = Inl (OtherError ''value is not iterable'')"

text \<open>
  \<open>targetMounts.map(async (mount) => ...)\<close> starts the function of every mount before
  any of them goes on: each runs up to its \<open>await this.mountManager.getDriver(mount)\<close>,
  so \<open>getDriver\<close> has been called for all the mounts, in their order, before any
  driver is searched. A call of \<open>getDriver\<close> is taken as one step; what it throws
  is kept for the function of that mount to catch.
\<close>

fun getDrivers ::
  "('w, 'a) mountManager \<Rightarrow> mount list \<Rightarrow> ('w, 'a) fs_state
     \<Rightarrow> (mount \<times> (exn + ('w, 'a) driver)) list \<times> ('w, 'a) fs_state" where
  "getDrivers mm [] st = ([], st)"
| "getDrivers mm (m # ms) st =
     (case getDriver mm m (world st) of
        (r, w') \<Rightarrow>
          (case getDrivers mm ms (logEvent (GetDriver (mount_id m)) (st\<lparr>world := w'\<rparr>)) of
             (rs, st') \<Rightarrow> ((m, r) # rs, st')))"

text \<open>The rest of the function of one mount, from the result of \<open>getDriver\<close> on;
  whatever is thrown there is caught and gives \<open>[]\<close>, and so does a driver without
  the Reader capability, whose \<open>search\<close> is not called.\<close>

definition searchMount ::
  "string \<Rightarrow> string option \<Rightarrow> string \<Rightarrow> mount \<Rightarrow> exn + ('w, 'a) driver
     \<Rightarrow> ('w, 'a) fs_state \<Rightarrow> json \<times> ('w, 'a) fs_state" where
  "searchMount scope path query m r st =
     (case r of
        Inl e \<Rightarrow> (JArr [], st)
      | Inr d \<Rightarrow>
          if \<not> hasCapability d READER then (JArr [], st)
          else (case invoke d
                       (SearchCall query m (if scope = ''directory'' then path else None) 1000)
                       st of
                  (Inl e, st') \<Rightarrow> (JArr [], st')
                | (Inr v, st') \<Rightarrow> (v, st')))"

text \<open>The functions of the mounts then go on in the order of the mounts.\<close>

fun searchDrivers ::
  "string \<Rightarrow> string option \<Rightarrow> string \<Rightarrow> (mount \<times> (exn + ('w, 'a) driver)) list
     \<Rightarrow> ('w, 'a) fs_state \<Rightarrow> json list \<times> ('w, 'a) fs_state" where
  "searchDrivers scope path query [] st = ([], st)"
| "searchDrivers scope path query ((m, r) # rs) st =
     (case searchMount scope path query m r st of
        (v, st') \<Rightarrow>
          (case searchDrivers scope path query rs st' of
             (vs, st'') \<Rightarrow> (v # vs, st'')))"

definition searchMounts ::
  "('w, 'a) mountManager \<Rightarrow> string \<Rightarrow> string option \<Rightarrow> string \<Rightarrow> mount list
     \<Rightarrow> ('w, 'a) fs_state \<Rightarrow> json list \<times> ('w, 'a) fs_state" where
  "searchMounts mm scope path query ms st =
     (case getDrivers mm ms st of
        (rs, st') \<Rightarrow> searchDrivers scope path query rs st')"

fun aggregate :: "json list \<Rightarrow> json list \<Rightarrow> exn + json list" where
  "aggregate allResults [] = Inr allResults"
| "aggregate allResults (v # vs) =
     (if truthy v
      then (case spread v of
              Inl e \<Rightarrow> Inl e
            | Inr xs \<Rightarrow> aggregate (allResults @ xs) vs)
      else aggregate allResults vs)"

text \<open>What \<open>searchFiles\<close> does once the parameters have passed the validation.\<close>

definition searchValidated ::
  "'w search_deps \<Rightarrow> ('w, 'a) mountManager \<Rightarrow> string \<Rightarrow> searchParams \<Rightarrow> string
     \<Rightarrow> string \<Rightarrow> string \<Rightarrow> string option \<Rightarrow> string option \<Rightarrow> int \<Rightarrow> int
     \<Rightarrow> ('w, 'a) fs_state \<Rightarrow> (exn + search_result) \<times> ('w, 'a) fs_state" where
  "searchValidated deps mm query sp userIdOrInfo userType scope mountId path limit offset st =
     (let st1 = logEvent SearchCacheGet st
      in case searchCache_get deps query sp userType userIdOrInfo (world st1) of
           Some cachedResult \<Rightarrow> (Inr cachedResult, st1)
         | None \<Rightarrow>
             (let st2 = logEvent MountsFindAll st1
              in case findAll deps False (world st2) of
                   Inl e \<Rightarrow> (Inl (HTTPException UNAUTHORIZED UnauthorizedAccess), st2)
                 | Inr accessibleMounts \<Rightarrow>
                     if accessibleMounts = []
                     then (Inr \<lparr>results = [], total = 0, hasMore = False,
                                searchParams = sp, mountsSearched = None\<rparr>, st2)
                     else
                       (let filtered =
                              ((scope = ''mount'' \<or> scope = ''directory'')
                                 \<and> mountId \<noteq> None \<and> mountId \<noteq> Some []);
                            targetMounts =
                              (if filtered
                               then filter (\<lambda>m. Some (mount_id m) = mountId) accessibleMounts
                               else accessibleMounts)
                        in if filtered \<and> targetMounts = []
                           then (Inl (HTTPException FORBIDDEN MountForbidden), st2)
                           else
                             (case searchMounts mm scope path query targetMounts st2 of
                                (mountResults, st3) \<Rightarrow>
                                  (case aggregate [] mountResults of
                                     Inl e \<Rightarrow> (Inl e, st3)
                                   | Inr allResults \<Rightarrow>
                                       (let sortedResults = sortSearchResults deps allResults query;
                                            n = length sortedResults;
                                            searchResult =
                                              \<lparr>results = take (nat limit) (drop (nat offset) sortedResults),
                                               total = n,
                                               hasMore = (offset + limit < int n),
                                               searchParams = sp,
                                               mountsSearched = Some (length targetMounts)\<rparr>
                                        in if 0 < n
                                           then (Inr searchResult,
                                                 logEvent SearchCacheSet
                                                   (st3\<lparr>world := searchCache_set deps query sp userType
                                                                     userIdOrInfo searchResult 300 (world st3)\<rparr>))
                                           else (Inr searchResult, st3)))))))"

text \<open>
  \<open>searchFiles(query, searchParams, userIdOrInfo, userType)\<close>. The destructuring gives
  \<open>scope\<close>, \<open>limit\<close> and \<open>offset\<close> their defaults where \<open>searchParams\<close> leaves them
  undefined; \<open>limit\<close> and \<open>offset\<close> are integers.
\<close>

definition FileSystem_searchFiles ::
  "'w search_deps \<Rightarrow> ('w, 'a) mountManager \<Rightarrow> string \<Rightarrow> searchParams \<Rightarrow> string \<Rightarrow> string
     \<Rightarrow> ('w, 'a) fs_state \<Rightarrow> (exn + search_result) \<times> ('w, 'a) fs_state" where
  "FileSystem_searchFiles deps mm query sp userIdOrInfo userType st =
     (let scope = (case sp_scope sp of None \<Rightarrow> ''global'' | Some s \<Rightarrow> s);
          mountId = sp_mountId sp;
          path = sp_path sp;
          limit = (case sp_limit sp of None \<Rightarrow> 50 | Some l \<Rightarrow> l);
          offset = (case sp_offset sp of None \<Rightarrow> 0 | Some k \<Rightarrow> k)
      in if query = [] \<or> length (trim query) < 2
         then (Inl (HTTPException BAD_REQUEST QueryTooShort), st)
         else if scope \<notin> set [''global'', ''mount'', ''directory'']
         then (Inl (HTTPException BAD_REQUEST InvalidScope), st)
         else if limit < 1 \<or> limit > 200
         then (Inl (HTTPException BAD_REQUEST LimitOutOfRange), st)
         else if offset < 0
         then (Inl (HTTPException BAD_REQUEST NegativeOffset), st)
         else searchValidated deps mm query sp userIdOrInfo userType scope mountId path
                limit offset st)"

subsection \<open>The gated operations, for the statement of the capability gating\<close>








text \<open>The bounds on the search parameters as the spec states them, on the values that
  the defaults give where \<open>searchParams\<close> leaves one out.\<close>

definition scopeOf :: "searchParams \<Rightarrow> string" where
  "scopeOf sp = (case sp_scope sp of None \<Rightarrow> ''global'' | Some s \<Rightarrow> s)"

definition limitOf :: "searchParams \<Rightarrow> int" where
  "limitOf sp = (case sp_limit sp of None \<Rightarrow> 50 | Some l \<Rightarrow> l)"

definition offsetOf :: "searchParams \<Rightarrow> int" where
  "offsetOf sp = (case sp_offset sp of None \<Rightarrow> 0 | Some k \<Rightarrow> k)"

definition search_parameters_rejected :: "string \<Rightarrow> searchParams \<Rightarrow> bool" where
  "search_parameters_rejected query sp =
     (length (trim query) < 2 \<or> limitOf sp < 1 \<or> 200 < limitOf sp \<or> offsetOf sp < 0
        \<or> scopeOf sp \<notin> {''global'', ''mount'', ''directory''})"

subsection \<open>A driver and a mount manager to run the facade on\<close>

definition demo_mount :: mount where
  "demo_mount = \<lparr>mount_id = ''m1'', mount_name = ''docs'', mount_path = ''/docs'',
     storage_type = ''S3'', storage_config_id = ''c1'', cache_ttl = 60,
     created_at = ''2024-01-01'', updated_at = ''2024-01-02''\<rparr>"

text \<open>A read-only driver: it counts its calls in the world and answers \<open>null\<close>.\<close>

definition readonly_driver :: "(nat, unit) driver" where
  "readonly_driver = \<lparr>capabilities = {READER}, getType = ''S3'',
     uploadStreamDefined = False, run = (\<lambda>c w. (Inr JNull, Suc w))\<rparr>"

definition demo_manager :: "(nat, unit) mountManager" where
  "demo_manager = \<lparr>
     getDriverByPath = (\<lambda>path u t w. (Inr (readonly_driver, demo_mount, drop 5 path), w)),
     getDriver = (\<lambda>m w. (Inr readonly_driver, w))\<rparr>"



definition writer_driver :: "(nat, unit) driver" where
  "writer_driver = \<lparr>capabilities = {READER, WRITER}, getType = ''S3'',
     uploadStreamDefined = False, run = (\<lambda>c w. (Inr JNull, Suc w))\<rparr>"


text \<open>A mount manager that knows the mount \<open>/docs\<close> only and throws for any other
  path.\<close>

definition strict_manager :: "(nat, unit) mountManager" where
  "strict_manager = \<lparr>
     getDriverByPath = (\<lambda>path u t w.
        if startsWith path ''/docs/''
        then (Inr (writer_driver, demo_mount, drop 5 path), w)
        else (Inl (HTTPException NOT_FOUND (Text ''no mount'')), w)),
     getDriver = (\<lambda>m w. (Inr writer_driver, w))\<rparr>"

definition demo_search_deps :: "nat search_deps" where
  "demo_search_deps = \<lparr>
     searchCache_get = (\<lambda>q sp t u w. None),
     searchCache_set = (\<lambda>q sp t u r ttl w. w),
     findAll = (\<lambda>b w. Inr [demo_mount]),
     sortSearchResults = (\<lambda>xs q. xs)\<rparr>"

definition demo_state :: "(nat, unit) fs_state" where
  "demo_state = \<lparr>world = 0, events = []\<rparr>"

definition demo_params :: searchParams where
  "demo_params = \<lparr>sp_scope = None, sp_mountId = None, sp_path = None,
     sp_limit = None, sp_offset = None\<rparr>"

section \<open>The file system service\<close>

subsection \<open>The S3 client\<close>

text \<open>The content of an object as the service hands it to the SDK: a string, an
  \<open>ArrayBuffer\<close> or a \<open>Uint8Array\<close> (both as their bytes), or something else.\<close>

datatype content =
    Str string
  | ArrayBuffer "char list"
  | Uint8Array "char list"
  | OtherContent

datatype s3_command =
    HeadObjectCommand string string
  | GetObjectCommand string string "string option"
  | PutObjectCommand string string content string "(string \<times> string) list option"
  | DeleteObjectCommand string string
  | CopyObjectCommand string string string
  | ListObjectsV2Command string string "string option" "nat option" "string option"

text \<open>
  The fields of the commands, in order: \<open>Bucket\<close> and \<open>Key\<close>; for \<open>GetObject\<close> the
  \<open>Range\<close>; for \<open>PutObject\<close> the \<open>Body\<close>, \<open>ContentType\<close> and \<open>Metadata\<close>; for
  \<open>CopyObject\<close> \<open>Bucket\<close>, \<open>CopySource\<close>, \<open>Key\<close>; for \<open>ListObjectsV2\<close> \<open>Bucket\<close>,
  \<open>Prefix\<close>, \<open>Delimiter\<close>, \<open>MaxKeys\<close>, \<open>ContinuationToken\<close>.
\<close>

text \<open>The body of a response, by the methods it has to release it.\<close>

record body =
  has_destroy :: bool
  has_cancel :: bool
  has_close :: bool
  has_abort :: bool

record s3_object =
  Key :: string
  Size :: nat
  ObjLastModified :: "string option"
  ObjETag :: "string option"

text \<open>A response of the SDK: the fields the service reads, each absent or present.
  An absent \<open>Contents\<close> or \<open>CommonPrefixes\<close> is the empty list.\<close>

record s3_output =
  ContentType :: "string option"
  ContentLength :: "nat option"
  LastModified :: "string option"
  ETag :: "string option"
  Metadata :: "(string \<times> string) list option"
  Body :: "body option"
  Contents :: "s3_object list"
  CommonPrefixes :: "string list"
  IsTruncated :: bool
  NextContinuationToken :: "string option"

record s3_config =
  config_id :: string
  bucket_name :: string
  root_prefix :: string
  default_folder :: string

subsection \<open>The directory cache\<close>

datatype item =
    DirItem string string bool string
  | FileItem string string nat string "string option"
  | MountItem string string string string string

text \<open>
  The items of a listing: a directory (name, path, \<open>isVirtual\<close>, modified), a file
  (name, path, size, modified, etag) or a mount point (name, path, mount id,
  modified, storage type).
\<close>

record listing =
  l_path :: string
  l_isRoot :: bool
  l_isVirtual :: bool
  l_mount_id :: "string option"
  l_storage_type :: "string option"
  l_items :: "item list"

text \<open>
  \<open>utils/DirectoryCache.js\<close> is not among the sources.
  Modelled from the spec: section 4.4. An entry is kept under \<open>(mountId, subPath)\<close>
  with the time at which it expires; \<open>get\<close> treats an expired entry as absent and
  removes it; \<open>invalidate\<close> removes one entry; \<open>invalidatePathAndAncestors\<close> walks from
  the sub-path up to \<open>/\<close>, invalidates each directory on the way and returns the number
  of entries removed.
\<close>

record cache_entry =
  entry_listing :: listing
  expiresAt :: int

type_synonym directory_cache = "string \<times> string \<Rightarrow> cache_entry option"

definition cache_get ::
  "directory_cache \<Rightarrow> int \<Rightarrow> string \<Rightarrow> string \<Rightarrow> listing option \<times> directory_cache" where
  "cache_get c now mountId subPath =
     (case c (mountId, subPath) of
        None \<Rightarrow> (None, c)
      | Some e \<Rightarrow>
          if now < expiresAt e then (Some (entry_listing e), c)
          else (None, c((mountId, subPath) := None)))"

definition cache_set ::
  "directory_cache \<Rightarrow> int \<Rightarrow> string \<Rightarrow> string \<Rightarrow> listing \<Rightarrow> int \<Rightarrow> directory_cache" where
  "cache_set c now mountId subPath l ttl =
     c((mountId, subPath) \<mapsto> \<lparr>entry_listing = l, expiresAt = now + ttl\<rparr>)"

definition cache_invalidate :: "directory_cache \<Rightarrow> string \<Rightarrow> string \<Rightarrow> directory_cache" where
  "cache_invalidate c mountId subPath = c((mountId, subPath) := None)"

text \<open>The directory of a list of segments, and the proper ancestors of a path, the
  nearest first: for \<open>/a/b/\<close> and for \<open>/a/b\<close> they are \<open>/a/\<close> and \<open>/\<close>.\<close>

definition dirOf :: "string list \<Rightarrow> string" where
  "dirOf segs = ''/'' @ concat (map (\<lambda>s. s @ ''/'') segs)"

definition ancestorDirs :: "string \<Rightarrow> string list" where
  "ancestorDirs p = (let segs = segments p in map (\<lambda>k. dirOf (take k segs)) (rev [0..<length segs]))"

definition pathAndAncestors :: "string \<Rightarrow> string list" where
  "pathAndAncestors p = p # ancestorDirs p"

fun invalidateAll :: "directory_cache \<Rightarrow> string \<Rightarrow> string list \<Rightarrow> nat \<times> directory_cache" where
  "invalidateAll c mountId [] = (0, c)"
| "invalidateAll c mountId (p # ps) =
     (case invalidateAll (cache_invalidate c mountId p) mountId ps of
        (n, c') \<Rightarrow> ((if c (mountId, p) = None then n else Suc n), c'))"

definition cache_invalidatePathAndAncestors ::
  "directory_cache \<Rightarrow> string \<Rightarrow> string \<Rightarrow> nat \<times> directory_cache" where
  "cache_invalidatePathAndAncestors c mountId subPath =
     invalidateAll c mountId (remdups (pathAndAncestors subPath))"

subsection \<open>The world and the collaborators\<close>

record file_record =
  fr_id :: string
  fr_filename :: string
  fr_storage_path :: string
  fr_s3_url :: string
  fr_mimetype :: string
  fr_size :: nat
  fr_s3_config_id :: string
  fr_slug :: string
  fr_etag :: "string option"
  fr_created_by :: string
  fr_created_at :: string
  fr_updated_at :: string

text \<open>What an operation does to the outside, in order: the commands it sends to S3,
  the release of a response body, and the writes to the database.\<close>

datatype release = Destroy | Cancel | Close | Abort

datatype io_event =
    Sent s3_command
  | Released release
  | InsertFile file_record
  | DeleteFileRecord string string
  | UpdateMountLastUsed string

text \<open>The world: the state of the S3 provider (\<open>'s\<close>), the directory cache, and the
  record of what has been done.\<close>

record 's fs_world =
  provider :: 's
  cache :: directory_cache
  io :: "io_event list"

datatype mime_group = EXECUTABLE | OtherGroup string

record multipart_info =
  mi_uploadId :: string
  mi_path :: string
  mi_recommendedPartSize :: nat
  mi_bucket :: string
  mi_key :: string
  mi_mount_id :: string
  mi_storage_type :: string

text \<open>
  The collaborators that are not among the sources, taken as they are:
  \<^item> \<open>send\<close> is \<open>s3Client.send(command)\<close>: the provider answers with a response or an
    error and moves to its next state;
  \<^item> \<open>findMountPointByPath(db, path, userId, userType)\<close> gives \<open>{error: {status,
    message}}\<close> or \<open>{mount, subPath}\<close>;
  \<^item> \<open>getMountsByAdmin\<close>, \<open>getMountsByApiKey\<close> give the mounts of a principal;
  \<^item> \<open>s3_configs\<close> is the row of the table of that name with the given id;
  \<^item> \<open>normalizeS3SubPath(subPath, s3Config, asDirectory)\<close>;
  \<^item> \<open>checkDirectoryExists(s3Client, bucket, path)\<close>, which asks the provider (its own
    commands are not part of the record);
  \<^item> \<open>encodeURIComponent\<close>, \<open>getMimeTypeAndGroupFromFile({filename, mimetype})\<close>,
    \<open>initializeMultipartUpload\<close>, \<open>buildS3Url\<close>;
  \<^item> \<open>generateFileId()\<close>, \<open>getLocalTimeString()\<close> and \<open>new Date().toISOString()\<close> as
    the values they give, and \<open>clock\<close>, the time the cache reads.
  \<open>createS3Client\<close>, the database calls and \<open>updateMountLastUsed\<close> are taken to
  return; the writes are recorded.
\<close>

record 's fs_env =
  send :: "'s \<Rightarrow> s3_command \<Rightarrow> (s3_error + s3_output) \<times> 's"
  findMountPointByPath :: "string \<Rightarrow> string \<Rightarrow> string \<Rightarrow> (nat \<times> string) + (mount \<times> string)"
  getMountsByAdmin :: "string \<Rightarrow> mount list"
  getMountsByApiKey :: "string \<Rightarrow> mount list"
  s3_configs :: "string \<Rightarrow> s3_config option"
  normalizeS3SubPath :: "string \<Rightarrow> s3_config \<Rightarrow> bool \<Rightarrow> string"
  checkDirectoryExists :: "'s \<Rightarrow> string \<Rightarrow> string \<Rightarrow> bool \<times> 's"
  encodeURIComponent :: "string \<Rightarrow> string"
  getMimeTypeAndGroupFromFile :: "string \<Rightarrow> string \<Rightarrow> string \<times> mime_group"
  initializeMultipartUpload ::
    "string \<Rightarrow> string \<Rightarrow> nat \<Rightarrow> string \<Rightarrow> string \<Rightarrow> 's \<Rightarrow> (exn + multipart_info) \<times> 's"
  buildS3Url :: "s3_config \<Rightarrow> string \<Rightarrow> string"
  generateFileId :: string
  getLocalTimeString :: string
  nowISO :: string
  clock :: int

type_synonym ('s, 'a) outcome = "(exn + 'a) \<times> 's fs_world"

definition sendCommand :: "'s fs_env \<Rightarrow> s3_command \<Rightarrow> 's fs_world \<Rightarrow> (s3_error + s3_output) \<times> 's fs_world" where
  "sendCommand env cmd w =
     (case send env (provider w) cmd of
        (r, s') \<Rightarrow> (r, w\<lparr>provider := s', io := io w @ [Sent cmd]\<rparr>))"

definition record_io :: "io_event \<Rightarrow> 's fs_world \<Rightarrow> 's fs_world" where
  "record_io e w = w\<lparr>io := io w @ [e]\<rparr>"

definition updateMountLastUsed :: "string \<Rightarrow> 's fs_world \<Rightarrow> 's fs_world" where
  "updateMountLastUsed mountId w = record_io (UpdateMountLastUsed mountId) w"

definition directoryExists :: "'s fs_env \<Rightarrow> string \<Rightarrow> string \<Rightarrow> 's fs_world \<Rightarrow> bool \<times> 's fs_world" where
  "directoryExists env bucket path w =
     (case checkDirectoryExists env (provider w) bucket path of
        (b, s') \<Rightarrow> (b, w\<lparr>provider := s'\<rparr>))"

definition invalidate :: "string \<Rightarrow> string \<Rightarrow> 's fs_world \<Rightarrow> 's fs_world" where
  "invalidate mountId subPath w = w\<lparr>cache := cache_invalidate (cache w) mountId subPath\<rparr>"

definition invalidatePathAndAncestors :: "string \<Rightarrow> string \<Rightarrow> 's fs_world \<Rightarrow> 's fs_world" where
  "invalidatePathAndAncestors mountId subPath w =
     w\<lparr>cache := snd (cache_invalidatePathAndAncestors (cache w) mountId subPath)\<rparr>"

text \<open>\<open>handleFsError\<close>: an \<open>HTTPException\<close> is thrown on as it is; any other error
  becomes status 500 with the error's message, or the default message when it has
  none.\<close>

definition toInternal :: "string \<Rightarrow> string \<Rightarrow> exn" where
  "toInternal msg operationName =
     HTTPException INTERNAL_ERROR (if msg = [] then Failed operationName else Text msg)"

fun handleError :: "string \<Rightarrow> exn \<Rightarrow> exn" where
  "handleError operationName (HTTPException status msg) = HTTPException status msg"
| "handleError operationName (S3ServiceException e) = toInternal (errMessage e) operationName"
| "handleError operationName (OtherError msg) = toInternal msg operationName"

definition handleFsError :: "string \<Rightarrow> ('s, 'a) outcome \<Rightarrow> ('s, 'a) outcome" where
  "handleFsError operationName r =
     (case r of
        (Inl e, w) \<Rightarrow> (Inl (handleError operationName e), w)
      | (Inr v, w) \<Rightarrow> (Inr v, w))"

definition normalizePath :: "string \<Rightarrow> bool \<Rightarrow> string" where
  "normalizePath path isDirectory =
     (let p = (if startsWith path ''/'' then path else ''/'' @ path)
      in if isDirectory then (if endsWith p ''/'' then p else p @ ''/'') else p)"

text \<open>\<open>etag.replace(/"/g, "")\<close> on an \<open>ETag\<close> that is there and not empty.\<close>

definition stripQuotes :: "string option \<Rightarrow> string option" where
  "stripQuotes e =
     (case e of
        None \<Rightarrow> None
      | Some s \<Rightarrow> if s = [] then None else Some (filter (\<lambda>c. c \<noteq> CHR 0x22) s))"

text \<open>The status of an error of the SDK is \<open>n\<close>: \<open>error.$metadata &&
  error.$metadata.httpStatusCode === n\<close>.\<close>

fun hasStatus :: "exn \<Rightarrow> nat \<Rightarrow> bool" where
  "hasStatus (S3ServiceException e) n = (httpStatusCode e = Some n)"
| "hasStatus _ n = False"

definition ensureSlash :: "string \<Rightarrow> string" where
  "ensureSlash p = (if endsWith p ''/'' then p else p @ ''/'')"

text \<open>
  \<open>s.replace(pattern, replacement)\<close> with a string pattern replaces the first
  occurrence of the pattern. In the replacement \<open>$$\<close> stands for a dollar sign,
  \<open>$&\<close> for the matched text, \<open>$\<close> with a backquote for the text before the match and
  \<open>$\<close> with an apostrophe for the text after it; a string pattern has no groups, so
  any other \<open>$\<close> stays as it is.
\<close>

fun indexOf :: "string \<Rightarrow> string \<Rightarrow> nat option" where
  "indexOf [] pat = (if pat = [] then Some 0 else None)"
| "indexOf (x # xs) pat =
     (if startsWith (x # xs) pat then Some 0 else map_option Suc (indexOf xs pat))"

fun expandReplacement :: "string \<Rightarrow> string \<Rightarrow> string \<Rightarrow> string \<Rightarrow> string" where
  "expandReplacement [] matched pre post = []"
| "expandReplacement [c] matched pre post = [c]"
| "expandReplacement (c # d # ds) matched pre post =
     (if c = CHR ''$'' \<and> d = CHR ''$'' then CHR ''$'' # expandReplacement ds matched pre post
      else if c = CHR ''$'' \<and> d = CHR ''&'' then matched @ expandReplacement ds matched pre post
      else if c = CHR ''$'' \<and> d = CHR 0x60 then pre @ expandReplacement ds matched pre post
      else if c = CHR ''$'' \<and> d = CHR 0x27 then post @ expandReplacement ds matched pre post
      else c # expandReplacement (d # ds) matched pre post)"

definition replaceFirst :: "string \<Rightarrow> string \<Rightarrow> string \<Rightarrow> string" where
  "replaceFirst s pat rep =
     (case indexOf s pat of
        None \<Rightarrow> s
      | Some i \<Rightarrow>
          take i s @ expandReplacement rep pat (take i s) (drop (i + length pat) s)
            @ drop (i + length pat) s)"

text \<open>The directory that holds a sub-path, as the operations compute it for the cache:
  \<open>subPath.substring(0, subPath.lastIndexOf("/", from) + 1)\<close>.\<close>

definition parentUpTo :: "string \<Rightarrow> int \<Rightarrow> string" where
  "parentUpTo subPath from = substring subPath 0 (lastIndexOfFrom subPath CHR ''/'' from + 1)"

definition parentOfFile :: "string \<Rightarrow> string" where
  "parentOfFile subPath = substring subPath 0 (lastIndexOfChar subPath CHR ''/'' + 1)"

definition parentOfItem :: "string \<Rightarrow> bool \<Rightarrow> string" where
  "parentOfItem subPath isDirectory =
     parentUpTo subPath (if isDirectory then int (length subPath) - 2 else int (length subPath) - 1)"

subsection \<open>updateFile\<close>

definition MAX_FILE_SIZE :: nat where
  "MAX_FILE_SIZE = 10 * 1024 * 1024"

record update_result =
  ur_success :: bool
  ur_path :: string
  ur_etag :: "string option"
  ur_contentType :: string
  ur_isNewFile :: bool

text \<open>\<open>originalMetadata?.ContentType || d\<close>.\<close>

definition contentTypeOr :: "s3_output option \<Rightarrow> string \<Rightarrow> string" where
  "contentTypeOr originalMetadata d =
     (case originalMetadata of
        None \<Rightarrow> d
      | Some out \<Rightarrow> (case ContentType out of None \<Rightarrow> d | Some ct \<Rightarrow> if ct = [] then d else ct))"

text \<open>The \<open>try\<close> block of \<open>updateFile\<close>.\<close>

definition updateFile_try ::
  "'s fs_env \<Rightarrow> mount \<Rightarrow> string \<Rightarrow> s3_config \<Rightarrow> string \<Rightarrow> string \<Rightarrow> content
     \<Rightarrow> 's fs_world \<Rightarrow> ('s, update_result) outcome" where
  "updateFile_try env m subPath cfg s3SubPath path content w =
     (let fileName = last (split path CHR ''/'')
      in case sendCommand env (HeadObjectCommand (bucket_name cfg) s3SubPath) w of
           (headResult, w1) \<Rightarrow>
             (let originalMetadata = (case headResult of Inl e \<Rightarrow> None | Inr out \<Rightarrow> Some out)
              in case (case content of
                         Str s \<Rightarrow> Some ''text/plain''
                       | ArrayBuffer b \<Rightarrow> Some ''application/octet-stream''
                       | Uint8Array b \<Rightarrow> Some ''application/octet-stream''
                       | OtherContent \<Rightarrow> None) of
                   None \<Rightarrow> (Inl (HTTPException BAD_REQUEST UnsupportedContent), w1)
                 | Some fallback \<Rightarrow>
                     (case getMimeTypeAndGroupFromFile env fileName
                             (contentTypeOr originalMetadata fallback) of
                        (mimeType, mimeGroup) \<Rightarrow>
                          if mimeGroup = EXECUTABLE
                          then (Inl (HTTPException FORBIDDEN ExecutableNotAllowed), w1)
                          else
                            (case sendCommand env
                                    (PutObjectCommand (bucket_name cfg) s3SubPath content mimeType
                                       (case originalMetadata of
                                          None \<Rightarrow> None
                                        | Some out \<Rightarrow> Metadata out)) w1 of
                               (Inl e, w2) \<Rightarrow> (Inl (S3ServiceException e), w2)
                             | (Inr result, w2) \<Rightarrow>
                                 (let w3 =
                                        (if 0 < cache_ttl m \<and> subPath \<noteq> ''/'' \<and> includesStr subPath ''/''
                                         then invalidatePathAndAncestors (mount_id m)
                                                (parentOfFile subPath) w2
                                         else w2)
                                  in (Inr \<lparr>ur_success = True, ur_path = path,
                                            ur_etag = stripQuotes (ETag result),
                                            ur_contentType = mimeType,
                                            ur_isNewFile = (originalMetadata = None)\<rparr>, w3))))))"

text \<open>The \<open>catch\<close> of \<open>updateFile\<close>: the statuses 404, 403 and 413 of the provider
  become exceptions of the service; anything else is thrown on.\<close>

definition updateFile_catch :: "exn \<Rightarrow> exn" where
  "updateFile_catch e =
     (if hasStatus e 404 then HTTPException NOT_FOUND FileMissing
      else if hasStatus e 403 then HTTPException FORBIDDEN UpdateDenied
      else if hasStatus e 413 then HTTPException BAD_REQUEST ProviderContentTooLarge
      else e)"

definition contentTooLarge :: "content \<Rightarrow> bool" where
  "contentTooLarge content =
     (case content of
        Str s \<Rightarrow> MAX_FILE_SIZE < length s
      | ArrayBuffer b \<Rightarrow> MAX_FILE_SIZE < length b
      | _ \<Rightarrow> False)"

definition updateFile ::
  "'s fs_env \<Rightarrow> string \<Rightarrow> content \<Rightarrow> string \<Rightarrow> string \<Rightarrow> 's fs_world
     \<Rightarrow> ('s, update_result) outcome" where
  "updateFile env path content userId userType w =
     handleFsError ''updateFile''
       (if contentTooLarge content
        then (Inl (HTTPException BAD_REQUEST ContentTooLarge), w)
        else
          (case findMountPointByPath env path userId userType of
             Inl (status, msg) \<Rightarrow> (Inl (HTTPException status (Text msg)), w)
           | Inr (m, subPath) \<Rightarrow>
               (case s3_configs env (storage_config_id m) of
                  None \<Rightarrow> (Inl (HTTPException NOT_FOUND StorageConfigMissing), w)
                | Some cfg \<Rightarrow>
                    (let s3SubPath = normalizeS3SubPath env subPath cfg False;
                         w1 = updateMountLastUsed (mount_id m) w
                     in case updateFile_try env m subPath cfg s3SubPath path content w1 of
                          (Inl e, w2) \<Rightarrow> (Inl (updateFile_catch e), w2)
                        | (Inr r, w2) \<Rightarrow> (Inr r, w2)))))"

subsection \<open>renameItem\<close>

text \<open>The \<open>for\<close> loop of \<open>renameDirectory\<close> over one page: copy each object to the key
  with the prefix replaced, then delete the original; the first error ends it.\<close>

fun renameObjects ::
  "'s fs_env \<Rightarrow> string \<Rightarrow> string \<Rightarrow> string \<Rightarrow> s3_object list \<Rightarrow> 's fs_world
     \<Rightarrow> s3_error option \<times> 's fs_world" where
  "renameObjects env bucket oldPrefix newPrefix [] w = (None, w)"
| "renameObjects env bucket oldPrefix newPrefix (obj # objs) w =
     (case sendCommand env
             (CopyObjectCommand bucket (encodeURIComponent env (bucket @ ''/'' @ Key obj))
                (replaceFirst (Key obj) oldPrefix newPrefix)) w of
        (Inl e, w1) \<Rightarrow> (Some e, w1)
      | (Inr out, w1) \<Rightarrow>
          (case sendCommand env (DeleteObjectCommand bucket (Key obj)) w1 of
             (Inl e, w2) \<Rightarrow> (Some e, w2)
           | (Inr out', w2) \<Rightarrow> renameObjects env bucket oldPrefix newPrefix objs w2))"

text \<open>\<open>while (continuationToken)\<close>: the loop goes on with a token that is there and
  not empty.\<close>

definition nextToken :: "s3_output \<Rightarrow> string option" where
  "nextToken out =
     (if IsTruncated out
      then (case NextContinuationToken out of
              None \<Rightarrow> None
            | Some t \<Rightarrow> if t = [] then None else Some t)
      else None)"

text \<open>
  The \<open>do ... while\<close> loop of \<open>renameDirectory\<close> over the pages of the listing. The
  provider decides how many pages there are, so the loop takes fuel: the number of
  pages it may ask for. \<open>None\<close> is the loop that has not ended within the fuel; the
  result otherwise is the first error, or whether no object was seen.
\<close>

fun renameDirectory_loop ::
  "nat \<Rightarrow> 's fs_env \<Rightarrow> string \<Rightarrow> string \<Rightarrow> string \<Rightarrow> string option \<Rightarrow> bool \<Rightarrow> 's fs_world
     \<Rightarrow> ((s3_error + bool) \<times> 's fs_world) option" where
  "renameDirectory_loop 0 env bucket oldPrefix newPrefix token isEmpty w = None"
| "renameDirectory_loop (Suc fuel) env bucket oldPrefix newPrefix token isEmpty w =
     (case sendCommand env (ListObjectsV2Command bucket oldPrefix None None token) w of
        (Inl e, w1) \<Rightarrow> Some (Inl e, w1)
      | (Inr listResponse, w1) \<Rightarrow>
          (case renameObjects env bucket oldPrefix newPrefix (Contents listResponse) w1 of
             (Some e, w2) \<Rightarrow> Some (Inl e, w2)
           | (None, w2) \<Rightarrow>
               (let isEmpty' = (isEmpty \<and> Contents listResponse = [])
                in case nextToken listResponse of
                     None \<Rightarrow> Some (Inr isEmpty', w2)
                   | Some t \<Rightarrow>
                       renameDirectory_loop fuel env bucket oldPrefix newPrefix (Some t)
                         isEmpty' w2)))"

definition renameDirectory ::
  "nat \<Rightarrow> 's fs_env \<Rightarrow> string \<Rightarrow> string \<Rightarrow> string \<Rightarrow> 's fs_world
     \<Rightarrow> ('s, unit) outcome option" where
  "renameDirectory fuel env bucket oldPath newPath w =
     (case renameDirectory_loop fuel env bucket (ensureSlash oldPath) (ensureSlash newPath)
             None True w of
        None \<Rightarrow> None
      | Some (Inl e, w') \<Rightarrow>
          Some (Inl (HTTPException INTERNAL_ERROR (RenameDirectoryFailed (errMessage e))), w')
      | Some (Inr isEmpty, w') \<Rightarrow>
          if isEmpty then Some (Inl (HTTPException NOT_FOUND SourceDirectoryMissingOrEmpty), w')
          else Some (Inr (), w'))"

text \<open>The cache invalidation at the end of \<open>renameItem\<close> and \<open>removeItem\<close>, for one
  sub-path.\<close>

definition invalidateParent :: "string \<Rightarrow> string \<Rightarrow> bool \<Rightarrow> 's fs_world \<Rightarrow> 's fs_world" where
  "invalidateParent mountId subPath isDirectory w =
     (if subPath \<noteq> ''/'' \<and> includesStr subPath ''/''
      then invalidatePathAndAncestors mountId (parentOfItem subPath isDirectory) w
      else if \<not> isDirectory then invalidate mountId ''/'' w
      else w)"

text \<open>The move itself: a directory object by object, after which the cache entries
  of the old and the new sub-path are invalidated, or a single object by copy and
  delete.\<close>

definition renameItem_move ::
  "nat \<Rightarrow> 's fs_env \<Rightarrow> mount \<Rightarrow> string \<Rightarrow> string \<Rightarrow> string \<Rightarrow> string \<Rightarrow> string \<Rightarrow> bool
     \<Rightarrow> 's fs_world \<Rightarrow> ('s, unit) outcome option" where
  "renameItem_move fuel env m bucket oldSubPath newSubPath s3OldPath s3NewPath isDirectory w =
     (if isDirectory
      then (case renameDirectory fuel env bucket s3OldPath s3NewPath w of
              None \<Rightarrow> None
            | Some (Inl e, w3) \<Rightarrow> Some (Inl e, w3)
            | Some (Inr u, w3) \<Rightarrow>
                Some (Inr (),
                  invalidate (mount_id m) newSubPath (invalidate (mount_id m) oldSubPath w3)))
      else
        (case sendCommand env
                (CopyObjectCommand bucket (encodeURIComponent env (bucket @ ''/'' @ s3OldPath))
                   s3NewPath) w of
           (Inl e, w3) \<Rightarrow> Some (Inl (S3ServiceException e), w3)
         | (Inr out, w3) \<Rightarrow>
             (case sendCommand env (DeleteObjectCommand bucket s3OldPath) w3 of
                (Inl e, w4) \<Rightarrow> Some (Inl (S3ServiceException e), w4)
              | (Inr out', w4) \<Rightarrow> Some (Inr (), w4))))"

text \<open>
  \<open>renameItem\<close> after the two mounts have been found to be the same. The \<open>HEAD\<close> of the
  target is in a \<open>try\<close> whose \<open>catch\<close> throws on only an error that has a status other
  than 404: the exception "target exists" that the \<open>try\<close> throws after a successful
  \<open>HEAD\<close> has no status, so it ends there and the rename goes on.
\<close>

definition renameItem_onMount ::
  "nat \<Rightarrow> 's fs_env \<Rightarrow> mount \<Rightarrow> string \<Rightarrow> string \<Rightarrow> bool \<Rightarrow> 's fs_world
     \<Rightarrow> ('s, unit) outcome option" where
  "renameItem_onMount fuel env m oldSubPath newSubPath isDirectory w =
     (case s3_configs env (storage_config_id m) of
        None \<Rightarrow> Some (Inl (HTTPException NOT_FOUND StorageConfigMissing), w)
      | Some cfg \<Rightarrow>
          (let s3OldPath = normalizeS3SubPath env oldSubPath cfg isDirectory;
               s3NewPath = normalizeS3SubPath env newSubPath cfg isDirectory;
               bucket = bucket_name cfg
           in case (if includesStr s3NewPath ''/''
                    then directoryExists env bucket
                           (substring s3NewPath 0 (lastIndexOfChar s3NewPath CHR ''/'' + 1)) w
                    else (True, w)) of
                (False, w1) \<Rightarrow> Some (Inl (HTTPException CONFLICT TargetParentMissing), w1)
              | (True, w1) \<Rightarrow>
                  (case sendCommand env (HeadObjectCommand bucket s3NewPath) w1 of
                     (headResult, w2) \<Rightarrow>
                       (case (case headResult of
                                Inl e \<Rightarrow>
                                  if metadata e \<noteq> None \<and> httpStatusCode e \<noteq> Some 404
                                  then Some e else None
                              | Inr out \<Rightarrow> None) of
                          Some e \<Rightarrow> Some (Inl (S3ServiceException e), w2)
                        | None \<Rightarrow>
                            (case renameItem_move fuel env m bucket oldSubPath newSubPath
                                    s3OldPath s3NewPath isDirectory w2 of
                               None \<Rightarrow> None
                             | Some (Inl e, w5) \<Rightarrow> Some (Inl e, w5)
                             | Some (Inr u, w5) \<Rightarrow>
                                 Some (Inr (),
                                   invalidateParent (mount_id m) newSubPath isDirectory
                                     (invalidateParent (mount_id m) oldSubPath isDirectory
                                        (updateMountLastUsed (mount_id m) w5))))))))"

definition handleFsErrorOpt ::
  "string \<Rightarrow> ('s, 'a) outcome option \<Rightarrow> ('s, 'a) outcome option" where
  "handleFsErrorOpt operationName r = map_option (handleFsError operationName) r"

definition renameItem ::
  "nat \<Rightarrow> 's fs_env \<Rightarrow> string \<Rightarrow> string \<Rightarrow> string \<Rightarrow> string \<Rightarrow> 's fs_world
     \<Rightarrow> ('s, unit) outcome option" where
  "renameItem fuel env oldPath newPath userId userType w =
     handleFsErrorOpt ''renameItem''
       (let oldIsDirectory = endsWith oldPath ''/'';
            newIsDirectory = endsWith newPath ''/''
        in if oldIsDirectory \<noteq> newIsDirectory
           then Some (Inl (HTTPException BAD_REQUEST PathKindMismatch), w)
           else
             (case findMountPointByPath env oldPath userId userType of
                Inl (status, msg) \<Rightarrow> Some (Inl (HTTPException status (Text msg)), w)
              | Inr (oldMount, oldSubPath) \<Rightarrow>
                  (case findMountPointByPath env newPath userId userType of
                     Inl (status, msg) \<Rightarrow> Some (Inl (HTTPException status (Text msg)), w)
                   | Inr (newMount, newSubPath) \<Rightarrow>
                       if mount_id oldMount \<noteq> mount_id newMount
                       then Some (Inl (HTTPException BAD_REQUEST CrossMountRename), w)
                       else renameItem_onMount fuel env oldMount oldSubPath newSubPath
                              oldIsDirectory w)))"

subsection \<open>removeItem and batchRemoveItems\<close>

text \<open>The \<open>for\<close> loop of \<open>deleteDirectory\<close> over one page: delete each object and note
  its key; the first error ends it.\<close>

fun deleteObjects ::
  "'s fs_env \<Rightarrow> string \<Rightarrow> s3_object list \<Rightarrow> string list \<Rightarrow> 's fs_world
     \<Rightarrow> (s3_error + string list) \<times> 's fs_world" where
  "deleteObjects env bucket [] deletedFiles w = (Inr deletedFiles, w)"
| "deleteObjects env bucket (obj # objs) deletedFiles w =
     (case sendCommand env (DeleteObjectCommand bucket (Key obj)) w of
        (Inl e, w1) \<Rightarrow> (Inl e, w1)
      | (Inr out, w1) \<Rightarrow> deleteObjects env bucket objs (deletedFiles @ [Key obj]) w1)"

text \<open>The \<open>do ... while\<close> loop of \<open>deleteDirectory\<close>, with fuel as above; the result is
  the first error, or whether no object was seen and the keys deleted.\<close>

fun deleteDirectory_loop ::
  "nat \<Rightarrow> 's fs_env \<Rightarrow> string \<Rightarrow> string \<Rightarrow> string option \<Rightarrow> bool \<Rightarrow> string list
     \<Rightarrow> 's fs_world \<Rightarrow> ((s3_error + bool \<times> string list) \<times> 's fs_world) option" where
  "deleteDirectory_loop 0 env bucket prefix token isEmpty deletedFiles w = None"
| "deleteDirectory_loop (Suc fuel) env bucket prefix token isEmpty deletedFiles w =
     (case sendCommand env (ListObjectsV2Command bucket prefix None None token) w of
        (Inl e, w1) \<Rightarrow> Some (Inl e, w1)
      | (Inr listResponse, w1) \<Rightarrow>
          (case deleteObjects env bucket (Contents listResponse) deletedFiles w1 of
             (Inl e, w2) \<Rightarrow> Some (Inl e, w2)
           | (Inr deletedFiles', w2) \<Rightarrow>
               (let isEmpty' = (isEmpty \<and> Contents listResponse = [])
                in case nextToken listResponse of
                     None \<Rightarrow> Some (Inr (isEmpty', deletedFiles'), w2)
                   | Some t \<Rightarrow>
                       deleteDirectory_loop fuel env bucket prefix (Some t) isEmpty'
                         deletedFiles' w2)))"

text \<open>The deletion of the file records of the deleted keys; it is skipped without a
  configuration id, and what it throws is caught.\<close>

definition deleteFileRecords :: "string \<Rightarrow> string list \<Rightarrow> 's fs_world \<Rightarrow> 's fs_world" where
  "deleteFileRecords s3ConfigId deletedFiles w =
     (if s3ConfigId \<noteq> []
      then fold (\<lambda>filePath. record_io (DeleteFileRecord s3ConfigId filePath)) deletedFiles w
      else w)"

definition deleteDirectory ::
  "nat \<Rightarrow> 's fs_env \<Rightarrow> string \<Rightarrow> string \<Rightarrow> string \<Rightarrow> 's fs_world
     \<Rightarrow> ('s, unit) outcome option" where
  "deleteDirectory fuel env bucket dirPath s3ConfigId w =
     (case deleteDirectory_loop fuel env bucket (ensureSlash dirPath) None True [] w of
        None \<Rightarrow> None
      | Some (Inl e, w') \<Rightarrow>
          Some (Inl (HTTPException INTERNAL_ERROR (DeleteDirectoryFailed (errMessage e))), w')
      | Some (Inr (isEmpty, deletedFiles), w') \<Rightarrow>
          if isEmpty then Some (Inl (HTTPException NOT_FOUND DirectoryMissingOrEmpty), w')
          else Some (Inr (), deleteFileRecords s3ConfigId deletedFiles w'))"

text \<open>The deletion itself: a directory with all that is under it, after which its own
  cache entry is invalidated, or a single object.\<close>

definition removeItem_delete ::
  "nat \<Rightarrow> 's fs_env \<Rightarrow> mount \<Rightarrow> string \<Rightarrow> s3_config \<Rightarrow> bool \<Rightarrow> string \<Rightarrow> 's fs_world
     \<Rightarrow> ('s, unit) outcome option" where
  "removeItem_delete fuel env m subPath cfg isDirectory s3SubPath w =
     (if isDirectory
      then (case deleteDirectory fuel env (bucket_name cfg) s3SubPath (storage_config_id m) w of
              None \<Rightarrow> None
            | Some (Inl e, w1) \<Rightarrow> Some (Inl e, w1)
            | Some (Inr u, w1) \<Rightarrow> Some (Inr (), invalidate (mount_id m) subPath w1))
      else (case sendCommand env (DeleteObjectCommand (bucket_name cfg) s3SubPath) w of
              (Inl e, w1) \<Rightarrow>
                if httpStatusCode e = Some 404
                then Some (Inl (HTTPException NOT_FOUND FileMissing), w1)
                else Some (Inl (S3ServiceException e), w1)
            | (Inr out, w1) \<Rightarrow> Some (Inr (), w1)))"

definition removeItem ::
  "nat \<Rightarrow> 's fs_env \<Rightarrow> string \<Rightarrow> string \<Rightarrow> string \<Rightarrow> 's fs_world
     \<Rightarrow> ('s, unit) outcome option" where
  "removeItem fuel env path userId userType w =
     handleFsErrorOpt ''removeItem''
       (case findMountPointByPath env path userId userType of
          Inl (status, msg) \<Rightarrow> Some (Inl (HTTPException status (Text msg)), w)
        | Inr (m, subPath) \<Rightarrow>
            (case s3_configs env (storage_config_id m) of
               None \<Rightarrow> Some (Inl (HTTPException NOT_FOUND StorageConfigMissing), w)
             | Some cfg \<Rightarrow>
                 (let isDirectory = endsWith path ''/'';
                      s3SubPath = normalizeS3SubPath env subPath cfg isDirectory
                  in case removeItem_delete fuel env m subPath cfg isDirectory s3SubPath w of
                       None \<Rightarrow> None
                     | Some (Inl e, w2) \<Rightarrow> Some (Inl e, w2)
                     | Some (Inr u, w2) \<Rightarrow>
                         Some (Inr (),
                           invalidateParent (mount_id m) subPath isDirectory
                             (updateMountLastUsed (mount_id m)
                                (record_io (DeleteFileRecord (storage_config_id m) s3SubPath) w2))))))"

record batch_result =
  br_success :: nat
  br_failed :: "(string \<times> message) list"

text \<open>\<open>error instanceof HTTPException ? error.message : error.message || unknown\<close>.\<close>

fun errorMessageOf :: "exn \<Rightarrow> message" where
  "errorMessageOf (HTTPException status msg) = msg"
| "errorMessageOf (S3ServiceException e) =
     (if errMessage e = [] then UnknownFailure else Text (errMessage e))"
| "errorMessageOf (OtherError msg) = (if msg = [] then UnknownFailure else Text msg)"

text \<open>The loop of \<open>batchRemoveItems\<close>: each path is removed in a \<open>try\<close>; a removal that
  returns counts as a success, one that throws is noted with its message.\<close>

fun batchRemoveItems_loop ::
  "nat \<Rightarrow> 's fs_env \<Rightarrow> string list \<Rightarrow> string \<Rightarrow> string \<Rightarrow> batch_result \<Rightarrow> 's fs_world
     \<Rightarrow> (batch_result \<times> 's fs_world) option" where
  "batchRemoveItems_loop fuel env [] userId userType result w = Some (result, w)"
| "batchRemoveItems_loop fuel env (path # paths) userId userType result w =
     (case removeItem fuel env path userId userType w of
        None \<Rightarrow> None
      | Some (Inr u, w') \<Rightarrow>
          batchRemoveItems_loop fuel env paths userId userType
            (result\<lparr>br_success := br_success result + 1\<rparr>) w'
      | Some (Inl e, w') \<Rightarrow>
          batchRemoveItems_loop fuel env paths userId userType
            (result\<lparr>br_failed := br_failed result @ [(path, errorMessageOf e)]\<rparr>) w')"

definition batchRemoveItems ::
  "nat \<Rightarrow> 's fs_env \<Rightarrow> string list \<Rightarrow> string \<Rightarrow> string \<Rightarrow> 's fs_world
     \<Rightarrow> (batch_result \<times> 's fs_world) option" where
  "batchRemoveItems fuel env paths userId userType w =
     batchRemoveItems_loop fuel env paths userId userType \<lparr>br_success = 0, br_failed = []\<rparr> w"

subsection \<open>createDirectory\<close>

text \<open>
  The \<open>HEAD\<close> of the key is in a \<open>try\<close> that throws "directory exists" when the \<open>HEAD\<close>
  succeeds; the \<open>catch\<close> creates the directory when the error has status 404 and
  throws every other error on, the "directory exists" among them.
\<close>

text \<open>The check of the parent directory, made when the key has more than one
  segment.\<close>

definition createDirectory_parentCheck ::
  "'s fs_env \<Rightarrow> s3_config \<Rightarrow> string \<Rightarrow> 's fs_world \<Rightarrow> bool \<times> 's fs_world" where
  "createDirectory_parentCheck env cfg s3SubPath w =
     (if 1 < length (segments s3SubPath)
      then directoryExists env (bucket_name cfg)
             (parentUpTo s3SubPath (int (length s3SubPath) - 2)) w
      else (True, w))"

definition createDirectory ::
  "'s fs_env \<Rightarrow> string \<Rightarrow> string \<Rightarrow> string \<Rightarrow> 's fs_world \<Rightarrow> ('s, unit) outcome" where
  "createDirectory env path0 userId userType w =
     handleFsError ''createDirectory''
       (let path = normalizePath path0 True
        in case findMountPointByPath env path userId userType of
             Inl (status, msg) \<Rightarrow> (Inl (HTTPException status (Text msg)), w)
           | Inr (m, subPath) \<Rightarrow>
               (case s3_configs env (storage_config_id m) of
                  None \<Rightarrow> (Inl (HTTPException NOT_FOUND StorageConfigMissing), w)
                | Some cfg \<Rightarrow>
                    (let s3SubPath = normalizeS3SubPath env subPath cfg True;
                         bucket = bucket_name cfg
                     in case createDirectory_parentCheck env cfg s3SubPath w of
                          (False, w1) \<Rightarrow> (Inl (HTTPException CONFLICT ParentMissing), w1)
                        | (True, w1) \<Rightarrow>
                            (case sendCommand env (HeadObjectCommand bucket s3SubPath) w1 of
                               (Inr out, w2) \<Rightarrow> (Inl (HTTPException CONFLICT DirectoryExists), w2)
                             | (Inl e, w2) \<Rightarrow>
                                 if httpStatusCode e = Some 404
                                 then
                                   (case sendCommand env
                                           (PutObjectCommand bucket s3SubPath (Str [])
                                              ''application/x-directory'' None) w2 of
                                      (Inl e', w3) \<Rightarrow> (Inl (S3ServiceException e'), w3)
                                    | (Inr out, w3) \<Rightarrow>
                                        (let w4 = updateMountLastUsed (mount_id m) w3
                                         in (Inr (),
                                             if subPath \<noteq> ''/''
                                             then invalidatePathAndAncestors (mount_id m)
                                                    (parentUpTo subPath (int (length subPath) - 2)) w4
                                             else w4)))
                                 else (Inl (S3ServiceException e), w2)))))"

subsection \<open>uploadFile\<close>

record upload_file =
  file_name :: string
  file_type :: string
  file_size :: nat
  file_bytes :: "char list"

record direct_upload =
  du_path :: string
  du_name :: string
  du_size :: nat
  du_mimetype :: string
  du_etag :: "string option"
  du_fileId :: string
  du_slug :: string

datatype upload_result = MultipartUpload multipart_info | DirectUpload direct_upload

text \<open>\<open>file.type || "application/octet-stream"\<close> and \<open>file.name || "unnamed_file"\<close>.\<close>

definition fileTypeOf :: "upload_file \<Rightarrow> string" where
  "fileTypeOf f = (if file_type f = [] then ''application/octet-stream'' else file_type f)"

definition fileNameOf :: "upload_file \<Rightarrow> string" where
  "fileNameOf f = (if file_name f = [] then ''unnamed_file'' else file_name f)"

text \<open>The key of the upload: the sub-path as a directory, then the name of the file.\<close>

definition finalS3PathOf :: "'s fs_env \<Rightarrow> s3_config \<Rightarrow> string \<Rightarrow> upload_file \<Rightarrow> string" where
  "finalS3PathOf env cfg subPath f =
     (let s3SubPath = normalizeS3SubPath env subPath cfg True
      in if s3SubPath \<noteq> [] \<and> trim s3SubPath \<noteq> []
         then ensureSlash s3SubPath @ fileNameOf f
         else root_prefix cfg @ default_folder cfg @ fileNameOf f)"

text \<open>The direct upload, once the mount and the configuration are there.\<close>

definition uploadDirect ::
  "'s fs_env \<Rightarrow> mount \<Rightarrow> string \<Rightarrow> s3_config \<Rightarrow> string \<Rightarrow> upload_file \<Rightarrow> string \<Rightarrow> string
     \<Rightarrow> 's fs_world \<Rightarrow> ('s, upload_result) outcome" where
  "uploadDirect env m subPath cfg path f userId userType w =
     (let finalS3Path = finalS3PathOf env cfg subPath f;
          bucket = bucket_name cfg
      in case (if includesStr finalS3Path ''/''
               then directoryExists env bucket
                      (substring finalS3Path 0 (lastIndexOfChar finalS3Path CHR ''/'' + 1)) w
               else (True, w)) of
           (False, w1) \<Rightarrow> (Inl (HTTPException CONFLICT ParentMissing), w1)
         | (True, w1) \<Rightarrow>
             (case sendCommand env
                     (PutObjectCommand bucket finalS3Path (ArrayBuffer (file_bytes f))
                        (fileTypeOf f) None) w1 of
                (Inl e, w2) \<Rightarrow> (Inl (S3ServiceException e), w2)
              | (Inr result, w2) \<Rightarrow>
                  (let w3 = updateMountLastUsed (mount_id m) w2;
                       fileId = generateFileId env;
                       fileSlug = ''M-'' @ take 5 fileId;
                       now = getLocalTimeString env;
                       w4 = record_io (InsertFile
                              \<lparr>fr_id = fileId, fr_filename = fileNameOf f,
                               fr_storage_path = finalS3Path,
                               fr_s3_url = buildS3Url env cfg finalS3Path,
                               fr_mimetype = fileTypeOf f, fr_size = file_size f,
                               fr_s3_config_id = config_id cfg, fr_slug = fileSlug,
                               fr_etag = stripQuotes (ETag result),
                               fr_created_by = userType @ '':'' @ userId,
                               fr_created_at = now, fr_updated_at = now\<rparr>) w3;
                       w5 = (if subPath \<noteq> ''/'' \<and> includesStr subPath ''/''
                             then invalidatePathAndAncestors (mount_id m) (parentOfFile subPath) w4
                             else invalidate (mount_id m) ''/'' w4)
                   in (Inr (DirectUpload
                         \<lparr>du_path = path, du_name = popOr (segments path) (file_name f),
                          du_size = file_size f, du_mimetype = fileTypeOf f,
                          du_etag = stripQuotes (ETag result), du_fileId = fileId,
                          du_slug = fileSlug\<rparr>), w5))))"

text \<open>\<open>uploadFile(db, path, file, userId, userType, encryptionSecret, useMultipart =
  true)\<close>: with \<open>useMultipart\<close> it only initialises a multipart upload and returns what
  the front end needs to send the parts.\<close>

definition uploadFile ::
  "'s fs_env \<Rightarrow> string \<Rightarrow> upload_file \<Rightarrow> string \<Rightarrow> string \<Rightarrow> bool \<Rightarrow> 's fs_world
     \<Rightarrow> ('s, upload_result) outcome" where
  "uploadFile env path f userId userType useMultipart w =
     handleFsError ''uploadFile''
       (if useMultipart
        then (case initializeMultipartUpload env path (fileTypeOf f) (file_size f) userId
                     userType (provider w) of
                (Inl e, s') \<Rightarrow> (Inl e, w\<lparr>provider := s'\<rparr>)
              | (Inr info, s') \<Rightarrow> (Inr (MultipartUpload info), w\<lparr>provider := s'\<rparr>))
        else
          (case findMountPointByPath env path userId userType of
             Inl (status, msg) \<Rightarrow> (Inl (HTTPException status (Text msg)), w)
           | Inr (m, subPath) \<Rightarrow>
               (case s3_configs env (storage_config_id m) of
                  None \<Rightarrow> (Inl (HTTPException NOT_FOUND StorageConfigMissing), w)
                | Some cfg \<Rightarrow> uploadDirect env m subPath cfg path f userId userType w)))"

subsection \<open>getFileInfo\<close>

record file_info =
  fi_path :: string
  fi_name :: string
  fi_isDirectory :: bool
  fi_size :: "nat option"
  fi_modified :: string
  fi_contentType :: string
  fi_etag :: "string option"
  fi_mount_id :: string
  fi_storage_type :: string

definition infoOf :: "'s fs_env \<Rightarrow> string \<Rightarrow> mount \<Rightarrow> string \<Rightarrow> s3_output \<Rightarrow> file_info" where
  "infoOf env path m s3SubPath response =
     \<lparr>fi_path = path,
      fi_name = popOr (segments path) ''/'',
      fi_isDirectory =
        (endsWith s3SubPath ''/'' \<or> ContentType response = Some ''application/x-directory''),
      fi_size = ContentLength response,
      fi_modified = (case LastModified response of None \<Rightarrow> nowISO env | Some d \<Rightarrow> d),
      fi_contentType = contentTypeOr (Some response) ''application/octet-stream'',
      fi_etag = stripQuotes (ETag response),
      fi_mount_id = mount_id m,
      fi_storage_type = storage_type m\<rparr>"

definition directoryInfo :: "'s fs_env \<Rightarrow> string \<Rightarrow> mount \<Rightarrow> file_info" where
  "directoryInfo env path m =
     \<lparr>fi_path = path, fi_name = popOr (segments path) ''/'', fi_isDirectory = True,
      fi_size = Some 0, fi_modified = nowISO env, fi_contentType = ''application/x-directory'',
      fi_etag = None, fi_mount_id = mount_id m, fi_storage_type = storage_type m\<rparr>"

text \<open>The release of the body of a response: the first of \<open>destroy\<close>, \<open>cancel\<close>,
  \<open>close\<close>, \<open>abort\<close> that the body has; nothing without a body or without any of them.\<close>

definition closeBody :: "body option \<Rightarrow> release option" where
  "closeBody b =
     (case b of
        None \<Rightarrow> None
      | Some body \<Rightarrow>
          if has_destroy body then Some Destroy
          else if has_cancel body then Some Cancel
          else if has_close body then Some Close
          else if has_abort body then Some Abort
          else None)"

definition releaseBody :: "body option \<Rightarrow> 's fs_world \<Rightarrow> 's fs_world" where
  "releaseBody b w = (case closeBody b of None \<Rightarrow> w | Some r \<Rightarrow> record_io (Released r) w)"

text \<open>The errors of \<open>HEAD\<close> after which \<open>GET\<close> is tried: status 403, the name
  \<open>UnknownError\<close>, or a message that has \<open>UnknownError\<close> in it.\<close>

definition headFallsBackToGet :: "s3_error \<Rightarrow> bool" where
  "headFallsBackToGet e =
     (httpStatusCode e = Some 403 \<or> errName e = ''UnknownError''
        \<or> includesStr (errMessage e) ''UnknownError'')"

text \<open>The outer \<open>catch\<close> of \<open>getFileInfo\<close>: on status 404 the path may be a directory,
  which a listing of one key under the prefix decides.\<close>

definition getFileInfo_catch ::
  "'s fs_env \<Rightarrow> string \<Rightarrow> mount \<Rightarrow> s3_config \<Rightarrow> string \<Rightarrow> s3_error \<Rightarrow> 's fs_world
     \<Rightarrow> ('s, file_info) outcome" where
  "getFileInfo_catch env path m cfg s3SubPath e w =
     (if httpStatusCode e = Some 404
      then (case sendCommand env
                   (ListObjectsV2Command (bucket_name cfg) (ensureSlash s3SubPath) None (Some 1)
                      None) w of
              (Inl e', w1) \<Rightarrow> (Inl (S3ServiceException e'), w1)
            | (Inr listResponse, w1) \<Rightarrow>
                if Contents listResponse \<noteq> [] then (Inr (directoryInfo env path m), w1)
                else (Inl (HTTPException NOT_FOUND FileOrDirectoryMissing), w1))
      else if httpStatusCode e = Some 403
      then (Inl (HTTPException FORBIDDEN AccessDenied), w)
      else (Inl (HTTPException INTERNAL_ERROR (GetInfoFailed (errName e) (errMessage e))), w))"

definition getFileInfo ::
  "'s fs_env \<Rightarrow> string \<Rightarrow> string \<Rightarrow> string \<Rightarrow> 's fs_world \<Rightarrow> ('s, file_info) outcome" where
  "getFileInfo env path userId userType w =
     handleFsError ''getFileInfo''
       (case findMountPointByPath env path userId userType of
          Inl (status, msg) \<Rightarrow> (Inl (HTTPException status (Text msg)), w)
        | Inr (m, subPath) \<Rightarrow>
            (case s3_configs env (storage_config_id m) of
               None \<Rightarrow> (Inl (HTTPException NOT_FOUND StorageConfigMissing), w)
             | Some cfg \<Rightarrow>
                 (let s3SubPath = normalizeS3SubPath env subPath cfg False;
                      w1 = updateMountLastUsed (mount_id m) w
                  in case sendCommand env (HeadObjectCommand (bucket_name cfg) s3SubPath) w1 of
                       (Inr headResponse, w2) \<Rightarrow> (Inr (infoOf env path m s3SubPath headResponse), w2)
                     | (Inl headError, w2) \<Rightarrow>
                         if headFallsBackToGet headError
                         then (case sendCommand env
                                      (GetObjectCommand (bucket_name cfg) s3SubPath None) w2 of
                                 (Inr getResponse, w3) \<Rightarrow>
                                   (Inr (infoOf env path m s3SubPath getResponse),
                                    releaseBody (Body getResponse) w3)
                               | (Inl getError, w3) \<Rightarrow>
                                   getFileInfo_catch env path m cfg s3SubPath getError w3)
                         else getFileInfo_catch env path m cfg s3SubPath headError w2)))"

subsection \<open>listDirectory\<close>

text \<open>The mount path with a leading slash.\<close>

definition mountPathOf :: "mount \<Rightarrow> string" where
  "mountPathOf m = (if startsWith (mount_path m) ''/'' then mount_path m else ''/'' @ mount_path m)"

text \<open>\<open>mounts.sort((a, b) => b.mount_path.length - a.mount_path.length)\<close>: by the
  length of the mount path, the longest first, and stable.\<close>

definition sortMounts :: "mount list \<Rightarrow> mount list" where
  "sortMounts mounts = sort_key (\<lambda>m. - int (length (mount_path m))) mounts"

text \<open>The loop over the sorted mounts: the first mount that the path is at or under,
  with the sub-path.\<close>

fun findMatchingMount :: "mount list \<Rightarrow> string \<Rightarrow> (mount \<times> string) option" where
  "findMatchingMount [] path = None"
| "findMatchingMount (m # ms) path =
     (let mountPath = mountPathOf m
      in if path = mountPath @ ''/'' \<or> startsWith path (mountPath @ ''/'')
         then (let subPath = substringFrom path (int (length mountPath))
               in Some (m, if startsWith subPath ''/'' then subPath else ''/'' @ subPath))
         else findMatchingMount ms path)"

text \<open>\<open>getVirtualDirectoryListing\<close>: the mounts at the path become mount entries, the
  mounts below it give the first directory on the way to them.\<close>

definition mountEntry :: "'s fs_env \<Rightarrow> mount \<Rightarrow> item" where
  "mountEntry env m =
     MountItem
       (if mount_name m \<noteq> [] then mount_name m else popOr (segments (mountPathOf m)) (mount_id m))
       (mountPathOf m) (mount_id m)
       (if updated_at m \<noteq> [] then updated_at m
        else if created_at m \<noteq> [] then created_at m else nowISO env)
       (storage_type m)"

fun virtualEntries ::
  "'s fs_env \<Rightarrow> mount list \<Rightarrow> string \<Rightarrow> string list \<Rightarrow> item list \<Rightarrow> string list \<times> item list" where
  "virtualEntries env [] path directories mountEntries = (directories, mountEntries)"
| "virtualEntries env (m # ms) path directories mountEntries =
     (let mountPath = mountPathOf m
      in if mountPath @ ''/'' = path \<or> mountPath = path
         then virtualEntries env ms path directories (mountEntries @ [mountEntry env m])
         else if startsWith mountPath path
         then (let firstDir = hd (split (substringFrom mountPath (int (length path))) CHR ''/'')
               in virtualEntries env ms path
                    (if firstDir \<noteq> [] \<and> firstDir \<notin> set directories
                     then directories @ [firstDir] else directories)
                    mountEntries)
         else virtualEntries env ms path directories mountEntries)"

definition getVirtualDirectoryListing :: "'s fs_env \<Rightarrow> mount list \<Rightarrow> string \<Rightarrow> listing" where
  "getVirtualDirectoryListing env mounts path0 =
     (let path = normalizePath path0 True
      in case virtualEntries env mounts path [] [] of
           (directories, mountEntries) \<Rightarrow>
             \<lparr>l_path = path, l_isRoot = (path = ''/''), l_isVirtual = True,
              l_mount_id = None, l_storage_type = None,
              l_items = map (\<lambda>dir. DirItem dir (path @ dir @ ''/'') True (nowISO env)) directories
                         @ mountEntries\<rparr>)"

text \<open>\<open>getS3DirectoryListing\<close>: the prefix of the listing and the items made of the
  response.\<close>

definition prefixPart :: "string \<Rightarrow> string" where
  "prefixPart p = (if p \<noteq> [] then ensureSlash p else [])"

definition fullPrefixOf :: "s3_config \<Rightarrow> string \<Rightarrow> string" where
  "fullPrefixOf cfg s3SubPath =
     (let defaultFolder = prefixPart (default_folder cfg);
          fullPrefix = prefixPart (root_prefix cfg)
            @ (if defaultFolder \<noteq> [] \<and> defaultFolder \<noteq> ''/'' then defaultFolder else [])
            @ (if s3SubPath \<noteq> [] \<and> s3SubPath \<noteq> ''/'' then s3SubPath else [])
      in if fullPrefix \<noteq> [] \<and> \<not> endsWith fullPrefix ''/'' then fullPrefix @ ''/'' else fullPrefix)"

definition directoryItems :: "'s fs_env \<Rightarrow> mount \<Rightarrow> string \<Rightarrow> string \<Rightarrow> string list \<Rightarrow> item list" where
  "directoryItems env m subPath s3SubPath prefixes =
     concat (map (\<lambda>prefix.
        if prefix = [] then []
        else (let relativePath = substringFrom prefix (int (length s3SubPath));
                  dirName = (if endsWith relativePath ''/'' then butlast relativePath
                             else relativePath)
              in if dirName = [] then []
                 else [DirItem dirName (mount_path m @ subPath @ dirName @ ''/'') False
                         (nowISO env)])) prefixes)"

definition fileItems :: "'s fs_env \<Rightarrow> mount \<Rightarrow> string \<Rightarrow> string \<Rightarrow> s3_object list \<Rightarrow> item list" where
  "fileItems env m subPath fullPrefix objects =
     concat (map (\<lambda>ob.
        if Key ob = fullPrefix \<or> Key ob = fullPrefix @ ''/'' then []
        else (let relativePath = substringFrom (Key ob) (int (length fullPrefix))
              in if includesStr relativePath ''/'' \<or> relativePath = [] then []
                 else [FileItem relativePath (mount_path m @ subPath @ relativePath) (Size ob)
                         (case ObjLastModified ob of None \<Rightarrow> nowISO env | Some d \<Rightarrow> d)
                         (stripQuotes (ObjETag ob))])) objects)"

definition getS3DirectoryListing ::
  "'s fs_env \<Rightarrow> mount \<Rightarrow> string \<Rightarrow> 's fs_world \<Rightarrow> ('s, listing) outcome" where
  "getS3DirectoryListing env m subPath w =
     (case (if 0 < cache_ttl m
            then (case cache_get (cache w) (clock env) (mount_id m) subPath of
                    (r, c') \<Rightarrow> (r, w\<lparr>cache := c'\<rparr>))
            else (None, w)) of
        (Some cachedResult, w1) \<Rightarrow> (Inr cachedResult, w1)
      | (None, w1) \<Rightarrow>
          (case s3_configs env (storage_config_id m) of
             None \<Rightarrow> (Inl (HTTPException NOT_FOUND StorageConfigMissing), w1)
           | Some cfg \<Rightarrow>
               (let s3SubPath = normalizeS3SubPath env subPath cfg True;
                    w2 = updateMountLastUsed (mount_id m) w1;
                    fullPrefix = fullPrefixOf cfg s3SubPath
                in case sendCommand env
                          (ListObjectsV2Command (bucket_name cfg) fullPrefix (Some ''/'') None None)
                          w2 of
                     (Inl e, w3) \<Rightarrow> (Inl (S3ServiceException e), w3)
                   | (Inr response, w3) \<Rightarrow>
                       (let result =
                              \<lparr>l_path = mount_path m @ subPath, l_isRoot = False,
                               l_isVirtual = False, l_mount_id = Some (mount_id m),
                               l_storage_type = Some (storage_type m),
                               l_items =
                                 directoryItems env m subPath s3SubPath (CommonPrefixes response)
                                 @ fileItems env m subPath fullPrefix (Contents response)\<rparr>
                        in (Inr result,
                            if 0 < cache_ttl m
                            then w3\<lparr>cache := cache_set (cache w3) (clock env) (mount_id m) subPath
                                                 result (cache_ttl m)\<rparr>
                            else w3)))))"

definition listDirectory ::
  "'s fs_env \<Rightarrow> string \<Rightarrow> string \<Rightarrow> string \<Rightarrow> 's fs_world \<Rightarrow> ('s, listing) outcome" where
  "listDirectory env path0 userId userType w =
     handleFsError ''listDirectory''
       (let path = normalizePath path0 True
        in case (if userType = ''admin'' then Some (getMountsByAdmin env userId)
                 else if userType = ''apiKey'' then Some (getMountsByApiKey env userId)
                 else None) of
             None \<Rightarrow> (Inl (HTTPException UNAUTHORIZED UnauthorizedAccess), w)
           | Some mounts0 \<Rightarrow>
               (let mounts = sortMounts mounts0
                in case findMatchingMount mounts path of
                     None \<Rightarrow> (Inr (getVirtualDirectoryListing env mounts path), w)
                   | Some (matchingMount, subPath) \<Rightarrow>
                       getS3DirectoryListing env matchingMount subPath w))"

section \<open>A provider and collaborators to run the service on\<close>

text \<open>
  A small S3 provider with one bucket, as the scenarios of the spec use it: the state
  is the list of keys with their objects. \<open>HEAD\<close> and \<open>GET\<close> of a missing key answer 404,
  \<open>PUT\<close> stores, \<open>DELETE\<close> removes, \<open>COPY\<close> copies, and the listing gives every key under
  the prefix in one page (grouped by the delimiter when there is one).
\<close>

record fake_object =
  fo_contentType :: string
  fo_content :: content

type_synonym fake_s3 = "(string \<times> fake_object) list"

definition emptyOutput :: s3_output where
  "emptyOutput = \<lparr>ContentType = None, ContentLength = None, LastModified = None,
     ETag = None, Metadata = None, Body = None, Contents = [], CommonPrefixes = [],
     IsTruncated = False, NextContinuationToken = None\<rparr>"

definition notFound :: s3_error where
  "notFound = \<lparr>metadata = Some (Some 404), errName = ''NotFound'', errMessage = ''NotFound''\<rparr>"

fun contentSize :: "content \<Rightarrow> nat" where
  "contentSize (Str s) = length s"
| "contentSize (ArrayBuffer b) = length b"
| "contentSize (Uint8Array b) = length b"
| "contentSize OtherContent = 0"

definition fake_head :: "fake_object \<Rightarrow> s3_output" where
  "fake_head ob = emptyOutput\<lparr>ContentType := Some (fo_contentType ob),
     ContentLength := Some (contentSize (fo_content ob))\<rparr>"

definition fake_object_of :: "string \<times> fake_object \<Rightarrow> s3_object" where
  "fake_object_of kv = \<lparr>Key = fst kv, Size = contentSize (fo_content (snd kv)),
     ObjLastModified = None, ObjETag = None\<rparr>"

definition fake_list :: "fake_s3 \<Rightarrow> string \<Rightarrow> string option \<Rightarrow> nat option \<Rightarrow> s3_output" where
  "fake_list s prefix delimiter maxKeys =
     (let matching = filter (\<lambda>kv. startsWith (fst kv) prefix) s;
          page = (case maxKeys of None \<Rightarrow> matching | Some n \<Rightarrow> take n matching);
          nested = (\<lambda>kv. delimiter \<noteq> None \<and> CHR ''/'' \<in> set (drop (length prefix) (fst kv)))
      in emptyOutput\<lparr>
           Contents := map fake_object_of (filter (\<lambda>kv. \<not> nested kv) page),
           CommonPrefixes :=
             remdups (map (\<lambda>kv. prefix @ takeWhile (\<lambda>c. c \<noteq> CHR ''/'')
                                              (drop (length prefix) (fst kv)) @ ''/'')
                        (filter nested page))\<rparr>)"

fun fake_send :: "fake_s3 \<Rightarrow> s3_command \<Rightarrow> (s3_error + s3_output) \<times> fake_s3" where
  "fake_send s (HeadObjectCommand bucket key) =
     (case map_of s key of
        None \<Rightarrow> (Inl notFound, s)
      | Some ob \<Rightarrow> (Inr (fake_head ob), s))"
| "fake_send s (GetObjectCommand bucket key rng) =
     (case map_of s key of
        None \<Rightarrow> (Inl notFound, s)
      | Some ob \<Rightarrow>
          (Inr ((fake_head ob)\<lparr>Body := Some \<lparr>has_destroy = True, has_cancel = False,
                                               has_close = False, has_abort = False\<rparr>\<rparr>), s))"
| "fake_send s (PutObjectCommand bucket key content contentType md) =
     (Inr (emptyOutput\<lparr>ETag := Some ''etag''\<rparr>),
      (key, \<lparr>fo_contentType = contentType, fo_content = content\<rparr>)
        # filter (\<lambda>kv. fst kv \<noteq> key) s)"
| "fake_send s (DeleteObjectCommand bucket key) =
     (Inr emptyOutput, filter (\<lambda>kv. fst kv \<noteq> key) s)"
| "fake_send s (CopyObjectCommand bucket copySource key) =
     (case map_of s (drop (Suc (length bucket)) copySource) of
        None \<Rightarrow> (Inl notFound, s)
      | Some ob \<Rightarrow> (Inr emptyOutput, (key, ob) # filter (\<lambda>kv. fst kv \<noteq> key) s))"
| "fake_send s (ListObjectsV2Command bucket prefix delimiter maxKeys token) =
     (Inr (fake_list s prefix delimiter maxKeys), s)"

text \<open>
  Modelled from the spec: \<open>checkDirectoryExists\<close> (section 4.6, \<open>uploadFile\<close>) finds the
  directory when the placeholder object of the prefix is there or the listing of the
  prefix is not empty.
\<close>

definition fake_checkDirectoryExists :: "fake_s3 \<Rightarrow> string \<Rightarrow> string \<Rightarrow> bool \<times> fake_s3" where
  "fake_checkDirectoryExists s bucket path =
     (map_of s (ensureSlash path) \<noteq> None
        \<or> filter (\<lambda>kv. startsWith (fst kv) (ensureSlash path)) s \<noteq> [], s)"

definition demo_config :: s3_config where
  "demo_config = \<lparr>config_id = ''c1'', bucket_name = ''b'', root_prefix = [],
     default_folder = []\<rparr>"

definition media_mount :: mount where
  "media_mount = \<lparr>mount_id = ''m2'', mount_name = ''media'', mount_path = ''/media'',
     storage_type = ''S3'', storage_config_id = ''c1'', cache_ttl = 0,
     created_at = ''2024-01-01'', updated_at = ''2024-01-02''\<rparr>"

text \<open>Two mounts, \<open>/docs\<close> and \<open>/media\<close>; any other path has no mount.\<close>

definition demo_find :: "string \<Rightarrow> string \<Rightarrow> string \<Rightarrow> (nat \<times> string) + (mount \<times> string)" where
  "demo_find path userId userType =
     (if path = ''/docs'' \<or> startsWith path ''/docs/''
      then Inr (demo_mount, if path = ''/docs'' then ''/'' else drop 5 path)
      else if path = ''/media'' \<or> startsWith path ''/media/''
      then Inr (media_mount, if path = ''/media'' then ''/'' else drop 6 path)
      else Inl (404, ''no mount''))"

text \<open>The sub-path without its leading slash, with a closing slash for a directory.\<close>

definition demo_normalize :: "string \<Rightarrow> s3_config \<Rightarrow> bool \<Rightarrow> string" where
  "demo_normalize subPath cfg asDirectory =
     (let p = (if startsWith subPath ''/'' then drop 1 subPath else subPath)
      in if asDirectory \<and> p \<noteq> [] then ensureSlash p else p)"

definition demo_mime :: "string \<Rightarrow> string \<Rightarrow> string \<times> mime_group" where
  "demo_mime filename mimetype =
     (if endsWith filename ''.exe'' then (''application/x-msdownload'', EXECUTABLE)
      else (mimetype, OtherGroup ''text''))"

definition demo_env :: "fake_s3 fs_env" where
  "demo_env = \<lparr>
     send = fake_send,
     findMountPointByPath = demo_find,
     getMountsByAdmin = (\<lambda>u. [demo_mount, media_mount]),
     getMountsByApiKey = (\<lambda>u. [demo_mount]),
     s3_configs = (\<lambda>i. if i = ''c1'' then Some demo_config else None),
     normalizeS3SubPath = demo_normalize,
     checkDirectoryExists = fake_checkDirectoryExists,
     encodeURIComponent = (\<lambda>s. s),
     getMimeTypeAndGroupFromFile = demo_mime,
     initializeMultipartUpload =
       (\<lambda>path ty size u t s.
          (Inr \<lparr>mi_uploadId = ''u1'', mi_path = path, mi_recommendedPartSize = 5242880,
                 mi_bucket = ''b'', mi_key = drop 1 path, mi_mount_id = ''m1'',
                 mi_storage_type = ''S3''\<rparr>, s)),
     buildS3Url = (\<lambda>cfg key. ''https://s3.example/b/'' @ key),
     generateFileId = ''f1234567'',
     getLocalTimeString = ''2024-05-01 10:00:00'',
     nowISO = ''2024-05-01T10:00:00.000Z'',
     clock = 1000\<rparr>"

definition emptyListing :: "string \<Rightarrow> listing" where
  "emptyListing p = \<lparr>l_path = p, l_isRoot = False, l_isVirtual = False,
     l_mount_id = Some ''m1'', l_storage_type = Some ''S3'', l_items = []\<rparr>"

definition demo_world :: "fake_s3 \<Rightarrow> fake_s3 fs_world" where
  "demo_world s = \<lparr>provider = s, cache = Map.empty, io = []\<rparr>"

text \<open>
  A provider that lists in pages, as S3 does: the keys under the prefix in their
  order, at most two to a page, the continuation token of a truncated page being its
  last key and the next page starting after it. It is the small provider otherwise.
\<close>

definition after :: "string option \<Rightarrow> string \<Rightarrow> bool" where
  "after token key = (case token of None \<Rightarrow> True | Some t \<Rightarrow> t < key)"

definition paged_list ::
  "fake_s3 \<Rightarrow> string \<Rightarrow> string option \<Rightarrow> nat option \<Rightarrow> string option \<Rightarrow> s3_output" where
  "paged_list s prefix delimiter maxKeys token =
     (let matching = filter (\<lambda>kv. startsWith (fst kv) prefix \<and> after token (fst kv))
                       (sort_key fst s);
          page = take (case maxKeys of None \<Rightarrow> 2 | Some n \<Rightarrow> min n 2) matching;
          truncated = (page \<noteq> [] \<and> length page < length matching)
      in (fake_list page prefix delimiter None)
           \<lparr>IsTruncated := truncated,
            NextContinuationToken := (if truncated then Some (fst (last page)) else None)\<rparr>)"

fun paged_send :: "fake_s3 \<Rightarrow> s3_command \<Rightarrow> (s3_error + s3_output) \<times> fake_s3" where
  "paged_send s (ListObjectsV2Command bucket prefix delimiter maxKeys token) =
     (Inr (paged_list s prefix delimiter maxKeys token), s)"
| "paged_send s cmd = fake_send s cmd"

definition paged_env :: "fake_s3 fs_env" where
  "paged_env = demo_env\<lparr>send := paged_send\<rparr>"

text \<open>The number of keys that a scan with the given token has still to list.\<close>

definition paged_rank :: "fake_s3 \<Rightarrow> string option \<Rightarrow> nat" where
  "paged_rank s token = length (filter (\<lambda>kv. after token (fst kv)) s)"

definition demo_objects :: fake_s3 where
  "demo_objects =
     [(''a.txt'', \<lparr>fo_contentType = ''text/plain'', fo_content = Str ''hi''\<rparr>),
      (''dir/'', \<lparr>fo_contentType = ''application/x-directory'', fo_content = Str []\<rparr>),
      (''dir/x.txt'', \<lparr>fo_contentType = ''text/plain'', fo_content = Str ''x''\<rparr>)]"

definition paged_objects :: fake_s3 where
  "paged_objects =
     [(''dir/y.txt'', \<lparr>fo_contentType = ''text/plain'', fo_content = Str ''y''\<rparr>),
      (''a.txt'', \<lparr>fo_contentType = ''text/plain'', fo_content = Str ''hi''\<rparr>),
      (''dir/'', \<lparr>fo_contentType = ''application/x-directory'', fo_content = Str []\<rparr>),
      (''dir/x.txt'', \<lparr>fo_contentType = ''text/plain'', fo_content = Str ''x''\<rparr>)]"

section \<open>Notions for the statements\<close>

text \<open>
  The law of a provider whose scans end. Each state of the provider and token has a
  rank, the number of pages that a scan from there may still need: a listing and a
  deletion do not raise the rank of any token, and the token of a truncated listing
  has a lower rank than the token the listing was asked with.
\<close>

definition paging_progress :: "'s fs_env \<Rightarrow> ('s \<Rightarrow> string option \<Rightarrow> nat) \<Rightarrow> bool" where
  "paging_progress env rank =
     ((\<forall>s bucket prefix delimiter maxKeys token r s'.
         send env s (ListObjectsV2Command bucket prefix delimiter maxKeys token) = (r, s')
         \<longrightarrow> (\<forall>t. rank s' t \<le> rank s t)
           \<and> (\<forall>out t'. r = Inr out \<and> nextToken out = Some t'
                  \<longrightarrow> rank s' (Some t') < rank s token))
      \<and> (\<forall>s bucket key r s'.
           send env s (DeleteObjectCommand bucket key) = (r, s')
           \<longrightarrow> (\<forall>t. rank s' t \<le> rank s t)))"

text \<open>An outcome that is an \<open>HTTPException\<close> of the given status.\<close>

definition failsWith :: "nat \<Rightarrow> ('s, 'a) outcome \<Rightarrow> bool" where
  "failsWith status r =
     (case fst r of
        Inl (HTTPException st msg) \<Rightarrow> st = status
      | _ \<Rightarrow> False)"



text \<open>A provider that refuses \<open>HEAD\<close> with status 403, as some providers do, and is the
  small provider otherwise.\<close>

definition forbidden :: s3_error where
  "forbidden = \<lparr>metadata = Some (Some 403), errName = ''403'', errMessage = ''Forbidden''\<rparr>"

fun head403_send :: "fake_s3 \<Rightarrow> s3_command \<Rightarrow> (s3_error + s3_output) \<times> fake_s3" where
  "head403_send s (HeadObjectCommand bucket key) = (Inl forbidden, s)"
| "head403_send s cmd = fake_send s cmd"

definition head403_env :: "fake_s3 fs_env" where
  "head403_env = demo_env\<lparr>send := head403_send\<rparr>"

definition text_object :: "string \<Rightarrow> fake_object" where
  "text_object s = \<lparr>fo_contentType = ''text/plain'', fo_content = Str s\<rparr>"

definition exe_object :: fake_object where
  "exe_object = \<lparr>fo_contentType = ''application/x-msdownload'',
     fo_content = ArrayBuffer ''MZ''\<rparr>"

definition setup_exe :: upload_file where
  "setup_exe = \<lparr>file_name = ''setup.exe'', file_type = ''application/x-msdownload'',
     file_size = 2, file_bytes = ''MZ''\<rparr>"

text \<open>The MIME type that \<open>updateFile\<close> hands to the classification of the file: the
  \<open>Content-Type\<close> that the \<open>HEAD\<close> of the key returned, or else \<open>text/plain\<close> for a string
  and \<open>application/octet-stream\<close> for binary content.\<close>

definition classifiedType :: "s3_error + s3_output \<Rightarrow> content \<Rightarrow> string" where
  "classifiedType headResult content =
     contentTypeOr (case headResult of Inl e \<Rightarrow> None | Inr out \<Rightarrow> Some out)
       (case content of Str s \<Rightarrow> ''text/plain'' | _ \<Rightarrow> ''application/octet-stream'')"

text \<open>The parent check of the direct upload: the directory of the key, when the key
  has one.\<close>

definition uploadParentCheck ::
  "'s fs_env \<Rightarrow> s3_config \<Rightarrow> string \<Rightarrow> 's fs_world \<Rightarrow> bool \<times> 's fs_world" where
  "uploadParentCheck env cfg key w =
     (if includesStr key ''/''
      then directoryExists env (bucket_name cfg)
             (substring key 0 (lastIndexOfChar key CHR ''/'' + 1)) w
      else (True, w))"

text \<open>The cache has no entry of the mount under any of the given sub-paths.\<close>

definition absent :: "'s fs_world \<Rightarrow> string \<Rightarrow> string list \<Rightarrow> bool" where
  "absent w mountId paths = (\<forall>a \<in> set paths. cache w (mountId, a) = None)"

text \<open>A world whose cache holds a listing of \<open>/a/b/\<close> under the mount \<open>m1\<close>.\<close>

definition cached_world :: "fake_s3 \<Rightarrow> fake_s3 fs_world" where
  "cached_world s = \<lparr>provider = s,
     cache = [(''m1'', ''/a/b/'') \<mapsto> \<lparr>entry_listing = emptyListing ''/docs/a/b/'',
                                         expiresAt = 2000\<rparr>],
     io = []\<rparr>"

definition directory_object :: fake_object where
  "directory_object = \<lparr>fo_contentType = ''application/x-directory'', fo_content = Str []\<rparr>"

section \<open>Properties of the facade\<close>

lemmas ApiStatus_defs =
  BAD_REQUEST_def UNAUTHORIZED_def FORBIDDEN_def NOT_FOUND_def CONFLICT_def
  INTERNAL_ERROR_def NOT_IMPLEMENTED_def







section \<open>Properties of searchFiles\<close>

lemma aggregate_error:
  "aggregate acc vs = Inl e \<Longrightarrow> e = OtherError ''value is not iterable''"
proof (induction vs arbitrary: acc)
  case Nil
  then show ?case by simp
next
  case (Cons v vs)
  show ?case
  proof (cases "truthy v")
    case False
    with Cons show ?thesis by simp
  next
    case True
    show ?thesis
    proof (cases "spread v")
      case (Inl e')
      with True Cons.prems have "e = e'" by simp
      moreover from Inl have "e' = OtherError ''value is not iterable''"
        by (cases v) simp_all
      ultimately show ?thesis by simp
    next
      case (Inr xs)
      with True Cons.prems have "aggregate (acc @ xs) vs = Inl e" by simp
      then show ?thesis by (rule Cons.IH)
    qed
  qed
qed

lemma searchValidated_not_bad_request:
  "fst (searchValidated deps mm query sp u t scope mountId path limit offset st)
     \<noteq> Inl (HTTPException 400 msg)"
  by (auto simp: searchValidated_def Let_def UNAUTHORIZED_def FORBIDDEN_def
           split: option.splits sum.splits prod.splits dest: aggregate_error)

lemma trim_Nil: "trim [] = []"
  by (simp add: trim_def)

text \<open>
  Claim C8 (validation of the search parameters). When the trimmed query has fewer
  than 2 characters, or the limit is below 1 or above 200, or the offset is negative,
  or the scope is none of global, mount and directory, \<open>searchFiles\<close> fails with
  status 400 and has consulted nothing: no cache, no mount, no driver, and the world
  is untouched. When the parameters are within these bounds the validation passes:
  \<open>searchFiles\<close> is then the search itself, which never fails with status 400.
\<close>

theorem searchFiles_validation:
  "(search_parameters_rejected query sp \<longrightarrow>
      (\<exists>msg. FileSystem_searchFiles deps mm query sp u t st
                = (Inl (HTTPException 400 msg), st)))
   \<and> (\<not> search_parameters_rejected query sp \<longrightarrow>
        FileSystem_searchFiles deps mm query sp u t st
          = searchValidated deps mm query sp u t (scopeOf sp) (sp_mountId sp) (sp_path sp)
              (limitOf sp) (offsetOf sp) st
        \<and> (\<forall>msg. fst (FileSystem_searchFiles deps mm query sp u t st)
                    \<noteq> Inl (HTTPException 400 msg)))"
proof (intro conjI impI)
  assume "search_parameters_rejected query sp"
  then show "\<exists>msg. FileSystem_searchFiles deps mm query sp u t st
                     = (Inl (HTTPException 400 msg), st)"
    by (auto simp: search_parameters_rejected_def FileSystem_searchFiles_def Let_def
          scopeOf_def limitOf_def offsetOf_def BAD_REQUEST_def)
next
  assume ok: "\<not> search_parameters_rejected query sp"
  then have q: "query \<noteq> []"
    by (auto simp: search_parameters_rejected_def trim_Nil)
  from ok q show eq: "FileSystem_searchFiles deps mm query sp u t st
      = searchValidated deps mm query sp u t (scopeOf sp) (sp_mountId sp) (sp_path sp)
          (limitOf sp) (offsetOf sp) st"
    by (auto simp: search_parameters_rejected_def FileSystem_searchFiles_def Let_def
          scopeOf_def limitOf_def offsetOf_def)
  show "\<forall>msg. fst (FileSystem_searchFiles deps mm query sp u t st)
                \<noteq> Inl (HTTPException 400 msg)"
    unfolding eq by (simp add: searchValidated_not_bad_request)
qed

theorem searchFiles_validation_witness:
  "FileSystem_searchFiles demo_search_deps demo_manager ''x'' demo_params ''1'' ''admin'' demo_state
     = (Inl (HTTPException 400 QueryTooShort), demo_state)
   \<and> FileSystem_searchFiles demo_search_deps demo_manager ''report''
         (demo_params\<lparr>sp_limit := Some 201\<rparr>) ''1'' ''admin'' demo_state
     = (Inl (HTTPException 400 LimitOutOfRange), demo_state)
   \<and> FileSystem_searchFiles demo_search_deps demo_manager ''report'' demo_params ''1'' ''admin''
         demo_state
     = (Inr \<lparr>results = [], total = 0, hasMore = False, searchParams = demo_params,
              mountsSearched = Some 1\<rparr>,
        \<lparr>world = 1,
         events = [SearchCacheGet, MountsFindAll, GetDriver ''m1'',
                   Invoked (SearchCall ''report'' demo_mount None 1000)]\<rparr>)"
  using searchFiles_validation [of "''x''" demo_params demo_search_deps demo_manager
          "''1''" "''admin''" demo_state]
        searchFiles_validation [of "''report''" "demo_params\<lparr>sp_limit := Some 201\<rparr>"
          demo_search_deps demo_manager "''1''" "''admin''" demo_state]
        searchFiles_validation [of "''report''" demo_params demo_search_deps demo_manager
          "''1''" "''admin''" demo_state]
  by (simp add: FileSystem_searchFiles_def searchValidated_def searchMounts_def
        searchMount_def invoke_def logEvent_def hasCapability_def Let_def trim_def isWhiteSpace_def BAD_REQUEST_def
        demo_params_def demo_search_deps_def demo_manager_def readonly_driver_def
        demo_state_def demo_mount_def search_parameters_rejected_def scopeOf_def
        limitOf_def offsetOf_def)

lemma includesStr_char: "includesStr s [c] = (c \<in> set s)"
proof
  assume "includesStr s [c]"
  then obtain i where "take (Suc 0) (drop i s) = [c]"
    by (auto simp: includesStr_def startsWith_def)
  then have "c \<in> set (take (Suc 0) (drop i s))" by simp
  then have "c \<in> set (drop i s)" by (rule in_set_takeD)
  then show "c \<in> set s" by (rule in_set_dropD)
next
  assume "c \<in> set s"
  then obtain i where i: "i < length s" "s ! i = c" by (auto simp: in_set_conv_nth)
  then have "drop i s = c # drop (Suc i) s" by (simp add: Cons_nth_drop_Suc [symmetric])
  then have "take (Suc 0) (drop i s) = [c]" by simp
  moreover from i have "i \<in> set (upt 0 (Suc (length s)))" by simp
  ultimately show "includesStr s [c]"
    unfolding includesStr_def startsWith_def by auto
qed

section \<open>Properties of the service\<close>

text \<open>
  Claim C10 (the size limit of updateFile). Content that is a string of more than
  10 * 1024 * 1024 characters, or an \<open>ArrayBuffer\<close> of more than 10 * 1024 * 1024
  bytes, makes \<open>updateFile\<close> fail with status 400; the world is as it was: no mount
  has been looked up (the result is the same whatever the collaborators are), nothing
  has been sent to the provider and the stored objects are unchanged.
\<close>

theorem updateFile_size_limit:
  assumes "(\<exists>s. content = Str s \<and> 10 * 1024 * 1024 < length s)
         \<or> (\<exists>b. content = ArrayBuffer b \<and> 10 * 1024 * 1024 < length b)"
  shows "updateFile env path content userId userType w
           = (Inl (HTTPException 400 ContentTooLarge), w)"
proof -
  from assms have "contentTooLarge content"
    by (auto simp: contentTooLarge_def MAX_FILE_SIZE_def)
  then show ?thesis
    by (simp add: updateFile_def handleFsError_def BAD_REQUEST_def)
qed

theorem updateFile_size_limit_witness:
  "updateFile demo_env ''/docs/a.txt'' (Str (replicate 10485761 CHR ''a'')) ''1'' ''admin''
      (demo_world [(''a.txt'', \<lparr>fo_contentType = ''text/plain'', fo_content = Str ''hi''\<rparr>)])
     = (Inl (HTTPException 400 ContentTooLarge),
        demo_world [(''a.txt'', \<lparr>fo_contentType = ''text/plain'', fo_content = Str ''hi''\<rparr>)])"
  using updateFile_size_limit [of "Str (replicate 10485761 CHR ''a'')" demo_env
          "''/docs/a.txt''" "''1''" "''admin''"
          "demo_world [(''a.txt'', \<lparr>fo_contentType = ''text/plain'', fo_content = Str ''hi''\<rparr>)]"]
  by simp

text \<open>
  Claim C9 (rename across mounts). When the old and the new path resolve to
  different mounts, \<open>renameItem\<close> fails with status 400 and the world is as it was:
  nothing has been sent to the provider, so nothing has been copied or deleted.
\<close>

theorem renameItem_cross_mount:
  assumes "findMountPointByPath env oldPath userId userType = Inr (oldMount, oldSubPath)"
    and "findMountPointByPath env newPath userId userType = Inr (newMount, newSubPath)"
    and "mount_id oldMount \<noteq> mount_id newMount"
  shows "\<exists>msg. renameItem fuel env oldPath newPath userId userType w
                 = Some (Inl (HTTPException 400 msg), w)"
  using assms
  by (simp add: renameItem_def handleFsErrorOpt_def handleFsError_def Let_def BAD_REQUEST_def)

theorem renameItem_cross_mount_witness:
  "renameItem 5 demo_env ''/docs/a.txt'' ''/media/a.txt'' ''1'' ''admin''
      (demo_world [(''a.txt'', \<lparr>fo_contentType = ''text/plain'', fo_content = Str ''hi''\<rparr>)])
     = Some (Inl (HTTPException 400 CrossMountRename),
             demo_world [(''a.txt'', \<lparr>fo_contentType = ''text/plain'', fo_content = Str ''hi''\<rparr>)])"
  using renameItem_cross_mount [of demo_env "''/docs/a.txt''" "''1''" "''admin''" demo_mount
          "''/a.txt''" "''/media/a.txt''" media_mount "''/a.txt''" 5
          "demo_world [(''a.txt'', \<lparr>fo_contentType = ''text/plain'', fo_content = Str ''hi''\<rparr>)]"]
  by (simp add: renameItem_def handleFsErrorOpt_def handleFsError_def Let_def BAD_REQUEST_def
        demo_env_def demo_find_def demo_mount_def media_mount_def startsWith_def endsWith_def)

lemma batchRemoveItems_loop_count:
  "batchRemoveItems_loop fuel env paths userId userType result w = Some (result', w')
   \<Longrightarrow> br_success result' + length (br_failed result')
         = br_success result + length (br_failed result) + length paths"
proof (induction paths arbitrary: result w)
  case Nil
  then show ?case by simp
next
  case (Cons path paths)
  show ?case
  proof (cases "removeItem fuel env path userId userType w")
    case None
    with Cons.prems show ?thesis by simp
  next
    case (Some r)
    obtain res w1 where r: "r = (res, w1)" by (cases r)
    show ?thesis
    proof (cases res)
      case (Inl e)
      with Some r Cons.prems
      have "batchRemoveItems_loop fuel env paths userId userType
              (result\<lparr>br_failed := br_failed result @ [(path, errorMessageOf e)]\<rparr>) w1
            = Some (result', w')"
        by simp
      from Cons.IH [OF this] show ?thesis by simp
    next
      case (Inr u)
      with Some r Cons.prems
      have "batchRemoveItems_loop fuel env paths userId userType
              (result\<lparr>br_success := br_success result + 1\<rparr>) w1
            = Some (result', w')"
        by simp
      from Cons.IH [OF this] show ?thesis by simp
    qed
  qed
qed

lemma filter_count_less:
  assumes "\<forall>x \<in> set xs. P x \<longrightarrow> Q x" and "\<exists>x \<in> set xs. Q x \<and> \<not> P x"
  shows "length (filter P xs) < length (filter Q xs)"
  using assms
proof (induction xs)
  case Nil
  then show ?case by simp
next
  case (Cons x xs)
  have le: "length (filter P xs) \<le> length (filter Q xs)"
  proof -
    from Cons.prems(1) have "filter P xs = filter P (filter Q xs)"
      by (auto intro: filter_cong simp: )
    then show ?thesis by (metis length_filter_le)
  qed
  show ?case
  proof (cases "Q x \<and> \<not> P x")
    case True
    with le show ?thesis by simp
  next
    case False
    with Cons.prems have "\<exists>y \<in> set xs. Q y \<and> \<not> P y" by auto
    with Cons.IH Cons.prems(1) have "length (filter P xs) < length (filter Q xs)" by auto
    with Cons.prems(1) show ?thesis by auto
  qed
qed

lemma paged_rank_delete:
  "paged_rank (filter (\<lambda>kv. fst kv \<noteq> key) s) t \<le> paged_rank s t"
proof -
  have "filter (\<lambda>kv. after t (fst kv)) (filter (\<lambda>kv. fst kv \<noteq> key) s)
          = filter (\<lambda>kv. fst kv \<noteq> key) (filter (\<lambda>kv. after t (fst kv)) s)"
    by (simp add: conj_commute)
  then show ?thesis
    unfolding paged_rank_def by (metis length_filter_le)
qed

lemma paged_rank_list:
  assumes "nextToken (paged_list s prefix delimiter maxKeys token) = Some t'"
  shows "paged_rank s (Some t') < paged_rank s token"
proof -
  define matching where
    "matching = filter (\<lambda>kv. startsWith (fst kv) prefix \<and> after token (fst kv))
                       (sort_key fst s)"
  define page where
    "page = take (case maxKeys of None \<Rightarrow> 2 | Some n \<Rightarrow> min n 2) matching"
  from assms have ne: "page \<noteq> []" and t': "t' = fst (last page)"
    by (auto simp: nextToken_def paged_list_def Let_def page_def matching_def
             split: if_splits)
  from ne have "last page \<in> set page" by (rule last_in_set)
  then have "last page \<in> set matching" unfolding page_def by (rule in_set_takeD)
  then have m: "last page \<in> set s" and a: "after token (fst (last page))"
    by (auto simp: matching_def)
  have sub: "\<forall>kv \<in> set s. after (Some t') (fst kv) \<longrightarrow> after token (fst kv)"
  proof (cases token)
    case None
    then show ?thesis by (simp add: after_def)
  next
    case (Some t)
    with a have "t < t'" by (simp add: after_def t')
    with Some show ?thesis by (auto simp: after_def)
  qed
  have "after token (fst (last page)) \<and> \<not> after (Some t') (fst (last page))"
    using a by (simp add: after_def t')
  with m have "\<exists>kv \<in> set s. after token (fst kv) \<and> \<not> after (Some t') (fst kv)"
    by blast
  with sub show ?thesis
    unfolding paged_rank_def by (rule filter_count_less)
qed

lemma paged_progress: "paging_progress paged_env paged_rank"
  unfolding paging_progress_def
proof (intro conjI allI impI)
  fix s bucket prefix delimiter maxKeys token r s' t
  assume "send paged_env s (ListObjectsV2Command bucket prefix delimiter maxKeys token) = (r, s')"
  then show "paged_rank s' t \<le> paged_rank s t"
    by (simp add: paged_env_def demo_env_def)
next
  fix s bucket prefix delimiter maxKeys token r s' out t'
  assume "send paged_env s (ListObjectsV2Command bucket prefix delimiter maxKeys token) = (r, s')"
    and "r = Inr out \<and> nextToken out = Some t'"
  then show "paged_rank s' (Some t') < paged_rank s token"
    by (auto simp: paged_env_def demo_env_def dest: paged_rank_list)
next
  fix s bucket key r s' t
  assume "send paged_env s (DeleteObjectCommand bucket key) = (r, s')"
  then show "paged_rank s' t \<le> paged_rank s t"
    by (auto simp: paged_env_def demo_env_def paged_rank_delete)
qed

lemma send_list_rank:
  assumes "paging_progress env rank"
    and "sendCommand env (ListObjectsV2Command bucket prefix delimiter maxKeys token) w = (r, w1)"
  shows "rank (provider w1) t \<le> rank (provider w) t"
    and "r = Inr out \<Longrightarrow> nextToken out = Some t'
           \<Longrightarrow> rank (provider w1) (Some t') < rank (provider w) token"
proof -
  obtain r0 s' where s: "send env (provider w)
      (ListObjectsV2Command bucket prefix delimiter maxKeys token) = (r0, s')"
    by (cases "send env (provider w)
      (ListObjectsV2Command bucket prefix delimiter maxKeys token)")
  with assms(2) have eq: "r = r0" "provider w1 = s'"
    by (auto simp: sendCommand_def)
  from assms(1) s have law: "(\<forall>t. rank s' t \<le> rank (provider w) t)
           \<and> (\<forall>out t'. r0 = Inr out \<and> nextToken out = Some t'
                  \<longrightarrow> rank s' (Some t') < rank (provider w) token)"
    unfolding paging_progress_def by blast
  from law eq show "rank (provider w1) t \<le> rank (provider w) t" by simp
  from law eq show "r = Inr out \<Longrightarrow> nextToken out = Some t'
           \<Longrightarrow> rank (provider w1) (Some t') < rank (provider w) token"
    by blast
qed

lemma send_delete_rank:
  assumes "paging_progress env rank"
    and "sendCommand env (DeleteObjectCommand bucket key) w = (r, w1)"
  shows "rank (provider w1) t \<le> rank (provider w) t"
proof -
  obtain r0 s' where s: "send env (provider w) (DeleteObjectCommand bucket key) = (r0, s')"
    by (cases "send env (provider w) (DeleteObjectCommand bucket key)")
  with assms(2) have eq: "provider w1 = s'"
    by (auto simp: sendCommand_def)
  from assms(1) s have "\<forall>t. rank s' t \<le> rank (provider w) t"
    unfolding paging_progress_def by blast
  with eq show ?thesis by simp
qed

lemma deleteObjects_rank:
  assumes "paging_progress env rank"
  shows "deleteObjects env bucket objs deletedFiles w = (r, w')
         \<Longrightarrow> rank (provider w') t \<le> rank (provider w) t"
proof (induction objs arbitrary: deletedFiles w)
  case Nil
  then show ?case by simp
next
  case (Cons obj objs)
  obtain r1 w1 where d: "sendCommand env (DeleteObjectCommand bucket (Key obj)) w = (r1, w1)"
    by (cases "sendCommand env (DeleteObjectCommand bucket (Key obj)) w")
  have le: "rank (provider w1) t \<le> rank (provider w) t"
    using assms d by (rule send_delete_rank)
  show ?case
  proof (cases r1)
    case (Inl e)
    with Cons.prems d have "w' = w1" by simp
    with le show ?thesis by simp
  next
    case (Inr out)
    with Cons.prems d
    have "deleteObjects env bucket objs (deletedFiles @ [Key obj]) w1 = (r, w')" by simp
    then have "rank (provider w') t \<le> rank (provider w1) t" by (rule Cons.IH)
    with le show ?thesis by simp
  qed
qed

lemma deleteDirectory_loop_returns:
  assumes law: "paging_progress env rank"
  shows "rank (provider w) token < fuel
         \<Longrightarrow> \<exists>r w'. deleteDirectory_loop fuel env bucket prefix token isEmpty deletedFiles w
                        = Some (r, w')
                  \<and> (\<forall>t. rank (provider w') t \<le> rank (provider w) t)"
proof (induction fuel arbitrary: token isEmpty deletedFiles w)
  case 0
  then show ?case by simp
next
  case (Suc fuel)
  obtain r1 w1 where l:
    "sendCommand env (ListObjectsV2Command bucket prefix None None token) w = (r1, w1)"
    by (cases "sendCommand env (ListObjectsV2Command bucket prefix None None token) w")
  note le1 = send_list_rank(1) [OF law l]
  show ?case
  proof (cases r1)
    case (Inl e)
    with l le1 show ?thesis by simp
  next
    case (Inr listResponse)
    obtain r2 w2 where d:
      "deleteObjects env bucket (Contents listResponse) deletedFiles w1 = (r2, w2)"
      by (cases "deleteObjects env bucket (Contents listResponse) deletedFiles w1")
    note le2 = deleteObjects_rank [OF law d]
    have le: "rank (provider w2) t \<le> rank (provider w) t" for t
      using le1 [of t] le2 [of t] by simp
    show ?thesis
    proof (cases r2)
      case (Inl e)
      with l Inr d le show ?thesis by simp
    next
      case deleted: (Inr deletedFiles')
      show ?thesis
      proof (cases "nextToken listResponse")
        case None
        with l Inr d deleted le show ?thesis by (simp add: Let_def)
      next
        case (Some t')
        from send_list_rank(2) [OF law l Inr Some]
        have "rank (provider w1) (Some t') < rank (provider w) token" .
        with le2 [of "Some t'"] Suc.prems have "rank (provider w2) (Some t') < fuel"
          by simp
        from Suc.IH [OF this, of "isEmpty \<and> Contents listResponse = []" deletedFiles']
        obtain r w' where
          rec: "deleteDirectory_loop fuel env bucket prefix (Some t')
                  (isEmpty \<and> Contents listResponse = []) deletedFiles' w2 = Some (r, w')"
          and le3: "\<forall>t. rank (provider w') t \<le> rank (provider w2) t"
          by blast
        from le3 le have "\<forall>t. rank (provider w') t \<le> rank (provider w) t"
          by (meson order_trans)
        with l Inr d deleted Some rec show ?thesis by (simp add: Let_def)
      qed
    qed
  qed
qed

lemma deleteFileRecords_provider:
  "provider (deleteFileRecords cfgId files w) = provider w"
proof -
  have "provider (fold (\<lambda>filePath. record_io (DeleteFileRecord cfgId filePath)) files w)
          = provider w"
    by (induction files arbitrary: w) (simp_all add: record_io_def)
  then show ?thesis by (simp add: deleteFileRecords_def)
qed

lemma deleteDirectory_returns:
  assumes law: "paging_progress env rank" and fuel: "rank (provider w) None < fuel"
  shows "\<exists>r w'. deleteDirectory fuel env bucket dirPath cfgId w = Some (r, w')
            \<and> (\<forall>t. rank (provider w') t \<le> rank (provider w) t)"
proof -
  from deleteDirectory_loop_returns [OF law fuel, of bucket "ensureSlash dirPath" True "[]"]
  obtain r w' where
    l: "deleteDirectory_loop fuel env bucket (ensureSlash dirPath) None True [] w = Some (r, w')"
    and le: "\<forall>t. rank (provider w') t \<le> rank (provider w) t"
    by blast
  show ?thesis
  proof (cases r)
    case (Inl e)
    with l le show ?thesis by (simp add: deleteDirectory_def)
  next
    case (Inr p)
    obtain isEmpty deletedFiles where p: "p = (isEmpty, deletedFiles)" by (cases p)
    with l le Inr show ?thesis
      by (cases isEmpty) (simp_all add: deleteDirectory_def deleteFileRecords_provider)
  qed
qed

lemma invalidateParent_provider:
  "provider (invalidateParent mountId subPath isDirectory w) = provider w"
  by (simp add: invalidateParent_def invalidatePathAndAncestors_def invalidate_def)

lemma removeItem_delete_returns:
  assumes law: "paging_progress env rank" and fuel: "rank (provider w) None < fuel"
  shows "\<exists>r w'. removeItem_delete fuel env m subPath cfg isDirectory s3SubPath w = Some (r, w')
            \<and> (\<forall>t. rank (provider w') t \<le> rank (provider w) t)"
proof (cases isDirectory)
  case True
  from deleteDirectory_returns [OF law fuel, of "bucket_name cfg" s3SubPath "storage_config_id m"]
  obtain r w' where
    d: "deleteDirectory fuel env (bucket_name cfg) s3SubPath (storage_config_id m) w
          = Some (r, w')"
    and le: "\<forall>t. rank (provider w') t \<le> rank (provider w) t"
    by blast
  with True show ?thesis
    by (cases r) (simp_all add: removeItem_delete_def invalidate_def)
next
  case False
  obtain r1 w1 where d:
    "sendCommand env (DeleteObjectCommand (bucket_name cfg) s3SubPath) w = (r1, w1)"
    by (cases "sendCommand env (DeleteObjectCommand (bucket_name cfg) s3SubPath) w")
  have "\<forall>t. rank (provider w1) t \<le> rank (provider w) t"
    using send_delete_rank [OF law d] by simp
  with False d show ?thesis
    by (cases r1) (simp_all add: removeItem_delete_def)
qed

lemma removeItem_returns:
  assumes law: "paging_progress env rank" and fuel: "rank (provider w) None < fuel"
  shows "\<exists>r w'. removeItem fuel env path userId userType w = Some (r, w')
            \<and> (\<forall>t. rank (provider w') t \<le> rank (provider w) t)"
proof (cases "findMountPointByPath env path userId userType")
  case (Inl err)
  obtain status msg where "err = (status, msg)" by (cases err)
  with Inl show ?thesis
    by (simp add: removeItem_def handleFsErrorOpt_def handleFsError_def)
next
  case (Inr found)
  obtain m subPath where f: "found = (m, subPath)" by (cases found)
  show ?thesis
  proof (cases "s3_configs env (storage_config_id m)")
    case None
    with Inr f show ?thesis
      by (simp add: removeItem_def handleFsErrorOpt_def handleFsError_def)
  next
    case (Some cfg)
    from removeItem_delete_returns [OF law fuel, of m subPath cfg "endsWith path ''/''"
           "normalizeS3SubPath env subPath cfg (endsWith path ''/'')"]
    obtain r w' where
      d: "removeItem_delete fuel env m subPath cfg (endsWith path ''/'')
            (normalizeS3SubPath env subPath cfg (endsWith path ''/'')) w = Some (r, w')"
      and le: "\<forall>t. rank (provider w') t \<le> rank (provider w) t"
      by blast
    with Inr f Some show ?thesis
      by (cases r)
         (simp_all add: removeItem_def handleFsErrorOpt_def handleFsError_def Let_def
            invalidateParent_provider updateMountLastUsed_def record_io_def)
  qed
qed

lemma batchRemoveItems_loop_returns:
  assumes law: "paging_progress env rank"
  shows "rank (provider w) None < fuel
         \<Longrightarrow> batchRemoveItems_loop fuel env paths userId userType result w \<noteq> None"
proof (induction paths arbitrary: result w)
  case Nil
  show ?case by simp
next
  case (Cons path paths)
  from removeItem_returns [OF law Cons.prems, of path userId userType]
  obtain r w1 where
    d: "removeItem fuel env path userId userType w = Some (r, w1)"
    and le: "\<forall>t. rank (provider w1) t \<le> rank (provider w) t"
    by blast
  from le Cons.prems have "rank (provider w1) None < fuel"
    by (meson le_less_trans)
  from Cons.IH [OF this] d show ?case
    by (cases r) simp_all
qed

text \<open>
  Claim C4 (batch removal is total over the items), as amended. The
  \<open>batchRemoveItems\<close> of the service has no exception to throw for an item: whenever
  it returns, each path has either raised the success counter or added one entry to
  the failed list, so that success plus the length of failed is the number of paths,
  and for the empty list it returns success 0 and no failure. It does return, with
  that count, on every provider whose scans end (the law \<open>paging_progress\<close>), given
  more fuel than the rank of the provider's state. The \<open>batchRemoveItems\<close> of the
  facade returns success 0 and no failure for the empty list, resolving nothing. For
  a list that is not empty it resolves the first path: what the mount manager
  throws there is thrown on, a driver without the Writer capability gives status
  501, and otherwise the result is that of the driver's \<open>batchRemoveItems\<close> on the
  whole list.
\<close>

theorem batchRemoveItems_total:
  "(\<forall>result w'. batchRemoveItems fuel env paths userId userType w = Some (result, w')
       \<longrightarrow> br_success result + length (br_failed result) = length paths)
   \<and> batchRemoveItems fuel env [] userId userType w
       = Some (\<lparr>br_success = 0, br_failed = []\<rparr>, w)
   \<and> (paging_progress env rank \<and> rank (provider w) None < fuel
       \<longrightarrow> (\<exists>result w'. batchRemoveItems fuel env paths userId userType w = Some (result, w')
                         \<and> br_success result + length (br_failed result) = length paths))
   \<and> FileSystem_batchRemoveItems mm [] userId userType args st
       = (Inr (JObj [(''success'', JNum 0), (''failed'', JArr [])]), st)
   \<and> (\<forall>e w1. getDriverByPath mm p userId userType (world st) = (Inl e, w1)
         \<longrightarrow> FileSystem_batchRemoveItems mm (p # ps) userId userType args st
               = (Inl e, st\<lparr>world := w1\<rparr>))
   \<and> (\<forall>d m sub w1. getDriverByPath mm p userId userType (world st) = (Inr (d, m, sub), w1)
         \<longrightarrow> FileSystem_batchRemoveItems mm (p # ps) userId userType args st
               = (if WRITER \<notin> capabilities d
                  then (Inl (HTTPException 501 (UnsupportedWrite (getType d))),
                        st\<lparr>world := w1\<rparr>)
                  else invoke d (DriverCall M_batchRemoveItems (JArr (map JStr (p # ps)))
                                   m sub args)
                         (st\<lparr>world := w1\<rparr>)))"
proof (intro conjI allI impI)
  fix result w'
  assume "batchRemoveItems fuel env paths userId userType w = Some (result, w')"
  then show "br_success result + length (br_failed result) = length paths"
    unfolding batchRemoveItems_def by (drule_tac batchRemoveItems_loop_count) simp
next
  show "batchRemoveItems fuel env [] userId userType w
          = Some (\<lparr>br_success = 0, br_failed = []\<rparr>, w)"
    by (simp add: batchRemoveItems_def)
next
  show "FileSystem_batchRemoveItems mm [] userId userType args st
          = (Inr (JObj [(''success'', JNum 0), (''failed'', JArr [])]), st)"
    by (simp add: FileSystem_batchRemoveItems_def)
next
  assume "paging_progress env rank \<and> rank (provider w) None < fuel"
  then have law: "paging_progress env rank" and rk: "rank (provider w) None < fuel"
    by blast+
  have "batchRemoveItems fuel env paths userId userType w \<noteq> None"
    unfolding batchRemoveItems_def using law rk by (rule batchRemoveItems_loop_returns)
  then obtain result w'
    where r: "batchRemoveItems fuel env paths userId userType w = Some (result, w')"
    by (cases "batchRemoveItems fuel env paths userId userType w") auto
  then have "br_success result + length (br_failed result) = length paths"
    unfolding batchRemoveItems_def by (drule_tac batchRemoveItems_loop_count) simp
  with r show "\<exists>result w'. batchRemoveItems fuel env paths userId userType w = Some (result, w')
                 \<and> br_success result + length (br_failed result) = length paths"
    by blast
next
  fix e w1
  assume "getDriverByPath mm p userId userType (world st) = (Inl e, w1)"
  then show "FileSystem_batchRemoveItems mm (p # ps) userId userType args st
               = (Inl e, st\<lparr>world := w1\<rparr>)"
    by (simp add: FileSystem_batchRemoveItems_def withDriver_def)
next
  fix d m sub w1
  assume "getDriverByPath mm p userId userType (world st) = (Inr (d, m, sub), w1)"
  then show "FileSystem_batchRemoveItems mm (p # ps) userId userType args st
               = (if WRITER \<notin> capabilities d
                  then (Inl (HTTPException 501 (UnsupportedWrite (getType d))),
                        st\<lparr>world := w1\<rparr>)
                  else invoke d (DriverCall M_batchRemoveItems (JArr (map JStr (p # ps)))
                                   m sub args)
                         (st\<lparr>world := w1\<rparr>))"
    by (simp add: FileSystem_batchRemoveItems_def withDriver_def hasCapability_def
          NOT_IMPLEMENTED_def)
qed

theorem batchRemoveItems_total_witness:
  "paging_progress paged_env paged_rank
   \<and> paged_rank (provider (demo_world paged_objects)) None < 5
   \<and> (\<exists>result w'. batchRemoveItems 5 paged_env [''/other/x'', ''/docs/dir/''] ''1'' ''admin''
                       (demo_world paged_objects) = Some (result, w')
                    \<and> br_success result + length (br_failed result) = 2)
   \<and> FileSystem_batchRemoveItems strict_manager [''/other/x'', ''/docs/a.txt''] ''1'' ''admin''
        () demo_state
     = (Inl (HTTPException 404 (Text ''no mount'')), demo_state)
   \<and> FileSystem_batchRemoveItems strict_manager [''/docs/a.txt'', ''/other/x''] ''1'' ''admin''
        () demo_state
     = (Inr JNull,
        \<lparr>world = 1,
         events = [Invoked (DriverCall M_batchRemoveItems
                              (JArr [JStr ''/docs/a.txt'', JStr ''/other/x''])
                              demo_mount ''/a.txt'' ())]\<rparr>)"
proof -
  note t = batchRemoveItems_total [where fuel = 5 and env = paged_env
      and paths = "[''/other/x'', ''/docs/dir/'']" and userId = "''1''"
      and userType = "''admin''" and w = "demo_world paged_objects" and rank = paged_rank
      and mm = strict_manager and p = "''/other/x''" and ps = "[''/docs/a.txt'']"
      and args = "()" and st = demo_state]
  note u = batchRemoveItems_total [where fuel = 5 and env = paged_env
      and paths = "[''/other/x'', ''/docs/dir/'']" and userId = "''1''"
      and userType = "''admin''" and w = "demo_world paged_objects" and rank = paged_rank
      and mm = strict_manager and p = "''/docs/a.txt''" and ps = "[''/other/x'']"
      and args = "()" and st = demo_state]
  have law: "paging_progress paged_env paged_rank"
    by (rule paged_progress)
  have rk: "paged_rank (provider (demo_world paged_objects)) None < 5"
    by (simp add: paged_rank_def demo_world_def paged_objects_def after_def)
  have g1: "getDriverByPath strict_manager ''/other/x'' ''1'' ''admin'' (world demo_state)
              = (Inl (HTTPException 404 (Text ''no mount'')), 0)"
    by (simp add: strict_manager_def demo_state_def startsWith_def NOT_FOUND_def)
  have g2: "getDriverByPath strict_manager ''/docs/a.txt'' ''1'' ''admin'' (world demo_state)
              = (Inr (writer_driver, demo_mount, ''/a.txt''), 0)"
    by (simp add: strict_manager_def demo_state_def startsWith_def)
  have st: "demo_state\<lparr>world := 0\<rparr> = demo_state"
    by (simp add: demo_state_def)
  from t law rk
  have "\<exists>result w'. batchRemoveItems 5 paged_env [''/other/x'', ''/docs/dir/''] ''1'' ''admin''
                       (demo_world paged_objects) = Some (result, w')
                    \<and> br_success result + length (br_failed result)
                        = length [''/other/x'', ''/docs/dir/'']"
    by blast
  then have a: "\<exists>result w'. batchRemoveItems 5 paged_env [''/other/x'', ''/docs/dir/''] ''1''
                       ''admin'' (demo_world paged_objects) = Some (result, w')
                    \<and> br_success result + length (br_failed result) = 2"
    by (simp add: numeral_2_eq_2)
  from t g1 have "FileSystem_batchRemoveItems strict_manager [''/other/x'', ''/docs/a.txt'']
        ''1'' ''admin'' () demo_state
     = (Inl (HTTPException 404 (Text ''no mount'')), demo_state\<lparr>world := 0\<rparr>)"
    by blast
  then have b: "FileSystem_batchRemoveItems strict_manager [''/other/x'', ''/docs/a.txt'']
        ''1'' ''admin'' () demo_state
     = (Inl (HTTPException 404 (Text ''no mount'')), demo_state)"
    by (simp only: st)
  from u g2 have "FileSystem_batchRemoveItems strict_manager [''/docs/a.txt'', ''/other/x'']
        ''1'' ''admin'' () demo_state
     = (if WRITER \<notin> capabilities writer_driver
        then (Inl (HTTPException 501 (UnsupportedWrite (getType writer_driver))),
              demo_state\<lparr>world := 0\<rparr>)
        else invoke writer_driver
               (DriverCall M_batchRemoveItems (JArr (map JStr [''/docs/a.txt'', ''/other/x'']))
                  demo_mount ''/a.txt'' ())
               (demo_state\<lparr>world := 0\<rparr>))"
    by blast
  then have c: "FileSystem_batchRemoveItems strict_manager [''/docs/a.txt'', ''/other/x'']
        ''1'' ''admin'' () demo_state
     = (Inr JNull,
        \<lparr>world = 1,
         events = [Invoked (DriverCall M_batchRemoveItems
                              (JArr [JStr ''/docs/a.txt'', JStr ''/other/x''])
                              demo_mount ''/a.txt'' ())]\<rparr>)"
    by (simp add: writer_driver_def invoke_def demo_state_def)
  from law rk a b c show ?thesis by blast
qed

text \<open>
  The claim as it stands covers the \<open>batchRemoveItems\<close> of the facade, which does
  raise for the failure of an item: with a first path that has no mount it throws
  what the mount manager throws, and with a first path whose driver cannot write
  it throws status 501; neither gives a result with a failed entry. The service
  records the same path without a mount as a failed entry.
\<close>

theorem batchRemoveItems_facade_counterexample:
  "FileSystem_batchRemoveItems strict_manager [''/other/x'', ''/docs/a.txt''] ''1'' ''admin''
        () demo_state
     = (Inl (HTTPException 404 (Text ''no mount'')), demo_state)
   \<and> FileSystem_batchRemoveItems demo_manager [''/docs/a.txt''] ''1'' ''admin'' () demo_state
     = (Inl (HTTPException 501 (UnsupportedWrite ''S3'')), demo_state)
   \<and> map_option fst
        (batchRemoveItems 1 demo_env [''/other/x'', ''/docs/a.txt''] ''1'' ''admin''
           (demo_world demo_objects))
     = Some \<lparr>br_success = 1, br_failed = [(''/other/x'', Text ''no mount'')]\<rparr>"
  by (simp add: FileSystem_batchRemoveItems_def withDriver_def hasCapability_def
        strict_manager_def demo_manager_def readonly_driver_def demo_state_def
        NOT_FOUND_def NOT_IMPLEMENTED_def
        batchRemoveItems_def removeItem_def removeItem_delete_def handleFsErrorOpt_def
        handleFsError_def demo_env_def demo_find_def demo_mount_def media_mount_def demo_config_def
        demo_normalize_def demo_world_def demo_objects_def startsWith_def endsWith_def
        Let_def sendCommand_def record_io_def updateMountLastUsed_def invalidateParent_def
        includesStr_def)






lemma createDirectory_success_cases:
  assumes "fst (createDirectory env p userId userType w) = Inr ()"
  obtains m subPath cfg w1 e s2 putOut s3 where
    "findMountPointByPath env (normalizePath p True) userId userType = Inr (m, subPath)"
    "s3_configs env (storage_config_id m) = Some cfg"
    "createDirectory_parentCheck env cfg (normalizeS3SubPath env subPath cfg True) w
       = (True, w1)"
    "send env (provider w1)
       (HeadObjectCommand (bucket_name cfg) (normalizeS3SubPath env subPath cfg True))
       = (Inl e, s2)"
    "httpStatusCode e = Some 404"
    "send env s2
       (PutObjectCommand (bucket_name cfg) (normalizeS3SubPath env subPath cfg True)
          (Str []) ''application/x-directory'' None)
       = (Inr putOut, s3)"
  using assms
  by (auto simp: createDirectory_def handleFsError_def Let_def sendCommand_def
           split: sum.splits prod.splits option.splits if_splits bool.splits)






lemma getFileInfo_catch_io:
  "\<exists>rest. io (snd (getFileInfo_catch env path m cfg key e w)) = io w @ rest"
  by (cases "send env (provider w)
               (ListObjectsV2Command (bucket_name cfg) (ensureSlash key) None (Some 1) None)")
     (auto simp: getFileInfo_catch_def sendCommand_def split: sum.splits)

lemma getFileInfo_head_first:
  assumes find: "findMountPointByPath env path userId userType = Inr (m, subPath)"
    and cfg: "s3_configs env (storage_config_id m) = Some cfg"
  shows "\<exists>rest. io (snd (getFileInfo env path userId userType w))
           = io w @ [UpdateMountLastUsed (mount_id m),
                     Sent (HeadObjectCommand (bucket_name cfg)
                             (normalizeS3SubPath env subPath cfg False))] @ rest"
proof -
  let ?key = "normalizeS3SubPath env subPath cfg False"
  let ?w1 = "updateMountLastUsed (mount_id m) w"
  obtain headResult w2 where
    head: "sendCommand env (HeadObjectCommand (bucket_name cfg) ?key) ?w1 = (headResult, w2)"
    by (cases "sendCommand env (HeadObjectCommand (bucket_name cfg) ?key) ?w1")
  then have io2: "io w2 = io w @ [UpdateMountLastUsed (mount_id m),
                     Sent (HeadObjectCommand (bucket_name cfg) ?key)]"
    by (auto simp: sendCommand_def updateMountLastUsed_def record_io_def split: prod.splits)
  show ?thesis
  proof (cases headResult)
    case (Inr out)
    with find cfg head io2 show ?thesis
      by (simp add: getFileInfo_def handleFsError_def Let_def)
  next
    case (Inl e)
    show ?thesis
    proof (cases "headFallsBackToGet e")
      case False
      obtain rest where "io (snd (getFileInfo_catch env path m cfg ?key e w2)) = io w2 @ rest"
        using getFileInfo_catch_io by blast
      with False Inl find cfg head io2 show ?thesis
        by (cases "getFileInfo_catch env path m cfg ?key e w2")
           (simp add: getFileInfo_def handleFsError_def Let_def split: sum.splits)
    next
      case True
      obtain getResult w3 where
        get: "sendCommand env (GetObjectCommand (bucket_name cfg) ?key None) w2 = (getResult, w3)"
        by (cases "sendCommand env (GetObjectCommand (bucket_name cfg) ?key None) w2")
      then have io3: "io w3 = io w2 @ [Sent (GetObjectCommand (bucket_name cfg) ?key None)]"
        by (auto simp: sendCommand_def split: prod.splits)
      show ?thesis
      proof (cases getResult)
        case (Inr out)
        with True Inl find cfg head get io2 io3 show ?thesis
          by (simp add: getFileInfo_def handleFsError_def Let_def releaseBody_def
                record_io_def split: option.splits)
      next
        case getErr: (Inl e')
        obtain rest where "io (snd (getFileInfo_catch env path m cfg ?key e' w3)) = io w3 @ rest"
          using getFileInfo_catch_io by blast
        with True Inl getErr find cfg head get io2 io3 show ?thesis
          by (cases "getFileInfo_catch env path m cfg ?key e' w3")
             (simp add: getFileInfo_def handleFsError_def Let_def split: sum.splits)
      qed
    qed
  qed
qed

lemma getFileInfo_get_fallback:
  assumes "findMountPointByPath env path userId userType = Inr (m, subPath)"
    and "s3_configs env (storage_config_id m) = Some cfg"
    and "send env (provider w)
           (HeadObjectCommand (bucket_name cfg) (normalizeS3SubPath env subPath cfg False))
           = (Inl e, s1)"
    and "headFallsBackToGet e"
    and "send env s1
           (GetObjectCommand (bucket_name cfg) (normalizeS3SubPath env subPath cfg False) None)
           = (Inr getOut, s2)"
  shows "fst (getFileInfo env path userId userType w)
           = Inr (infoOf env path m (normalizeS3SubPath env subPath cfg False) getOut)
       \<and> io (snd (getFileInfo env path userId userType w))
           = io w @ [UpdateMountLastUsed (mount_id m),
                     Sent (HeadObjectCommand (bucket_name cfg)
                             (normalizeS3SubPath env subPath cfg False)),
                     Sent (GetObjectCommand (bucket_name cfg)
                             (normalizeS3SubPath env subPath cfg False) None)]
               @ (case closeBody (Body getOut) of None \<Rightarrow> [] | Some r \<Rightarrow> [Released r])"
  using assms
  by (simp add: getFileInfo_def handleFsError_def Let_def sendCommand_def
        updateMountLastUsed_def record_io_def releaseBody_def
        split: option.splits)

lemma getFileInfo_list_fallback:
  assumes "findMountPointByPath env path userId userType = Inr (m, subPath)"
    and "s3_configs env (storage_config_id m) = Some cfg"
    and "send env (provider w)
           (HeadObjectCommand (bucket_name cfg) (normalizeS3SubPath env subPath cfg False))
           = (Inl e, s1)"
    and "httpStatusCode e = Some 404"
    and "\<not> headFallsBackToGet e"
    and "send env s1
           (ListObjectsV2Command (bucket_name cfg)
              (ensureSlash (normalizeS3SubPath env subPath cfg False)) None (Some 1) None)
           = (Inr listOut, s2)"
  shows "io (snd (getFileInfo env path userId userType w))
           = io w @ [UpdateMountLastUsed (mount_id m),
                     Sent (HeadObjectCommand (bucket_name cfg)
                             (normalizeS3SubPath env subPath cfg False)),
                     Sent (ListObjectsV2Command (bucket_name cfg)
                             (ensureSlash (normalizeS3SubPath env subPath cfg False))
                             None (Some 1) None)]
       \<and> (Contents listOut \<noteq> [] \<longrightarrow>
            fst (getFileInfo env path userId userType w) = Inr (directoryInfo env path m)
            \<and> fi_isDirectory (directoryInfo env path m))
       \<and> (Contents listOut = [] \<longrightarrow> failsWith 404 (getFileInfo env path userId userType w))"
  using assms
  by (simp add: getFileInfo_def handleFsError_def Let_def sendCommand_def
        updateMountLastUsed_def record_io_def getFileInfo_catch_def failsWith_def
        NOT_FOUND_def directoryInfo_def)

lemma getFileInfo_get_issued:
  assumes find: "findMountPointByPath env path userId userType = Inr (m, subPath)"
    and cfg: "s3_configs env (storage_config_id m) = Some cfg"
    and head: "send env (provider w)
           (HeadObjectCommand (bucket_name cfg) (normalizeS3SubPath env subPath cfg False))
           = (Inl e, s1)"
    and fb: "headFallsBackToGet e"
  shows "\<exists>rest. io (snd (getFileInfo env path userId userType w))
           = io w @ [UpdateMountLastUsed (mount_id m),
                     Sent (HeadObjectCommand (bucket_name cfg)
                             (normalizeS3SubPath env subPath cfg False)),
                     Sent (GetObjectCommand (bucket_name cfg)
                             (normalizeS3SubPath env subPath cfg False) None)] @ rest"
proof -
  let ?key = "normalizeS3SubPath env subPath cfg False"
  let ?w2 = "\<lparr>provider = s1, cache = cache w,
               io = io w @ [UpdateMountLastUsed (mount_id m),
                            Sent (HeadObjectCommand (bucket_name cfg) ?key)]\<rparr>"
  from head have h: "sendCommand env (HeadObjectCommand (bucket_name cfg) ?key)
                       (updateMountLastUsed (mount_id m) w) = (Inl e, ?w2)"
    by (simp add: sendCommand_def updateMountLastUsed_def record_io_def)
  obtain getResult w3 where
    get: "sendCommand env (GetObjectCommand (bucket_name cfg) ?key None) ?w2 = (getResult, w3)"
    by (cases "sendCommand env (GetObjectCommand (bucket_name cfg) ?key None) ?w2")
  then have io3: "io w3 = io ?w2 @ [Sent (GetObjectCommand (bucket_name cfg) ?key None)]"
    by (auto simp: sendCommand_def split: prod.splits)
  show ?thesis
  proof (cases getResult)
    case (Inr out)
    with fb find cfg h get io3 show ?thesis
      by (simp add: getFileInfo_def handleFsError_def Let_def releaseBody_def
            record_io_def split: option.splits)
  next
    case (Inl e')
    obtain rest where "io (snd (getFileInfo_catch env path m cfg ?key e' w3)) = io w3 @ rest"
      using getFileInfo_catch_io by blast
    with fb Inl find cfg h get io3 show ?thesis
      by (cases "getFileInfo_catch env path m cfg ?key e' w3")
         (simp add: getFileInfo_def handleFsError_def Let_def split: sum.splits)
  qed
qed

text \<open>
  Claim C6 (the probes of getFileInfo), as amended. For a path whose mount and
  configuration resolve, with \<open>key\<close> the key of the path:
  \<^item> the first command \<open>getFileInfo\<close> sends is the \<open>HEAD\<close> of the key;
  \<^item> when the \<open>HEAD\<close> fails with status 403 or as an \<open>UnknownError\<close> (by name or in the
    message), the next command is the \<open>GET\<close> of the key without a \<open>Range\<close>; when that
    succeeds the result is made of its response, and the body is released by the
    first of \<open>destroy\<close>, \<open>cancel\<close>, \<open>close\<close>, \<open>abort\<close> that it has;
  \<^item> when the \<open>HEAD\<close> fails with status 404 and is no \<open>UnknownError\<close>, the next command
    is a \<open>ListObjectsV2\<close> of at most one key whose prefix is the key with a closing
    slash, added only when the key does not end in one; a listing that is not empty
    makes the path a directory, an empty one makes the call fail with status 404.
\<close>

theorem getFileInfo_probes:
  assumes "findMountPointByPath env path userId userType = Inr (m, subPath)"
    and "s3_configs env (storage_config_id m) = Some cfg"
    and "key = normalizeS3SubPath env subPath cfg False"
    and "send env (provider w) (HeadObjectCommand (bucket_name cfg) key) = (headResult, s1)"
  shows "(\<exists>rest. io (snd (getFileInfo env path userId userType w))
            = io w @ [UpdateMountLastUsed (mount_id m),
                      Sent (HeadObjectCommand (bucket_name cfg) key)] @ rest)
       \<and> (\<forall>e. headResult = Inl e
               \<and> (httpStatusCode e = Some 403 \<or> errName e = ''UnknownError''
                    \<or> includesStr (errMessage e) ''UnknownError'') \<longrightarrow>
             (\<exists>rest. io (snd (getFileInfo env path userId userType w))
                = io w @ [UpdateMountLastUsed (mount_id m),
                          Sent (HeadObjectCommand (bucket_name cfg) key),
                          Sent (GetObjectCommand (bucket_name cfg) key None)] @ rest)
             \<and> (\<forall>getOut s2.
                   send env s1 (GetObjectCommand (bucket_name cfg) key None) = (Inr getOut, s2) \<longrightarrow>
                   fst (getFileInfo env path userId userType w)
                     = Inr (infoOf env path m key getOut)
                   \<and> io (snd (getFileInfo env path userId userType w))
                     = io w @ [UpdateMountLastUsed (mount_id m),
                               Sent (HeadObjectCommand (bucket_name cfg) key),
                               Sent (GetObjectCommand (bucket_name cfg) key None)]
                         @ (case closeBody (Body getOut) of
                              None \<Rightarrow> []
                            | Some r \<Rightarrow> [Released r])))
       \<and> (\<forall>e listOut s2. headResult = Inl e \<and> httpStatusCode e = Some 404
               \<and> errName e \<noteq> ''UnknownError''
               \<and> \<not> includesStr (errMessage e) ''UnknownError''
               \<and> send env s1
                    (ListObjectsV2Command (bucket_name cfg) (ensureSlash key) None (Some 1) None)
                    = (Inr listOut, s2) \<longrightarrow>
             io (snd (getFileInfo env path userId userType w))
               = io w @ [UpdateMountLastUsed (mount_id m),
                         Sent (HeadObjectCommand (bucket_name cfg) key),
                         Sent (ListObjectsV2Command (bucket_name cfg) (ensureSlash key)
                                 None (Some 1) None)]
             \<and> (Contents listOut \<noteq> [] \<longrightarrow>
                  fst (getFileInfo env path userId userType w) = Inr (directoryInfo env path m)
                  \<and> fi_isDirectory (directoryInfo env path m))
             \<and> (Contents listOut = [] \<longrightarrow>
                  failsWith 404 (getFileInfo env path userId userType w)))"
proof -
  have first: "\<exists>rest. io (snd (getFileInfo env path userId userType w))
            = io w @ [UpdateMountLastUsed (mount_id m),
                      Sent (HeadObjectCommand (bucket_name cfg) key)] @ rest"
    unfolding assms(3) using assms(1,2) by (rule getFileInfo_head_first)
  have second: "(\<exists>rest. io (snd (getFileInfo env path userId userType w))
                = io w @ [UpdateMountLastUsed (mount_id m),
                          Sent (HeadObjectCommand (bucket_name cfg) key),
                          Sent (GetObjectCommand (bucket_name cfg) key None)] @ rest)
             \<and> (\<forall>getOut s2.
                   send env s1 (GetObjectCommand (bucket_name cfg) key None) = (Inr getOut, s2) \<longrightarrow>
                   fst (getFileInfo env path userId userType w)
                     = Inr (infoOf env path m key getOut)
                   \<and> io (snd (getFileInfo env path userId userType w))
                     = io w @ [UpdateMountLastUsed (mount_id m),
                               Sent (HeadObjectCommand (bucket_name cfg) key),
                               Sent (GetObjectCommand (bucket_name cfg) key None)]
                         @ (case closeBody (Body getOut) of
                              None \<Rightarrow> []
                            | Some r \<Rightarrow> [Released r]))"
    if h: "headResult = Inl e
               \<and> (httpStatusCode e = Some 403 \<or> errName e = ''UnknownError''
                    \<or> includesStr (errMessage e) ''UnknownError'')" for e
  proof -
    from h have fb: "headFallsBackToGet e" by (simp add: headFallsBackToGet_def)
    from h assms(3,4) have head: "send env (provider w)
           (HeadObjectCommand (bucket_name cfg) (normalizeS3SubPath env subPath cfg False))
           = (Inl e, s1)" by simp
    have a: "\<exists>rest. io (snd (getFileInfo env path userId userType w))
                = io w @ [UpdateMountLastUsed (mount_id m),
                          Sent (HeadObjectCommand (bucket_name cfg) key),
                          Sent (GetObjectCommand (bucket_name cfg) key None)] @ rest"
      unfolding assms(3) using assms(1,2) head fb by (rule getFileInfo_get_issued)
    have b: "fst (getFileInfo env path userId userType w) = Inr (infoOf env path m key getOut)
           \<and> io (snd (getFileInfo env path userId userType w))
               = io w @ [UpdateMountLastUsed (mount_id m),
                         Sent (HeadObjectCommand (bucket_name cfg) key),
                         Sent (GetObjectCommand (bucket_name cfg) key None)]
                   @ (case closeBody (Body getOut) of None \<Rightarrow> [] | Some r \<Rightarrow> [Released r])"
      if g: "send env s1 (GetObjectCommand (bucket_name cfg) key None) = (Inr getOut, s2)"
      for getOut s2
    proof -
      from g have get: "send env s1
           (GetObjectCommand (bucket_name cfg) (normalizeS3SubPath env subPath cfg False) None)
           = (Inr getOut, s2)"
        by (simp add: assms(3))
      from getFileInfo_get_fallback [OF assms(1,2) head fb get] show ?thesis
        by (simp add: assms(3))
    qed
    from a b show ?thesis by blast
  qed
  have third: "io (snd (getFileInfo env path userId userType w))
               = io w @ [UpdateMountLastUsed (mount_id m),
                         Sent (HeadObjectCommand (bucket_name cfg) key),
                         Sent (ListObjectsV2Command (bucket_name cfg) (ensureSlash key)
                                 None (Some 1) None)]
             \<and> (Contents listOut \<noteq> [] \<longrightarrow>
                  fst (getFileInfo env path userId userType w) = Inr (directoryInfo env path m)
                  \<and> fi_isDirectory (directoryInfo env path m))
             \<and> (Contents listOut = [] \<longrightarrow>
                  failsWith 404 (getFileInfo env path userId userType w))"
    if h: "headResult = Inl e \<and> httpStatusCode e = Some 404
               \<and> errName e \<noteq> ''UnknownError''
               \<and> \<not> includesStr (errMessage e) ''UnknownError''
               \<and> send env s1
                    (ListObjectsV2Command (bucket_name cfg) (ensureSlash key) None (Some 1) None)
                    = (Inr listOut, s2)" for e listOut s2
  proof -
    from h have nfb: "\<not> headFallsBackToGet e" by (simp add: headFallsBackToGet_def)
    from h assms(3,4) have head: "send env (provider w)
           (HeadObjectCommand (bucket_name cfg) (normalizeS3SubPath env subPath cfg False))
           = (Inl e, s1)" by simp
    from h have nf: "httpStatusCode e = Some 404" by simp
    from h have list: "send env s1
           (ListObjectsV2Command (bucket_name cfg)
              (ensureSlash (normalizeS3SubPath env subPath cfg False)) None (Some 1) None)
           = (Inr listOut, s2)"
      by (simp add: assms(3))
    from getFileInfo_list_fallback [OF assms(1,2) head nf nfb list] show ?thesis
      by (simp add: assms(3))
  qed
  from first second third show ?thesis by blast
qed

lemma NotFound_no_UnknownError: "\<not> includesStr ''NotFound'' ''UnknownError''"
  by (simp add: includesStr_def startsWith_def upt_conv_Cons)

lemma Forbidden_no_UnknownError: "\<not> includesStr ''Forbidden'' ''UnknownError''"
  by (simp add: includesStr_def startsWith_def upt_conv_Cons)

lemmas demo_simps =
  demo_env_def demo_find_def demo_mount_def media_mount_def demo_config_def
  demo_normalize_def demo_world_def text_object_def startsWith_def endsWith_def
  ensureSlash_def notFound_def forbidden_def httpStatusCode_def

lemmas getFileInfo_simps =
  getFileInfo_def handleFsError_def Let_def sendCommand_def updateMountLastUsed_def
  record_io_def getFileInfo_catch_def headFallsBackToGet_def NotFound_no_UnknownError
  Forbidden_no_UnknownError fake_list_def fake_head_def emptyOutput_def fake_object_of_def
  releaseBody_def closeBody_def

theorem getFileInfo_probes_witness:
  "io (snd (getFileInfo head403_env ''/docs/a.txt'' ''1'' ''admin''
              (demo_world [(''a.txt'', text_object ''hi'')])))
     = [UpdateMountLastUsed ''m1'', Sent (HeadObjectCommand ''b'' ''a.txt''),
        Sent (GetObjectCommand ''b'' ''a.txt'' None), Released Destroy]
   \<and> map_sum id fi_size
        (fst (getFileInfo head403_env ''/docs/a.txt'' ''1'' ''admin''
                (demo_world [(''a.txt'', text_object ''hi'')])))
     = Inr (Some 2)
   \<and> io (snd (getFileInfo demo_env ''/docs/dir'' ''1'' ''admin''
                (demo_world [(''dir/x.txt'', text_object ''x'')])))
     = [UpdateMountLastUsed ''m1'', Sent (HeadObjectCommand ''b'' ''dir''),
        Sent (ListObjectsV2Command ''b'' ''dir/'' None (Some 1) None)]
   \<and> map_sum id fi_isDirectory
        (fst (getFileInfo demo_env ''/docs/dir'' ''1'' ''admin''
                (demo_world [(''dir/x.txt'', text_object ''x'')])))
     = Inr True
   \<and> failsWith 404 (getFileInfo demo_env ''/docs/dir'' ''1'' ''admin'' (demo_world []))"
  using getFileInfo_probes [where env = head403_env and path = "''/docs/a.txt''"
          and userId = "''1''" and userType = "''admin''" and m = demo_mount
          and subPath = "''/a.txt''" and cfg = demo_config and key = "''a.txt''"
          and w = "demo_world [(''a.txt'', text_object ''hi'')]"
          and headResult = "Inl forbidden" and ?s1.0 = "[(''a.txt'', text_object ''hi'')]"]
        getFileInfo_probes [where env = demo_env and path = "''/docs/dir''"
          and userId = "''1''" and userType = "''admin''" and m = demo_mount
          and subPath = "''/dir''" and cfg = demo_config and key = "''dir''"
          and w = "demo_world [(''dir/x.txt'', text_object ''x'')]"
          and headResult = "Inl notFound" and ?s1.0 = "[(''dir/x.txt'', text_object ''x'')]"]
        getFileInfo_probes [where env = demo_env and path = "''/docs/dir''"
          and userId = "''1''" and userType = "''admin''" and m = demo_mount
          and subPath = "''/dir''" and cfg = demo_config and key = "''dir''"
          and w = "demo_world []"
          and headResult = "Inl notFound" and ?s1.0 = "[]"]
  by (simp add: demo_simps getFileInfo_simps head403_env_def infoOf_def directoryInfo_def
        failsWith_def NOT_FOUND_def)

text \<open>
  The claim as it stands has the prefix of the listing be the sub-path followed by a
  slash. For the directory reference \<open>/docs/dir/\<close>, whose sub-path is \<open>/dir/\<close> and whose
  key is \<open>dir/\<close>, the listing that \<open>getFileInfo\<close> sends after the 404 has the prefix
  \<open>dir/\<close>: neither the key nor the sub-path with a slash added.
\<close>

theorem getFileInfo_prefix_counterexample:
  "io (snd (getFileInfo demo_env ''/docs/dir/'' ''1'' ''admin''
              (demo_world [(''dir/x.txt'', text_object ''x'')])))
     = [UpdateMountLastUsed ''m1'', Sent (HeadObjectCommand ''b'' ''dir/''),
        Sent (ListObjectsV2Command ''b'' ''dir/'' None (Some 1) None)]
   \<and> findMountPointByPath demo_env ''/docs/dir/'' ''1'' ''admin'' = Inr (demo_mount, ''/dir/'')
   \<and> normalizeS3SubPath demo_env ''/dir/'' demo_config False = ''dir/''
   \<and> ''dir/'' \<noteq> ''dir/'' @ ''/'' \<and> ''dir/'' \<noteq> ''/dir/'' @ ''/''"
  by (simp add: demo_simps getFileInfo_simps)

lemma updateFile_executable:
  assumes find: "findMountPointByPath env path userId userType = Inr (m, subPath)"
    and cfg: "s3_configs env (storage_config_id m) = Some cfg"
    and size: "\<not> contentTooLarge content"
    and supported: "content \<noteq> OtherContent"
    and head: "sendCommand env
                 (HeadObjectCommand (bucket_name cfg) (normalizeS3SubPath env subPath cfg False))
                 (updateMountLastUsed (mount_id m) w) = (headResult, w2)"
    and exe: "snd (getMimeTypeAndGroupFromFile env (last (split path CHR ''/''))
                     (classifiedType headResult content)) = EXECUTABLE"
  shows "updateFile env path content userId userType w
           = (Inl (HTTPException 403 ExecutableNotAllowed), w2)"
proof -
  let ?key = "normalizeS3SubPath env subPath cfg False"
  let ?w1 = "updateMountLastUsed (mount_id m) w"
  obtain t1 where g: "getMimeTypeAndGroupFromFile env (last (split path CHR ''/''))
          (classifiedType headResult content) = (t1, EXECUTABLE)"
    using exe
    by (cases "getMimeTypeAndGroupFromFile env (last (split path CHR ''/''))
                 (classifiedType headResult content)") simp
  have "updateFile_try env m subPath cfg ?key path content ?w1
          = (Inl (HTTPException FORBIDDEN ExecutableNotAllowed), w2)"
    using supported head g
    by (cases content) (simp_all add: updateFile_try_def Let_def classifiedType_def)
  with find cfg size show ?thesis
    by (simp add: updateFile_def handleFsError_def Let_def updateFile_catch_def FORBIDDEN_def)
qed

lemma head_io:
  assumes "sendCommand env cmd w1 = (r, w2)"
  shows "io w2 = io w1 @ [Sent cmd]" and "cache w2 = cache w1"
  using assms by (auto simp: sendCommand_def split: prod.splits)

lemma uploadFile_direct:
  assumes find: "findMountPointByPath env dir userId userType = Inr (m, subPath)"
    and cfg: "s3_configs env (storage_config_id m) = Some cfg"
    and pc: "uploadParentCheck env cfg (finalS3PathOf env cfg subPath f) w = (True, w1)"
    and put: "sendCommand env
                (PutObjectCommand (bucket_name cfg) (finalS3PathOf env cfg subPath f)
                   (ArrayBuffer (file_bytes f)) (fileTypeOf f) None) w1 = (Inr result, w2)"
  shows "\<exists>r w'. uploadFile env dir f userId userType False w = (Inr (DirectUpload r), w')
           \<and> du_mimetype r = fileTypeOf f
           \<and> provider w' = provider w2
           \<and> io w' = io w2 @ [UpdateMountLastUsed (mount_id m),
                  InsertFile
                    \<lparr>fr_id = generateFileId env, fr_filename = fileNameOf f,
                     fr_storage_path = finalS3PathOf env cfg subPath f,
                     fr_s3_url = buildS3Url env cfg (finalS3PathOf env cfg subPath f),
                     fr_mimetype = fileTypeOf f, fr_size = file_size f,
                     fr_s3_config_id = config_id cfg,
                     fr_slug = ''M-'' @ take 5 (generateFileId env),
                     fr_etag = stripQuotes (ETag result),
                     fr_created_by = userType @ '':'' @ userId,
                     fr_created_at = getLocalTimeString env,
                     fr_updated_at = getLocalTimeString env\<rparr>]"
proof -
  from pc have pc': "(if includesStr (finalS3PathOf env cfg subPath f) ''/''
      then directoryExists env (bucket_name cfg)
             (substring (finalS3PathOf env cfg subPath f) 0
                (lastIndexOfChar (finalS3PathOf env cfg subPath f) CHR ''/'' + 1)) w
      else (True, w)) = (True, w1)"
    by (simp only: uploadParentCheck_def)
  have "\<exists>r w'. uploadDirect env m subPath cfg dir f userId userType w
                  = (Inr (DirectUpload r), w')
           \<and> du_mimetype r = fileTypeOf f
           \<and> provider w' = provider w2
           \<and> io w' = io w2 @ [UpdateMountLastUsed (mount_id m),
                  InsertFile
                    \<lparr>fr_id = generateFileId env, fr_filename = fileNameOf f,
                     fr_storage_path = finalS3PathOf env cfg subPath f,
                     fr_s3_url = buildS3Url env cfg (finalS3PathOf env cfg subPath f),
                     fr_mimetype = fileTypeOf f, fr_size = file_size f,
                     fr_s3_config_id = config_id cfg,
                     fr_slug = ''M-'' @ take 5 (generateFileId env),
                     fr_etag = stripQuotes (ETag result),
                     fr_created_by = userType @ '':'' @ userId,
                     fr_created_at = getLocalTimeString env,
                     fr_updated_at = getLocalTimeString env\<rparr>]"
    unfolding uploadDirect_def Let_def pc' prod.case bool.case put sum.case
    by (simp add: updateMountLastUsed_def record_io_def invalidatePathAndAncestors_def
          invalidate_def)
  then obtain r w' where
    d: "uploadDirect env m subPath cfg dir f userId userType w = (Inr (DirectUpload r), w')"
    and rest: "du_mimetype r = fileTypeOf f \<and> provider w' = provider w2
           \<and> io w' = io w2 @ [UpdateMountLastUsed (mount_id m),
                  InsertFile
                    \<lparr>fr_id = generateFileId env, fr_filename = fileNameOf f,
                     fr_storage_path = finalS3PathOf env cfg subPath f,
                     fr_s3_url = buildS3Url env cfg (finalS3PathOf env cfg subPath f),
                     fr_mimetype = fileTypeOf f, fr_size = file_size f,
                     fr_s3_config_id = config_id cfg,
                     fr_slug = ''M-'' @ take 5 (generateFileId env),
                     fr_etag = stripQuotes (ETag result),
                     fr_created_by = userType @ '':'' @ userId,
                     fr_created_at = getLocalTimeString env,
                     fr_updated_at = getLocalTimeString env\<rparr>]"
    by blast
  from find cfg d have "uploadFile env dir f userId userType False w
                          = (Inr (DirectUpload r), w')"
    by (simp add: uploadFile_def handleFsError_def)
  with rest show ?thesis by blast
qed

lemma uploadFile_multipart:
  assumes "initializeMultipartUpload env path (fileTypeOf f) (file_size f) userId userType
             (provider w) = (Inr info, s')"
  shows "uploadFile env path f userId userType True w
           = (Inr (MultipartUpload info), w\<lparr>provider := s'\<rparr>)"
  using assms by (simp add: uploadFile_def handleFsError_def)

text \<open>
  Claim C7 (executable files), as amended. The check of the MIME group is in
  \<open>updateFile\<close>, not in \<open>uploadFile\<close>. Let the mount and the storage configuration of
  the path resolve, and let the content be of a supported kind and within the size
  limit: when the classification of the file name, with the \<open>Content-Type\<close> that the
  \<open>HEAD\<close> of the key returned (or the default type of the content when the \<open>HEAD\<close>
  failed or carried none), is the group \<open>EXECUTABLE\<close>, \<open>updateFile\<close> fails with status
  403 and leaves the world as the \<open>HEAD\<close> left it, the \<open>HEAD\<close> being the only command
  sent: no \<open>PUT\<close>. \<open>uploadFile\<close> makes no such check. The direct upload of any file,
  whatever its classification, whose mount and configuration resolve, whose parent
  directory is found and whose \<open>PUT\<close> the provider accepts, succeeds: the object has
  been put under the key with the \<open>Content-Type\<close> the file carries, and the file
  record has been inserted with that type. With \<open>useMultipart\<close> (the default)
  \<open>uploadFile\<close> is the initialisation of a multipart upload and returns its result.
\<close>

theorem executable_rejected_by_updateFile_only:
  "(findMountPointByPath env path userId userType = Inr (m, subPath)
      \<and> s3_configs env (storage_config_id m) = Some cfg
      \<and> \<not> contentTooLarge content \<and> content \<noteq> OtherContent
      \<and> sendCommand env
            (HeadObjectCommand (bucket_name cfg) (normalizeS3SubPath env subPath cfg False))
            (updateMountLastUsed (mount_id m) w) = (headResult, w2)
      \<and> snd (getMimeTypeAndGroupFromFile env (last (split path CHR ''/''))
                (classifiedType headResult content)) = EXECUTABLE \<longrightarrow>
      updateFile env path content userId userType w
        = (Inl (HTTPException 403 ExecutableNotAllowed), w2)
      \<and> io w2 = io w @ [UpdateMountLastUsed (mount_id m),
                         Sent (HeadObjectCommand (bucket_name cfg)
                                 (normalizeS3SubPath env subPath cfg False))])
   \<and> (findMountPointByPath env dir userId userType = Inr (dm, dirSub)
      \<and> s3_configs env (storage_config_id dm) = Some dcfg
      \<and> uploadParentCheck env dcfg (finalS3PathOf env dcfg dirSub f) v = (True, v1)
      \<and> sendCommand env
            (PutObjectCommand (bucket_name dcfg) (finalS3PathOf env dcfg dirSub f)
               (ArrayBuffer (file_bytes f)) (fileTypeOf f) None) v1 = (Inr result, v2) \<longrightarrow>
      (\<exists>r v'. uploadFile env dir f userId userType False v = (Inr (DirectUpload r), v')
           \<and> du_mimetype r = fileTypeOf f
           \<and> provider v' = provider v2
           \<and> io v' = io v1 @ [Sent (PutObjectCommand (bucket_name dcfg)
                                       (finalS3PathOf env dcfg dirSub f)
                                       (ArrayBuffer (file_bytes f)) (fileTypeOf f) None),
                  UpdateMountLastUsed (mount_id dm),
                  InsertFile
                    \<lparr>fr_id = generateFileId env, fr_filename = fileNameOf f,
                     fr_storage_path = finalS3PathOf env dcfg dirSub f,
                     fr_s3_url = buildS3Url env dcfg (finalS3PathOf env dcfg dirSub f),
                     fr_mimetype = fileTypeOf f, fr_size = file_size f,
                     fr_s3_config_id = config_id dcfg,
                     fr_slug = ''M-'' @ take 5 (generateFileId env),
                     fr_etag = stripQuotes (ETag result),
                     fr_created_by = userType @ '':'' @ userId,
                     fr_created_at = getLocalTimeString env,
                     fr_updated_at = getLocalTimeString env\<rparr>]))
   \<and> (initializeMultipartUpload env dir (fileTypeOf f) (file_size f) userId userType
          (provider v) = (Inr info, s') \<longrightarrow>
      uploadFile env dir f userId userType True v
        = (Inr (MultipartUpload info), v\<lparr>provider := s'\<rparr>))"
proof (intro conjI impI)
  assume h: "findMountPointByPath env path userId userType = Inr (m, subPath)
      \<and> s3_configs env (storage_config_id m) = Some cfg
      \<and> \<not> contentTooLarge content \<and> content \<noteq> OtherContent
      \<and> sendCommand env
            (HeadObjectCommand (bucket_name cfg) (normalizeS3SubPath env subPath cfg False))
            (updateMountLastUsed (mount_id m) w) = (headResult, w2)
      \<and> snd (getMimeTypeAndGroupFromFile env (last (split path CHR ''/''))
                (classifiedType headResult content)) = EXECUTABLE"
  then show "updateFile env path content userId userType w
        = (Inl (HTTPException 403 ExecutableNotAllowed), w2)"
    using updateFile_executable [of env path userId userType m subPath cfg content w
            headResult w2]
    by blast
  from h have "sendCommand env
            (HeadObjectCommand (bucket_name cfg) (normalizeS3SubPath env subPath cfg False))
            (updateMountLastUsed (mount_id m) w) = (headResult, w2)"
    by blast
  then show "io w2 = io w @ [UpdateMountLastUsed (mount_id m),
                         Sent (HeadObjectCommand (bucket_name cfg)
                                 (normalizeS3SubPath env subPath cfg False))]"
    by (simp add: head_io(1) updateMountLastUsed_def record_io_def)
next
  assume h: "findMountPointByPath env dir userId userType = Inr (dm, dirSub)
      \<and> s3_configs env (storage_config_id dm) = Some dcfg
      \<and> uploadParentCheck env dcfg (finalS3PathOf env dcfg dirSub f) v = (True, v1)
      \<and> sendCommand env
            (PutObjectCommand (bucket_name dcfg) (finalS3PathOf env dcfg dirSub f)
               (ArrayBuffer (file_bytes f)) (fileTypeOf f) None) v1 = (Inr result, v2)"
  then have put: "sendCommand env
            (PutObjectCommand (bucket_name dcfg) (finalS3PathOf env dcfg dirSub f)
               (ArrayBuffer (file_bytes f)) (fileTypeOf f) None) v1 = (Inr result, v2)"
    by blast
  from h uploadFile_direct [of env dir userId userType dm dirSub dcfg f v v1 result v2]
  show "\<exists>r v'. uploadFile env dir f userId userType False v = (Inr (DirectUpload r), v')
           \<and> du_mimetype r = fileTypeOf f
           \<and> provider v' = provider v2
           \<and> io v' = io v1 @ [Sent (PutObjectCommand (bucket_name dcfg)
                                       (finalS3PathOf env dcfg dirSub f)
                                       (ArrayBuffer (file_bytes f)) (fileTypeOf f) None),
                  UpdateMountLastUsed (mount_id dm),
                  InsertFile
                    \<lparr>fr_id = generateFileId env, fr_filename = fileNameOf f,
                     fr_storage_path = finalS3PathOf env dcfg dirSub f,
                     fr_s3_url = buildS3Url env dcfg (finalS3PathOf env dcfg dirSub f),
                     fr_mimetype = fileTypeOf f, fr_size = file_size f,
                     fr_s3_config_id = config_id dcfg,
                     fr_slug = ''M-'' @ take 5 (generateFileId env),
                     fr_etag = stripQuotes (ETag result),
                     fr_created_by = userType @ '':'' @ userId,
                     fr_created_at = getLocalTimeString env,
                     fr_updated_at = getLocalTimeString env\<rparr>]"
    by (simp add: head_io(1) [OF put])
next
  assume "initializeMultipartUpload env dir (fileTypeOf f) (file_size f) userId userType
          (provider v) = (Inr info, s')"
  then show "uploadFile env dir f userId userType True v
        = (Inr (MultipartUpload info), v\<lparr>provider := s'\<rparr>)"
    by (rule uploadFile_multipart)
qed

theorem executable_rejected_by_updateFile_only_witness:
  "updateFile demo_env ''/docs/setup.exe'' (Str ''MZ'') ''1'' ''admin''
       (demo_world [(''setup.exe'', exe_object)])
     = (Inl (HTTPException 403 ExecutableNotAllowed),
        \<lparr>provider = [(''setup.exe'', exe_object)], cache = Map.empty,
         io = [UpdateMountLastUsed ''m1'', Sent (HeadObjectCommand ''b'' ''setup.exe'')]\<rparr>)
   \<and> (\<exists>r v'. uploadFile demo_env ''/docs/'' setup_exe ''1'' ''admin'' False (demo_world [])
                 = (Inr (DirectUpload r), v')
           \<and> du_mimetype r = ''application/x-msdownload''
           \<and> provider v' = [(''setup.exe'', exe_object)]
           \<and> io v' = [Sent (PutObjectCommand ''b'' ''setup.exe'' (ArrayBuffer ''MZ'')
                               ''application/x-msdownload'' None),
                       UpdateMountLastUsed ''m1'',
                       InsertFile
                         \<lparr>fr_id = ''f1234567'', fr_filename = ''setup.exe'',
                          fr_storage_path = ''setup.exe'',
                          fr_s3_url = ''https://s3.example/b/setup.exe'',
                          fr_mimetype = ''application/x-msdownload'', fr_size = 2,
                          fr_s3_config_id = ''c1'', fr_slug = ''M-f1234'',
                          fr_etag = Some ''etag'', fr_created_by = ''admin:1'',
                          fr_created_at = ''2024-05-01 10:00:00'',
                          fr_updated_at = ''2024-05-01 10:00:00''\<rparr>])
   \<and> (\<exists>info. uploadFile demo_env ''/docs/'' setup_exe ''1'' ''admin'' True (demo_world [])
                 = (Inr (MultipartUpload info), demo_world []))"
proof -
  let ?w2 = "\<lparr>provider = [(''setup.exe'', exe_object)], cache = Map.empty,
         io = [UpdateMountLastUsed ''m1'', Sent (HeadObjectCommand ''b'' ''setup.exe'')]\<rparr>"
  let ?v2 = "\<lparr>provider = [(''setup.exe'', exe_object)], cache = Map.empty,
         io = [Sent (PutObjectCommand ''b'' ''setup.exe'' (ArrayBuffer ''MZ'')
                               ''application/x-msdownload'' None)]\<rparr>"
  let ?info = "\<lparr>mi_uploadId = ''u1'', mi_path = ''/docs/'', mi_recommendedPartSize = 5242880,
                 mi_bucket = ''b'', mi_key = ''docs/'', mi_mount_id = ''m1'',
                 mi_storage_type = ''S3''\<rparr>"
  note t = executable_rejected_by_updateFile_only [where env = demo_env
          and path = "''/docs/setup.exe''" and userId = "''1''" and userType = "''admin''"
          and m = demo_mount and subPath = "''/setup.exe''" and cfg = demo_config
          and content = "Str ''MZ''" and w = "demo_world [(''setup.exe'', exe_object)]"
          and headResult = "Inr (fake_head exe_object)" and ?w2.0 = ?w2
          and dir = "''/docs/''" and dm = demo_mount and dirSub = "''/''"
          and dcfg = demo_config and f = setup_exe and v = "demo_world []"
          and ?v1.0 = "demo_world []" and result = "emptyOutput\<lparr>ETag := Some ''etag''\<rparr>"
          and ?v2.0 = ?v2 and info = ?info and s' = "[]"]
  have h1: "findMountPointByPath demo_env ''/docs/setup.exe'' ''1'' ''admin''
             = Inr (demo_mount, ''/setup.exe'')
      \<and> s3_configs demo_env (storage_config_id demo_mount) = Some demo_config
      \<and> \<not> contentTooLarge (Str ''MZ'') \<and> Str ''MZ'' \<noteq> OtherContent
      \<and> sendCommand demo_env
            (HeadObjectCommand (bucket_name demo_config)
               (normalizeS3SubPath demo_env ''/setup.exe'' demo_config False))
            (updateMountLastUsed (mount_id demo_mount)
               (demo_world [(''setup.exe'', exe_object)]))
          = (Inr (fake_head exe_object), ?w2)
      \<and> snd (getMimeTypeAndGroupFromFile demo_env
                (last (split ''/docs/setup.exe'' CHR ''/''))
                (classifiedType (Inr (fake_head exe_object)) (Str ''MZ''))) = EXECUTABLE"
    by (simp add: demo_simps demo_mime_def split_def contentTooLarge_def MAX_FILE_SIZE_def
          sendCommand_def updateMountLastUsed_def record_io_def)
  have h2: "findMountPointByPath demo_env ''/docs/'' ''1'' ''admin'' = Inr (demo_mount, ''/'')
      \<and> s3_configs demo_env (storage_config_id demo_mount) = Some demo_config
      \<and> uploadParentCheck demo_env demo_config
            (finalS3PathOf demo_env demo_config ''/'' setup_exe) (demo_world [])
          = (True, demo_world [])
      \<and> sendCommand demo_env
            (PutObjectCommand (bucket_name demo_config)
               (finalS3PathOf demo_env demo_config ''/'' setup_exe)
               (ArrayBuffer (file_bytes setup_exe)) (fileTypeOf setup_exe) None) (demo_world [])
          = (Inr (emptyOutput\<lparr>ETag := Some ''etag''\<rparr>), ?v2)"
    by (simp add: demo_simps finalS3PathOf_def uploadParentCheck_def setup_exe_def
          exe_object_def fileNameOf_def fileTypeOf_def includesStr_char trim_def
          sendCommand_def Let_def)
  have h3: "initializeMultipartUpload demo_env ''/docs/'' (fileTypeOf setup_exe)
              (file_size setup_exe) ''1'' ''admin'' (provider (demo_world []))
            = (Inr ?info, [])"
    by (simp add: demo_env_def demo_world_def)
  have k: "finalS3PathOf demo_env demo_config ''/'' setup_exe = ''setup.exe''
      \<and> fileTypeOf setup_exe = ''application/x-msdownload''
      \<and> fileNameOf setup_exe = ''setup.exe'' \<and> file_bytes setup_exe = ''MZ''
      \<and> file_size setup_exe = 2
      \<and> bucket_name demo_config = ''b'' \<and> config_id demo_config = ''c1''
      \<and> mount_id demo_mount = ''m1'' \<and> io (demo_world []) = []
      \<and> generateFileId demo_env = ''f1234567''
      \<and> getLocalTimeString demo_env = ''2024-05-01 10:00:00''
      \<and> buildS3Url demo_env demo_config ''setup.exe'' = ''https://s3.example/b/setup.exe''
      \<and> stripQuotes (ETag (emptyOutput\<lparr>ETag := Some ''etag''\<rparr>)) = Some ''etag''
      \<and> (demo_world [])\<lparr>provider := []\<rparr> = demo_world []"
    by (simp add: demo_simps finalS3PathOf_def setup_exe_def fileNameOf_def fileTypeOf_def
          trim_def Let_def stripQuotes_def emptyOutput_def)
  from t h1 have "updateFile demo_env ''/docs/setup.exe'' (Str ''MZ'') ''1'' ''admin''
       (demo_world [(''setup.exe'', exe_object)])
     = (Inl (HTTPException 403 ExecutableNotAllowed), ?w2)"
    by blast
  moreover from t h2 have "\<exists>r v'. uploadFile demo_env ''/docs/'' setup_exe ''1'' ''admin'' False
                  (demo_world [])
                 = (Inr (DirectUpload r), v')
           \<and> du_mimetype r = fileTypeOf setup_exe
           \<and> provider v' = provider ?v2
           \<and> io v' = io (demo_world []) @ [Sent (PutObjectCommand (bucket_name demo_config)
                                       (finalS3PathOf demo_env demo_config ''/'' setup_exe)
                                       (ArrayBuffer (file_bytes setup_exe))
                                       (fileTypeOf setup_exe) None),
                  UpdateMountLastUsed (mount_id demo_mount),
                  InsertFile
                    \<lparr>fr_id = generateFileId demo_env, fr_filename = fileNameOf setup_exe,
                     fr_storage_path = finalS3PathOf demo_env demo_config ''/'' setup_exe,
                     fr_s3_url = buildS3Url demo_env demo_config
                                   (finalS3PathOf demo_env demo_config ''/'' setup_exe),
                     fr_mimetype = fileTypeOf setup_exe, fr_size = file_size setup_exe,
                     fr_s3_config_id = config_id demo_config,
                     fr_slug = ''M-'' @ take 5 (generateFileId demo_env),
                     fr_etag = stripQuotes (ETag (emptyOutput\<lparr>ETag := Some ''etag''\<rparr>)),
                     fr_created_by = ''admin'' @ '':'' @ ''1'',
                     fr_created_at = getLocalTimeString demo_env,
                     fr_updated_at = getLocalTimeString demo_env\<rparr>]"
    by blast
  moreover from t h3 have "uploadFile demo_env ''/docs/'' setup_exe ''1'' ''admin'' True
        (demo_world [])
      = (Inr (MultipartUpload ?info), (demo_world [])\<lparr>provider := []\<rparr>)"
    by blast
  ultimately show ?thesis
    using k by simp
qed

text \<open>
  The claim as it stands has \<open>uploadFile\<close> reject a file whose name is in the group
  \<open>EXECUTABLE\<close>. The direct upload of \<open>setup.exe\<close>, which the classification puts in
  that group, succeeds: the object is put to the provider and the file record is
  written.
\<close>

theorem uploadFile_executable_counterexample:
  "snd (getMimeTypeAndGroupFromFile demo_env ''setup.exe'' ''application/x-msdownload'')
     = EXECUTABLE
   \<and> (\<exists>r. fst (uploadFile demo_env ''/docs/'' setup_exe ''1'' ''admin'' False (demo_world []))
            = Inr (DirectUpload r))
   \<and> provider (snd (uploadFile demo_env ''/docs/'' setup_exe ''1'' ''admin'' False
                      (demo_world [])))
     = [(''setup.exe'', \<lparr>fo_contentType = ''application/x-msdownload'',
                          fo_content = ArrayBuffer ''MZ''\<rparr>)]
   \<and> Sent (PutObjectCommand ''b'' ''setup.exe'' (ArrayBuffer ''MZ'')
             ''application/x-msdownload'' None)
       \<in> set (io (snd (uploadFile demo_env ''/docs/'' setup_exe ''1'' ''admin'' False
                          (demo_world []))))"
  by (simp add: demo_simps demo_mime_def uploadFile_def uploadDirect_def finalS3PathOf_def
        handleFsError_def Let_def sendCommand_def directoryExists_def setup_exe_def
        fileNameOf_def fileTypeOf_def includesStr_char trim_def
        updateMountLastUsed_def record_io_def invalidate_def invalidatePathAndAncestors_def
        emptyOutput_def)

section \<open>The cache after a mutation\<close>

lemma snd_invalidateAll_Cons:
  "snd (invalidateAll c mountId (p # ps))
     = snd (invalidateAll (cache_invalidate c mountId p) mountId ps)"
  by (simp split: prod.splits)

lemma invalidateAll_keeps_absent:
  "c k = None \<Longrightarrow> snd (invalidateAll c mountId ps) k = None"
proof (induction ps arbitrary: c)
  case Nil
  then show ?case by simp
next
  case (Cons p ps)
  from Cons.prems have "cache_invalidate c mountId p k = None"
    by (simp add: cache_invalidate_def)
  then show ?case
    unfolding snd_invalidateAll_Cons by (rule Cons.IH)
qed

lemma invalidateAll_absent:
  "p \<in> set ps \<Longrightarrow> snd (invalidateAll c mountId ps) (mountId, p) = None"
proof (induction ps arbitrary: c)
  case Nil
  then show ?case by simp
next
  case (Cons q ps)
  show ?case
  proof (cases "p = q")
    case True
    have "cache_invalidate c mountId q (mountId, q) = None"
      by (simp add: cache_invalidate_def)
    with True show ?thesis
      unfolding snd_invalidateAll_Cons by (simp add: invalidateAll_keeps_absent)
  next
    case False
    with Cons.prems have "p \<in> set ps" by simp
    then show ?thesis
      unfolding snd_invalidateAll_Cons by (rule Cons.IH)
  qed
qed

lemma invalidatePathAndAncestors_absent:
  "absent (invalidatePathAndAncestors mountId p w) mountId (pathAndAncestors p)"
  unfolding absent_def invalidatePathAndAncestors_def cache_invalidatePathAndAncestors_def
  by (auto intro!: invalidateAll_absent)

lemma invalidatePathAndAncestors_keeps:
  "cache w k = None \<Longrightarrow> cache (invalidatePathAndAncestors mountId p w) k = None"
  by (simp add: invalidatePathAndAncestors_def cache_invalidatePathAndAncestors_def
        invalidateAll_keeps_absent)

lemma invalidate_keeps:
  "cache w k = None \<Longrightarrow> cache (invalidate mountId p w) k = None"
  by (simp add: invalidate_def cache_invalidate_def)

lemma invalidate_absent: "cache (invalidate mountId p w) (mountId, p) = None"
  by (simp add: invalidate_def cache_invalidate_def)

lemma invalidateParent_keeps:
  "cache w k = None \<Longrightarrow> cache (invalidateParent mountId p d w) k = None"
  by (simp add: invalidateParent_def invalidatePathAndAncestors_keeps invalidate_keeps)

lemma invalidateParent_absent:
  "p \<noteq> ''/'' \<Longrightarrow> CHR ''/'' \<in> set p
   \<Longrightarrow> absent (invalidateParent mountId p d w) mountId (pathAndAncestors (parentOfItem p d))"
  by (simp add: invalidateParent_def includesStr_char invalidatePathAndAncestors_absent)

lemma absent_keeps:
  assumes "absent w mountId ps" and "\<And>k. cache w k = None \<Longrightarrow> cache w' k = None"
  shows "absent w' mountId ps"
  using assms by (simp add: absent_def)

lemma parentOfItem_file: "parentOfItem p False = parentOfFile p"
proof (cases p)
  case Nil
  then show ?thesis
    by (simp add: parentOfItem_def parentOfFile_def parentUpTo_def lastIndexOfFrom_def)
next
  case (Cons x xs)
  then have "Suc (nat (int (length p) - 1)) = length p" by simp
  then show ?thesis
    by (simp add: parentOfItem_def parentOfFile_def parentUpTo_def lastIndexOfFrom_def)
qed

lemma parentOfItem_directory: "parentOfItem p True = parentUpTo p (int (length p) - 2)"
  by (simp add: parentOfItem_def)

lemma uploadDirect_success:
  assumes "fst (uploadDirect env m subPath cfg path f userId userType w) = Inr r"
  shows "\<exists>w4. snd (uploadDirect env m subPath cfg path f userId userType w)
           = (if subPath \<noteq> ''/'' \<and> includesStr subPath ''/''
              then invalidatePathAndAncestors (mount_id m) (parentOfFile subPath) w4
              else invalidate (mount_id m) ''/'' w4)"
proof -
  let ?key = "finalS3PathOf env cfg subPath f"
  obtain b w1 where pc:
    "(if includesStr ?key ''/''
      then directoryExists env (bucket_name cfg)
             (substring ?key 0 (lastIndexOfChar ?key CHR ''/'' + 1)) w
      else (True, w)) = (b, w1)"
    by (cases "if includesStr ?key ''/''
      then directoryExists env (bucket_name cfg)
             (substring ?key 0 (lastIndexOfChar ?key CHR ''/'' + 1)) w
      else (True, w)")
  obtain putResult w2 where put:
    "sendCommand env (PutObjectCommand (bucket_name cfg) ?key (ArrayBuffer (file_bytes f))
        (fileTypeOf f) None) w1 = (putResult, w2)"
    by (cases "sendCommand env (PutObjectCommand (bucket_name cfg) ?key
                 (ArrayBuffer (file_bytes f)) (fileTypeOf f) None) w1")
  from assms pc have b: "b"
    by (cases b) (simp_all add: uploadDirect_def Let_def)
  with assms pc put obtain out where out: "putResult = Inr out"
    by (cases putResult) (simp_all add: uploadDirect_def Let_def)
  from b pc put out show ?thesis
    unfolding uploadDirect_def Let_def by (simp del: includesStr_char) blast
qed

lemma uploadFile_invalidates:
  assumes find: "findMountPointByPath env path userId userType = Inr (m, subPath)"
    and ok: "fst (uploadFile env path f userId userType False w) = Inr r"
    and ne: "subPath \<noteq> ''/''" and sl: "CHR ''/'' \<in> set subPath"
  shows "absent (snd (uploadFile env path f userId userType False w)) (mount_id m)
           (pathAndAncestors (parentOfItem subPath False))"
proof (cases "s3_configs env (storage_config_id m)")
  case None
  with find ok show ?thesis by (simp add: uploadFile_def handleFsError_def)
next
  case (Some cfg)
  let ?r = "uploadDirect env m subPath cfg path f userId userType w"
  from find Some have eq: "uploadFile env path f userId userType False w
                            = handleFsError ''uploadFile'' ?r"
    by (simp add: uploadFile_def)
  with ok have ok': "fst ?r = Inr r"
    by (cases ?r) (auto simp: handleFsError_def split: sum.splits)
  then have s: "snd (handleFsError ''uploadFile'' ?r) = snd ?r"
    by (cases ?r) (auto simp: handleFsError_def split: sum.splits)
  from uploadDirect_success [OF ok'] ne sl obtain w4 where
    "snd ?r = invalidatePathAndAncestors (mount_id m) (parentOfFile subPath) w4"
    by (auto simp: includesStr_char)
  with eq s show ?thesis
    by (simp add: parentOfItem_file invalidatePathAndAncestors_absent)
qed

lemma createDirectory_invalidates:
  assumes find: "findMountPointByPath env (normalizePath p True) userId userType
                   = Inr (m, subPath)"
    and ok: "fst (createDirectory env p userId userType w) = Inr ()"
    and ne: "subPath \<noteq> ''/''"
  shows "absent (snd (createDirectory env p userId userType w)) (mount_id m)
           (pathAndAncestors (parentOfItem subPath True))"
proof -
  from ok obtain m' subPath' cfg w1 e s2 putOut s3 where
    find': "findMountPointByPath env (normalizePath p True) userId userType = Inr (m', subPath')"
    and cfg: "s3_configs env (storage_config_id m') = Some cfg"
    and parent: "createDirectory_parentCheck env cfg (normalizeS3SubPath env subPath' cfg True) w
       = (True, w1)"
    and head: "send env (provider w1)
       (HeadObjectCommand (bucket_name cfg) (normalizeS3SubPath env subPath' cfg True))
       = (Inl e, s2)"
    and nf: "httpStatusCode e = Some 404"
    and put: "send env s2
       (PutObjectCommand (bucket_name cfg) (normalizeS3SubPath env subPath' cfg True)
          (Str []) ''application/x-directory'' None)
       = (Inr putOut, s3)"
    by (rule createDirectory_success_cases)
  from find find' have [simp]: "m' = m" "subPath' = subPath" by simp_all
  from find cfg parent head nf put ne
  have "\<exists>w4. snd (createDirectory env p userId userType w)
          = invalidatePathAndAncestors (mount_id m)
              (parentUpTo subPath (int (length subPath) - 2)) w4"
    by (auto simp: createDirectory_def handleFsError_def Let_def sendCommand_def)
  then show ?thesis
    by (auto simp: parentOfItem_directory invalidatePathAndAncestors_absent)
qed

lemma updateFile_try_success:
  assumes "fst (updateFile_try env m subPath cfg key path content w) = Inr r"
  shows "\<exists>w2. snd (updateFile_try env m subPath cfg key path content w)
           = (if 0 < cache_ttl m \<and> subPath \<noteq> ''/'' \<and> includesStr subPath ''/''
              then invalidatePathAndAncestors (mount_id m) (parentOfFile subPath) w2
              else w2)"
proof -
  obtain headResult w1 where head:
    "sendCommand env (HeadObjectCommand (bucket_name cfg) key) w = (headResult, w1)"
    by (cases "sendCommand env (HeadObjectCommand (bucket_name cfg) key) w")
  let ?om = "case headResult of Inl e \<Rightarrow> None | Inr out \<Rightarrow> Some out"
  have "\<exists>fallback. (case content of
                         Str s \<Rightarrow> Some ''text/plain''
                       | ArrayBuffer b \<Rightarrow> Some ''application/octet-stream''
                       | Uint8Array b \<Rightarrow> Some ''application/octet-stream''
                       | OtherContent \<Rightarrow> None) = Some fallback"
    using assms head by (cases content) (simp_all add: updateFile_try_def Let_def)
  then obtain fallback where fb: "(case content of
                         Str s \<Rightarrow> Some ''text/plain''
                       | ArrayBuffer b \<Rightarrow> Some ''application/octet-stream''
                       | Uint8Array b \<Rightarrow> Some ''application/octet-stream''
                       | OtherContent \<Rightarrow> None) = Some fallback" ..
  obtain mimeType mimeGroup where mime:
    "getMimeTypeAndGroupFromFile env (last (split path CHR ''/''))
       (contentTypeOr ?om fallback) = (mimeType, mimeGroup)"
    by (cases "getMimeTypeAndGroupFromFile env (last (split path CHR ''/''))
                 (contentTypeOr ?om fallback)")
  from assms head fb mime have grp: "mimeGroup \<noteq> EXECUTABLE"
    by (auto simp: updateFile_try_def Let_def)
  obtain putResult w2 where put:
    "sendCommand env (PutObjectCommand (bucket_name cfg) key content mimeType
        (case ?om of None \<Rightarrow> None | Some out \<Rightarrow> Metadata out)) w1 = (putResult, w2)"
    by (cases "sendCommand env (PutObjectCommand (bucket_name cfg) key content mimeType
        (case ?om of None \<Rightarrow> None | Some out \<Rightarrow> Metadata out)) w1")
  from assms head fb mime grp put obtain out where out: "putResult = Inr out"
    by (cases putResult) (simp_all add: updateFile_try_def Let_def)
  from head fb mime grp put out show ?thesis
    unfolding updateFile_try_def Let_def by (simp del: includesStr_char) blast
qed

lemma updateFile_invalidates:
  assumes find: "findMountPointByPath env path userId userType = Inr (m, subPath)"
    and ok: "fst (updateFile env path content userId userType w) = Inr r"
    and ttl: "0 < cache_ttl m"
    and ne: "subPath \<noteq> ''/''" and sl: "CHR ''/'' \<in> set subPath"
  shows "absent (snd (updateFile env path content userId userType w)) (mount_id m)
           (pathAndAncestors (parentOfItem subPath False))"
proof (cases "contentTooLarge content")
  case True
  with ok show ?thesis by (simp add: updateFile_def handleFsError_def)
next
  case False
  show ?thesis
  proof (cases "s3_configs env (storage_config_id m)")
    case None
    with False find ok show ?thesis by (simp add: updateFile_def handleFsError_def)
  next
    case (Some cfg)
    let ?r = "updateFile_try env m subPath cfg (normalizeS3SubPath env subPath cfg False) path
                content (updateMountLastUsed (mount_id m) w)"
    from False find Some ok have ok': "fst ?r = Inr r"
      by (cases ?r) (auto simp: updateFile_def handleFsError_def Let_def split: sum.splits)
    with False find Some have s: "snd (updateFile env path content userId userType w) = snd ?r"
      by (cases ?r) (auto simp: updateFile_def handleFsError_def Let_def split: sum.splits)
    from updateFile_try_success [OF ok'] ttl ne sl obtain w2 where
      "snd ?r = invalidatePathAndAncestors (mount_id m) (parentOfFile subPath) w2"
      by (auto simp: includesStr_char)
    with s show ?thesis
      by (simp add: parentOfItem_file invalidatePathAndAncestors_absent)
  qed
qed

end
